theory Spec2Isabelle
  imports Complex_Main "HOL-Library.AList" "HOL-Library.Multiset"
begin

section \<open>JavaScript values and built-ins the connectors rely on\<close>

text \<open>
  The four connectors (\<^verbatim>\<open>binance20.js\<close>, \<^verbatim>\<open>kucoin50.js\<close>, \<^verbatim>\<open>bitmex25.js\<close> and the Kraken
  script) keep a local order book, update it from every WebSocket message and write the
  top levels to a database. Each is modelled by the functions of its script, under their
  names: the message handler \<^verbatim>\<open>handleOrderBook\<close>, which takes the parsed message and the
  book and returns the new book, and \<^verbatim>\<open>insertOrderBookToDB\<close>, which returns the rows it
  writes. A message is what \<^verbatim>\<open>JSON.parse\<close> returned, with the properties the handler reads;
  a property that may be missing is an \<open>option\<close>. (A text that is not JSON makes
  \<^verbatim>\<open>JSON.parse\<close> raise before the handler has looked at anything; the model starts after
  it.) A call of a handler is taken as one step: the rows are computed from the book as
  the call leaves it.

  Prices and sizes arrive as JSON scalars: strings for Binance, Kucoin and Kraken, numbers
  for BitMEX. The type \<open>'n\<close> stands for JavaScript's Number.
\<close>

datatype 'n jval = JStr string | JNum 'n

text \<open>
  \<^verbatim>\<open>ToNumber\<close>, as applied by \<^verbatim>\<open>-\<close>, \<^verbatim>\<open>*\<close> and \<^verbatim>\<open>/\<close>: a Number is itself, a string is
  converted by the built-in conversion \<open>num\<close>, a missing property (\<^verbatim>\<open>undefined\<close>) gives
  the Number \<open>nan\<close>. The built-in arithmetic (\<open>num\<close>, \<open>nan\<close>, multiplication \<open>mul\<close>,
  division \<open>fdiv\<close>) is a parameter of the model.
\<close>

definition to_number :: "(string \<Rightarrow> 'n) \<Rightarrow> 'n jval \<Rightarrow> 'n" where
  "to_number num v = (case v of JNum x \<Rightarrow> x | JStr s \<Rightarrow> num s)"

definition to_number_opt :: "(string \<Rightarrow> 'n) \<Rightarrow> 'n \<Rightarrow> 'n jval option \<Rightarrow> 'n" where
  "to_number_opt num nan v = (case v of None \<Rightarrow> nan | Some w \<Rightarrow> to_number num w)"

text \<open>\<^verbatim>\<open>cfgVolumeFlag\<close>: the \<^verbatim>\<open>switch\<close> statements test it against \<^verbatim>\<open>true\<close> and \<^verbatim>\<open>false\<close>;
  any other configured value reaches \<^verbatim>\<open>default\<close>.\<close>

datatype flag = FTrue | FFalse | FOther

text \<open>The exceptions the modelled code can raise: iterating or indexing \<^verbatim>\<open>undefined\<close>
  (\<^verbatim>\<open>TypeError\<close>) and reading the undeclared variable \<^verbatim>\<open>err\<close> (\<^verbatim>\<open>ReferenceError\<close>).\<close>

datatype error = TypeError | ReferenceError

subsection \<open>Array operations\<close>

text \<open>\<^verbatim>\<open>xs.slice(0, n)\<close> for an integer \<open>n\<close>: a negative end counts from the end of the
  array. The bound is the configured \<^verbatim>\<open>cfgNumLevels\<close>; each script checks it against 1 and
  the venue's maximum when it is loaded.\<close>

definition slice0 :: "int \<Rightarrow> 'a list \<Rightarrow> 'a list" where
  "slice0 n xs = (if n < 0 then take (length xs - nat (- n)) xs else take (nat n) xs)"

text \<open>\<^verbatim>\<open>xs.findIndex(P)\<close>; \<open>None\<close> is the result \<^verbatim>\<open>-1\<close>.\<close>

fun findIndex :: "('a \<Rightarrow> bool) \<Rightarrow> 'a list \<Rightarrow> nat option" where
  "findIndex P [] = None"
| "findIndex P (x # xs) = (if P x then Some 0 else map_option Suc (findIndex P xs))"

text \<open>\<^verbatim>\<open>xs.splice(i, 1)\<close>: remove the element at index \<open>i\<close>.\<close>

definition splice1 :: "nat \<Rightarrow> 'a list \<Rightarrow> 'a list" where
  "splice1 i xs = take i xs @ drop (Suc i) xs"

text \<open>
  \<^verbatim>\<open>xs.sort(cmp)\<close> and lodash's \<^verbatim>\<open>_.orderBy\<close> are stable sorts. For a comparator that
  orders the elements by a key, the result is the one stable arrangement, which insertion
  from the right computes; \<open>le a b\<close> says that the comparator does not put \<open>b\<close> before
  \<open>a\<close>. The comparators of the connectors subtract two prices: on Numbers other than NaN
  the sign of the difference is the numeric order, which the linear order of \<open>'n\<close> stands
  for. (With a NaN price the comparator is inconsistent and the result of \<^verbatim>\<open>sort\<close> is left
  to the implementation; the model does not cover such books.)
\<close>

fun insort_by :: "('a \<Rightarrow> 'a \<Rightarrow> bool) \<Rightarrow> 'a \<Rightarrow> 'a list \<Rightarrow> 'a list" where
  "insort_by le x [] = [x]"
| "insort_by le x (y # ys) = (if le x y then x # y # ys else y # insort_by le x ys)"

definition sort_by :: "('a \<Rightarrow> 'a \<Rightarrow> bool) \<Rightarrow> 'a list \<Rightarrow> 'a list" where
  "sort_by le xs = foldr (insort_by le) xs []"

text \<open>\<^verbatim>\<open>(a, b) => f(a) - f(b)\<close> (ascending) and \<^verbatim>\<open>(a, b) => f(b) - f(a)\<close> (descending).\<close>

definition asc :: "('a \<Rightarrow> 'k::linorder) \<Rightarrow> 'a \<Rightarrow> 'a \<Rightarrow> bool" where
  "asc f a b = (f a \<le> f b)"

definition desc :: "('a \<Rightarrow> 'k::linorder) \<Rightarrow> 'a \<Rightarrow> 'a \<Rightarrow> bool" where
  "desc f a b = (f b \<le> f a)"

subsection \<open>The rows handed to the database\<close>

text \<open>
  A value interpolated into the \<^verbatim>\<open>INSERT\<close> statement is either a value of the book as
  it came from the wire (\<open>Raw\<close>; \<open>None\<close> is \<^verbatim>\<open>undefined\<close>) or a Number the script
  computed (\<open>Calc\<close>).
\<close>

datatype 'n cell = Raw "'n jval option" | Calc 'n

record 'n row =
  timestamp :: string
  platform :: string
  order_level :: nat
  order_type :: string
  row_price :: "'n cell"
  volume :: "'n cell"

subsection \<open>A concrete Number type for evaluating the connectors\<close>

text \<open>
  The theorems below hold for every interpretation of the built-in arithmetic. To run the
  model on concrete messages, Numbers are interpreted as exact rationals extended by the
  infinities and NaN; rounding, overflow and the sign of zero are not represented.
\<close>

datatype jsnum = NegInf | Fin rat | PosInf | NaN

fun js_rank :: "jsnum \<Rightarrow> nat" where
  "js_rank NegInf = 0"
| "js_rank (Fin r) = 1"
| "js_rank PosInf = 2"
| "js_rank NaN = 3"

fun js_le :: "jsnum \<Rightarrow> jsnum \<Rightarrow> bool" where
  "js_le (Fin a) (Fin b) = (a \<le> b)"
| "js_le a b = (js_rank a \<le> js_rank b)"

instantiation jsnum :: linorder
begin

definition less_eq_jsnum :: "jsnum \<Rightarrow> jsnum \<Rightarrow> bool" where
  "less_eq_jsnum a b = js_le a b"

definition less_jsnum :: "jsnum \<Rightarrow> jsnum \<Rightarrow> bool" where
  "less_jsnum a b = (js_le a b \<and> \<not> js_le b a)"

instance
proof
  fix x y z :: jsnum
  show "(x < y) = (x \<le> y \<and> \<not> y \<le> x)"
    by (simp add: less_jsnum_def less_eq_jsnum_def)
  show "x \<le> x"
    by (cases x) (simp_all add: less_eq_jsnum_def)
  show "x \<le> y \<Longrightarrow> y \<le> z \<Longrightarrow> x \<le> z"
    by (cases x; cases y; cases z) (simp_all add: less_eq_jsnum_def)
  show "x \<le> y \<Longrightarrow> y \<le> x \<Longrightarrow> x = y"
    by (cases x; cases y) (simp_all add: less_eq_jsnum_def)
  show "x \<le> y \<or> y \<le> x"
    by (cases x; cases y) (auto simp add: less_eq_jsnum_def)
qed

end

text \<open>\<^verbatim>\<open>a * b\<close> and \<^verbatim>\<open>a / b\<close> on these Numbers; division by zero gives an infinity or
  NaN and raises nothing.\<close>

definition js_sign :: "jsnum \<Rightarrow> int" where
  "js_sign a = (case a of NegInf \<Rightarrow> - 1 | PosInf \<Rightarrow> 1 | NaN \<Rightarrow> 0
                | Fin r \<Rightarrow> (if r < 0 then - 1 else if r = 0 then 0 else 1))"

definition js_inf :: "int \<Rightarrow> jsnum" where
  "js_inf s = (if s < 0 then NegInf else if s = 0 then NaN else PosInf)"

fun js_mul :: "jsnum \<Rightarrow> jsnum \<Rightarrow> jsnum" where
  "js_mul NaN b = NaN"
| "js_mul a NaN = NaN"
| "js_mul (Fin a) (Fin b) = Fin (a * b)"
| "js_mul a b = js_inf (js_sign a * js_sign b)"

fun js_div :: "jsnum \<Rightarrow> jsnum \<Rightarrow> jsnum" where
  "js_div NaN b = NaN"
| "js_div a NaN = NaN"
| "js_div (Fin a) (Fin b) = (if b = 0 then js_inf (js_sign (Fin a)) else Fin (a / b))"
| "js_div (Fin a) b = Fin 0"
| "js_div a (Fin b) = js_inf (js_sign a * (if b < 0 then - 1 else 1))"
| "js_div a b = NaN"

text \<open>The conversion of a string to a Number, for the plain decimal literals (digits,
  optionally a point and more digits) that the concrete runs use; any other string is
  taken to NaN here.\<close>

definition digit_of :: "char \<Rightarrow> nat option" where
  "digit_of c =
     map_of [(CHR ''0'', 0), (CHR ''1'', 1), (CHR ''2'', 2), (CHR ''3'', 3), (CHR ''4'', 4),
             (CHR ''5'', 5), (CHR ''6'', 6), (CHR ''7'', 7), (CHR ''8'', 8), (CHR ''9'', 9)] c"

fun digits_of :: "nat \<Rightarrow> string \<Rightarrow> nat option" where
  "digits_of acc [] = Some acc"
| "digits_of acc (c # cs) =
     (case digit_of c of None \<Rightarrow> None | Some d \<Rightarrow> digits_of (10 * acc + d) cs)"

definition js_num :: "string \<Rightarrow> jsnum" where
  "js_num s =
     (let ip = takeWhile (\<lambda>c. c \<noteq> CHR ''.'') s;
          fp = drop (Suc (length ip)) s
      in if ip = [] \<or> (fp = [] \<and> length ip < length s) then NaN
         else (case (digits_of 0 ip, digits_of 0 fp) of
                 (Some i, Some f) \<Rightarrow> Fin (of_nat i + of_nat f / 10 ^ length fp)
               | _ \<Rightarrow> NaN))"


section \<open>Binance: \<^verbatim>\<open>binance20.js\<close>\<close>

text \<open>The book is one array of \<^verbatim>\<open>{price, quantity, side}\<close> objects; \<^verbatim>\<open>side\<close> is one of the
  two literals \<^verbatim>\<open>'Buy'\<close> and \<^verbatim>\<open>'Sell'\<close>.\<close>

datatype side = Buy | Sell

record 'n order =
  price :: "'n jval"
  quantity :: "'n jval"
  side :: side

text \<open>The REST snapshot: every bid, then every ask, is pushed onto the book.\<close>

definition binance_snapshot ::
  "('n jval \<times> 'n jval) list \<Rightarrow> ('n jval \<times> 'n jval) list \<Rightarrow> 'n order list \<Rightarrow> 'n order list" where
  "binance_snapshot bids asks orderBook =
     orderBook @ map (\<lambda>bid. \<lparr>price = fst bid, quantity = snd bid, side = Buy\<rparr>) bids
               @ map (\<lambda>ask. \<lparr>price = fst ask, quantity = snd ask, side = Sell\<rparr>) asks"

text \<open>The body of the two \<^verbatim>\<open>for\<close> loops of \<^verbatim>\<open>handleOrderBook\<close>, for one \<^verbatim>\<open>[price, quantity]\<close>
  entry of the side \<open>sd\<close>.\<close>

definition binance_update :: "side \<Rightarrow> 'n jval \<times> 'n jval \<Rightarrow> 'n order list \<Rightarrow> 'n order list" where
  "binance_update sd entry orderBook =
     (let index = findIndex (\<lambda>order. price order = fst entry \<and> side order = sd) orderBook
      in if snd entry = JStr ''0.00000000''
         then (case index of Some i \<Rightarrow> splice1 i orderBook | None \<Rightarrow> orderBook)
         else (case index of
                 Some i \<Rightarrow> orderBook[i := (orderBook ! i)\<lparr>quantity := snd entry\<rparr>]
               | None \<Rightarrow> orderBook @ [\<lparr>price = fst entry, quantity = snd entry, side = sd\<rparr>]))"

text \<open>The first two statements of \<^verbatim>\<open>insertOrderBookToDB\<close>: the projection of each side.\<close>

definition binance_bids :: "(string \<Rightarrow> 'n::linorder) \<Rightarrow> int \<Rightarrow> 'n order list \<Rightarrow> 'n order list" where
  "binance_bids num cfgNumLevels orderBook =
     slice0 cfgNumLevels
       (sort_by (desc (\<lambda>order. to_number num (price order)))
          (filter (\<lambda>order. side order = Buy) orderBook))"

definition binance_asks :: "(string \<Rightarrow> 'n::linorder) \<Rightarrow> int \<Rightarrow> 'n order list \<Rightarrow> 'n order list" where
  "binance_asks num cfgNumLevels orderBook =
     slice0 cfgNumLevels
       (sort_by (asc (\<lambda>order. to_number num (price order)))
          (filter (\<lambda>order. side order = Sell) orderBook))"

text \<open>The \<^verbatim>\<open>switch (cfgVolumeFlag)\<close>: the \<^verbatim>\<open>default\<close> branch evaluates the undeclared
  variable \<^verbatim>\<open>err\<close>.\<close>

definition binance_volume ::
  "(string \<Rightarrow> 'n) \<Rightarrow> ('n \<Rightarrow> 'n \<Rightarrow> 'n) \<Rightarrow> flag \<Rightarrow> 'n order \<Rightarrow> error + 'n cell" where
  "binance_volume num mul cfgVolumeFlag order =
     (case cfgVolumeFlag of
        FTrue \<Rightarrow> Inr (Raw (Some (quantity order)))
      | FFalse \<Rightarrow> Inr (Calc (mul (to_number num (price order)) (to_number num (quantity order))))
      | FOther \<Rightarrow> Inl ReferenceError)"

text \<open>One of the two insertion loops, from index \<open>i\<close>: the rows written, and the exception
  that stopped the loop, if any.\<close>

fun binance_insert_loop ::
  "(string \<Rightarrow> 'n) \<Rightarrow> ('n \<Rightarrow> 'n \<Rightarrow> 'n) \<Rightarrow> flag \<Rightarrow> string \<Rightarrow> string \<Rightarrow> nat \<Rightarrow> 'n order list
     \<Rightarrow> 'n row list \<times> error option" where
  "binance_insert_loop num mul cfgVolumeFlag ts typ i [] = ([], None)"
| "binance_insert_loop num mul cfgVolumeFlag ts typ i (order # rest) =
     (case binance_volume num mul cfgVolumeFlag order of
        Inl e \<Rightarrow> ([], Some e)
      | Inr v \<Rightarrow>
          (let r = \<lparr>timestamp = ts, platform = ''Binance'', order_level = i + 1,
                    order_type = typ, row_price = Raw (Some (price order)), volume = v\<rparr>;
               res = binance_insert_loop num mul cfgVolumeFlag ts typ (i + 1) rest
           in (r # fst res, snd res)))"

definition binance_insertOrderBookToDB ::
  "(string \<Rightarrow> 'n::linorder) \<Rightarrow> ('n \<Rightarrow> 'n \<Rightarrow> 'n) \<Rightarrow> int \<Rightarrow> flag \<Rightarrow> 'n order list \<Rightarrow> string
     \<Rightarrow> 'n row list \<times> error option" where
  "binance_insertOrderBookToDB num mul cfgNumLevels cfgVolumeFlag orderBook ts =
     (let bids = binance_bids num cfgNumLevels orderBook;
          asks = binance_asks num cfgNumLevels orderBook;
          rb = binance_insert_loop num mul cfgVolumeFlag ts ''Bid'' 0 bids
      in case snd rb of
           Some e \<Rightarrow> rb
         | None \<Rightarrow>
             (let ra = binance_insert_loop num mul cfgVolumeFlag ts ''Ask'' 0 asks
              in (fst rb @ fst ra, snd ra)))"

text \<open>
  What a call of a message handler leaves behind: the book, the rows written for the
  message, the lines printed on the way (those that report the answer of the database
  apart), and the exception it ended with, if any.
\<close>

record ('b, 'n) outcome =
  book :: 'b
  rows :: "'n row list"
  logs :: "string list"
  raised :: "error option"

text \<open>A parsed depth message; a property the message lacks is \<open>None\<close>, and \<^verbatim>\<open>for ... of\<close>
  over it raises a \<^verbatim>\<open>TypeError\<close>.\<close>

record 'n depth_msg =
  msg_bids :: "('n jval \<times> 'n jval) list option"
  msg_asks :: "('n jval \<times> 'n jval) list option"

definition binance_handleOrderBook ::
  "(string \<Rightarrow> 'n::linorder) \<Rightarrow> ('n \<Rightarrow> 'n \<Rightarrow> 'n) \<Rightarrow> int \<Rightarrow> flag \<Rightarrow> string \<Rightarrow> 'n depth_msg
     \<Rightarrow> 'n order list \<Rightarrow> ('n order list, 'n) outcome" where
  "binance_handleOrderBook num mul cfgNumLevels cfgVolumeFlag ts message orderBook =
     (case msg_bids message of
        None \<Rightarrow> \<lparr>book = orderBook, rows = [], logs = [], raised = Some TypeError\<rparr>
      | Some bs \<Rightarrow>
          (let ob1 = fold (binance_update Buy) bs orderBook
           in case msg_asks message of
                None \<Rightarrow> \<lparr>book = ob1, rows = [], logs = [], raised = Some TypeError\<rparr>
              | Some as \<Rightarrow>
                  (let ob2 = fold (binance_update Sell) as ob1;
                       res = binance_insertOrderBookToDB num mul cfgNumLevels cfgVolumeFlag ob2 ts
                   in \<lparr>book = ob2, rows = fst res, logs = [], raised = snd res\<rparr>)))"

section \<open>Kucoin: \<^verbatim>\<open>kucoin50.js\<close>\<close>

text \<open>The book holds two arrays of \<^verbatim>\<open>[price, size]\<close> levels.\<close>

record 'n kucoin_book =
  kc_asks :: "('n jval \<times> 'n jval) list"
  kc_bids :: "('n jval \<times> 'n jval) list"

text \<open>The REST snapshot keeps the first 50 levels of each side, in the order received.\<close>

definition kucoin_snapshot ::
  "('n jval \<times> 'n jval) list \<Rightarrow> ('n jval \<times> 'n jval) list \<Rightarrow> 'n kucoin_book" where
  "kucoin_snapshot bids asks = \<lparr>kc_asks = slice0 50 asks, kc_bids = slice0 50 bids\<rparr>"

text \<open>
  The body of \<^verbatim>\<open>changes.forEach\<close> for one change of the side \<open>is_asks\<close>: \<^verbatim>\<open>find\<close> returns the
  first level with the price, whose size is then overwritten in place; the levels are
  sorted and cut to 50 after every change.
\<close>

definition kucoin_change ::
  "(string \<Rightarrow> 'n::linorder) \<Rightarrow> bool \<Rightarrow> 'n jval \<times> 'n jval \<Rightarrow> ('n jval \<times> 'n jval) list
     \<Rightarrow> ('n jval \<times> 'n jval) list" where
  "kucoin_change num is_asks change levels0 =
     (let price = fst change; size = snd change;
          levels =
            (if size = JStr ''0'' then filter (\<lambda>level. fst level \<noteq> price) levels0
             else (case findIndex (\<lambda>level. fst level = price) levels0 of
                     Some i \<Rightarrow> levels0[i := (fst (levels0 ! i), size)]
                   | None \<Rightarrow> levels0 @ [(price, size)]))
      in slice0 50
           (sort_by (if is_asks then asc (\<lambda>level. to_number num (fst level))
                     else desc (\<lambda>level. to_number num (fst level))) levels))"

record 'n kucoin_msg =
  msg_type :: "'n jval option"
  msg_subject :: "'n jval option"
  changes_asks :: "('n jval \<times> 'n jval) list"
  changes_bids :: "('n jval \<times> 'n jval) list"

text \<open>\<^verbatim>\<open>insertOrderBooktoDB\<close>: one row per stored level, bids first; \<^verbatim>\<open>cfgNumLevels\<close> is read
  from the configuration at the top of the script and not used here.\<close>

fun kucoin_values ::
  "string \<Rightarrow> string \<Rightarrow> nat \<Rightarrow> ('n jval \<times> 'n jval) list \<Rightarrow> 'n row list" where
  "kucoin_values ts typ index [] = []"
| "kucoin_values ts typ index (order # rest) =
     \<lparr>timestamp = ts, platform = ''Kucoin'', order_level = index + 1, order_type = typ,
      row_price = Raw (Some (fst order)), volume = Raw (Some (snd order))\<rparr>
     # kucoin_values ts typ (index + 1) rest"

definition kucoin_insertOrderBooktoDB :: "'n kucoin_book \<Rightarrow> string \<Rightarrow> 'n row list" where
  "kucoin_insertOrderBooktoDB orderbook ts =
     kucoin_values ts ''bids'' 0 (kc_bids orderbook) @ kucoin_values ts ''asks'' 0 (kc_asks orderbook)"

definition kucoin_handleOrderBook ::
  "(string \<Rightarrow> 'n::linorder) \<Rightarrow> string \<Rightarrow> 'n kucoin_msg \<Rightarrow> 'n kucoin_book
     \<Rightarrow> ('n kucoin_book, 'n) outcome" where
  "kucoin_handleOrderBook num ts message orderBook =
     (if msg_type message = Some (JStr ''message'')
         \<and> msg_subject message = Some (JStr ''trade.l2update'')
      then (let ob1 = orderBook\<lparr>kc_asks := fold (kucoin_change num True) (changes_asks message)
                                             (kc_asks orderBook)\<rparr>;
                ob2 = ob1\<lparr>kc_bids := fold (kucoin_change num False) (changes_bids message)
                                      (kc_bids ob1)\<rparr>
            in \<lparr>book = ob2, rows = kucoin_insertOrderBooktoDB ob2 ts, logs = [], raised = None\<rparr>)
      else \<lparr>book = orderBook, rows = [], logs = [], raised = None\<rparr>)"


section \<open>JavaScript objects\<close>

text \<open>
  An object with string keys is the list of its properties in creation order. Reading a
  missing property gives \<^verbatim>\<open>undefined\<close> (\<open>None\<close>); assigning to an existing key keeps its
  position, assigning to a new key appends it; \<^verbatim>\<open>delete\<close> of a missing key does nothing.
\<close>

type_synonym 'n obj = "(string \<times> 'n jval) list"

definition get_prop :: "'n obj \<Rightarrow> string \<Rightarrow> 'n jval option" where
  "get_prop ob k = map_of ob k"

definition obj_set :: "string \<Rightarrow> 'n jval \<Rightarrow> 'n obj \<Rightarrow> 'n obj" where
  "obj_set k v ob = AList.update k v ob"

definition obj_delete :: "string \<Rightarrow> 'n obj \<Rightarrow> 'n obj" where
  "obj_delete k ob = AList.delete k ob"

text \<open>The object spread \<^verbatim>\<open>{...a, ...b}\<close>: the properties of \<open>a\<close>, overwritten and extended
  by those of \<open>b\<close>.\<close>

definition spread :: "'n obj \<Rightarrow> 'n obj \<Rightarrow> 'n obj" where
  "spread a b = fold (\<lambda>kv. obj_set (fst kv) (snd kv)) b a"

text \<open>
  Enumeration of the own properties (\<^verbatim>\<open>_.toPairs\<close>): keys that are array indices (canonical
  decimal numerals below \<open>2^32 - 1\<close>) come first, in ascending numeric order, then the
  other keys in creation order.
\<close>

definition index_value :: "string \<Rightarrow> nat" where
  "index_value k = (case digits_of 0 k of Some v \<Rightarrow> v | None \<Rightarrow> 0)"

definition is_array_index :: "string \<Rightarrow> bool" where
  "is_array_index k =
     (k \<noteq> [] \<and> digits_of 0 k \<noteq> None \<and> (hd k \<noteq> CHR ''0'' \<or> k = ''0'')
      \<and> index_value k < 2 ^ 32 - 1)"

definition toPairs :: "'n obj \<Rightarrow> (string \<times> 'n jval) list" where
  "toPairs ob =
     sort_key (\<lambda>kv. index_value (fst kv)) (filter (\<lambda>kv. is_array_index (fst kv)) ob)
     @ filter (\<lambda>kv. \<not> is_array_index (fst kv)) ob"

text \<open>\<^verbatim>\<open>_.fromPairs\<close>: assigns \<^verbatim>\<open>pair[1]\<close> to the key \<^verbatim>\<open>pair[0]\<close>, pair after pair.\<close>

definition fromPairs :: "(string \<times> 'n jval) list \<Rightarrow> 'n obj" where
  "fromPairs pairs = fold (\<lambda>pair. obj_set (fst pair) (snd pair)) pairs []"

section \<open>BitMEX: \<^verbatim>\<open>bitmex25.js\<close>\<close>

text \<open>
  The book is the array of order objects as BitMEX sent them (\<^verbatim>\<open>id\<close>, \<^verbatim>\<open>side\<close>, \<^verbatim>\<open>price\<close>,
  \<^verbatim>\<open>size\<close> and whatever else the message carries). \<^verbatim>\<open>lastInsertedOrderBook\<close> starts
  \<^verbatim>\<open>undefined\<close> (\<open>None\<close>).
\<close>

record 'n bitmex_state =
  orderBook :: "'n obj list"
  lastInsertedOrderBook :: "'n obj list option"

record 'n bitmex_msg =
  msg_table :: "'n jval option"
  msg_action :: "'n jval option"
  msg_data :: "'n obj list"

text \<open>The body of the \<^verbatim>\<open>for (const update of updates)\<close> loop.\<close>

definition bitmex_apply :: "'n jval option \<Rightarrow> 'n obj \<Rightarrow> 'n obj list \<Rightarrow> 'n obj list" where
  "bitmex_apply action update ob =
     (if action = Some (JStr ''insert'') then ob @ [update]
      else if action = Some (JStr ''update'') then
        (case findIndex (\<lambda>item. get_prop item ''id'' = get_prop update ''id'') ob of
           Some index \<Rightarrow> ob[index := spread (ob ! index) update]
         | None \<Rightarrow> ob)
      else if action = Some (JStr ''delete'') then
        (case findIndex (\<lambda>item. get_prop item ''id'' = get_prop update ''id'') ob of
           Some index \<Rightarrow> splice1 index ob
         | None \<Rightarrow> ob)
      else ob)"

text \<open>The two sorted sides computed by \<^verbatim>\<open>insertOrderBookToDB\<close>.\<close>

definition bitmex_bids :: "(string \<Rightarrow> 'n::linorder) \<Rightarrow> 'n \<Rightarrow> 'n obj list \<Rightarrow> 'n obj list" where
  "bitmex_bids num nan ob =
     sort_by (desc (\<lambda>order. to_number_opt num nan (get_prop order ''price'')))
       (filter (\<lambda>order. get_prop order ''side'' = Some (JStr ''Buy'')) ob)"

definition bitmex_asks :: "(string \<Rightarrow> 'n::linorder) \<Rightarrow> 'n \<Rightarrow> 'n obj list \<Rightarrow> 'n obj list" where
  "bitmex_asks num nan ob =
     sort_by (asc (\<lambda>order. to_number_opt num nan (get_prop order ''price'')))
       (filter (\<lambda>order. get_prop order ''side'' = Some (JStr ''Sell'')) ob)"

text \<open>
  The \<^verbatim>\<open>switch (cfgVolumeFlag)\<close> of the bid loop and of the ask loop. The \<^verbatim>\<open>default\<close> branch
  of the bid loop evaluates the undeclared variable \<^verbatim>\<open>err\<close>; that of the ask loop only
  prints and keeps \<^verbatim>\<open>order.size\<close>.
\<close>

definition bitmex_volumeBid ::
  "(string \<Rightarrow> 'n) \<Rightarrow> 'n \<Rightarrow> ('n \<Rightarrow> 'n \<Rightarrow> 'n) \<Rightarrow> flag \<Rightarrow> 'n obj \<Rightarrow> error + 'n cell" where
  "bitmex_volumeBid num nan fdiv cfgVolumeFlag order =
     (case cfgVolumeFlag of
        FTrue \<Rightarrow> Inr (Calc (fdiv (to_number_opt num nan (get_prop order ''size''))
                                (to_number_opt num nan (get_prop order ''price''))))
      | FFalse \<Rightarrow> Inr (Raw (get_prop order ''size''))
      | FOther \<Rightarrow> Inl ReferenceError)"

definition bitmex_volumeAsk ::
  "(string \<Rightarrow> 'n) \<Rightarrow> 'n \<Rightarrow> ('n \<Rightarrow> 'n \<Rightarrow> 'n) \<Rightarrow> flag \<Rightarrow> 'n obj \<Rightarrow> error + 'n cell" where
  "bitmex_volumeAsk num nan fdiv cfgVolumeFlag order =
     (case cfgVolumeFlag of
        FTrue \<Rightarrow> Inr (Calc (fdiv (to_number_opt num nan (get_prop order ''size''))
                                (to_number_opt num nan (get_prop order ''price''))))
      | FFalse \<Rightarrow> Inr (Raw (get_prop order ''size''))
      | FOther \<Rightarrow> Inr (Raw (get_prop order ''size'')))"

fun bitmex_insert_loop ::
  "('n obj \<Rightarrow> error + 'n cell) \<Rightarrow> string \<Rightarrow> string \<Rightarrow> nat \<Rightarrow> 'n obj list
     \<Rightarrow> 'n row list \<times> error option" where
  "bitmex_insert_loop vol ts typ i [] = ([], None)"
| "bitmex_insert_loop vol ts typ i (order # rest) =
     (case vol order of
        Inl e \<Rightarrow> ([], Some e)
      | Inr v \<Rightarrow>
          (let r = \<lparr>timestamp = ts, platform = ''BitMEX'', order_level = i + 1,
                    order_type = typ, row_price = Raw (get_prop order ''price''), volume = v\<rparr>;
               res = bitmex_insert_loop vol ts typ (i + 1) rest
           in (r # fst res, snd res)))"

text \<open>The rows written once the check against \<^verbatim>\<open>lastInsertedOrderBook\<close> has passed.\<close>

definition bitmex_write ::
  "(string \<Rightarrow> 'n::linorder) \<Rightarrow> 'n \<Rightarrow> ('n \<Rightarrow> 'n \<Rightarrow> 'n) \<Rightarrow> int \<Rightarrow> flag \<Rightarrow> 'n obj list \<Rightarrow> string
     \<Rightarrow> 'n row list \<times> error option" where
  "bitmex_write num nan fdiv cfgNumLevels cfgVolumeFlag ob ts =
     (let bids = bitmex_bids num nan ob;
          asks = bitmex_asks num nan ob;
          rb = bitmex_insert_loop (bitmex_volumeBid num nan fdiv cfgVolumeFlag) ts ''Bid'' 0
                 (slice0 cfgNumLevels bids)
      in case snd rb of
           Some e \<Rightarrow> rb
         | None \<Rightarrow>
             (let ra = bitmex_insert_loop (bitmex_volumeAsk num nan fdiv cfgVolumeFlag) ts ''Ask'' 0
                         (slice0 cfgNumLevels asks)
              in (fst rb @ fst ra, snd ra)))"

text \<open>
  \<^verbatim>\<open>insertOrderBookToDB\<close>: the book is compared, through \<^verbatim>\<open>JSON.stringify\<close>, with the book
  stored at the last insertion; two arrays of parsed JSON objects have the same text
  exactly when they are equal, property by property and in order. An equal book is
  skipped (\<open>None\<close>) and leaves \<^verbatim>\<open>lastInsertedOrderBook\<close> as it was; otherwise a copy of the
  book is stored and the rows are written.
\<close>

definition bitmex_insertOrderBookToDB ::
  "(string \<Rightarrow> 'n::linorder) \<Rightarrow> 'n \<Rightarrow> ('n \<Rightarrow> 'n \<Rightarrow> 'n) \<Rightarrow> int \<Rightarrow> flag \<Rightarrow> 'n obj list \<Rightarrow> string
     \<Rightarrow> 'n obj list option \<Rightarrow> 'n obj list option \<times> ('n row list \<times> error option) option" where
  "bitmex_insertOrderBookToDB num nan fdiv cfgNumLevels cfgVolumeFlag ob ts lastInserted =
     (if Some ob = lastInserted then (lastInserted, None)
      else (Some ob, Some (bitmex_write num nan fdiv cfgNumLevels cfgVolumeFlag ob ts)))"

text \<open>The lines \<^verbatim>\<open>insertOrderBookToDB\<close> prints: the skip, and the \<^verbatim>\<open>default\<close> branch of the ask
  loop, once per ask row.\<close>

definition bitmex_insert_logs ::
  "int \<Rightarrow> flag \<Rightarrow> ('n row list \<times> error option) option \<Rightarrow> string list" where
  "bitmex_insert_logs cfgNumLevels cfgVolumeFlag res =
     (case res of
        None \<Rightarrow> [''Insertion Skipped'']
      | Some w \<Rightarrow>
          (if cfgVolumeFlag = FOther
           then replicate (length (filter (\<lambda>r. order_type r = ''Ask'') (fst w)))
                  ''volumeFlag: Unexpected Value''
           else []))"

definition bitmex_insert_step ::
  "(string \<Rightarrow> 'n::linorder) \<Rightarrow> 'n \<Rightarrow> ('n \<Rightarrow> 'n \<Rightarrow> 'n) \<Rightarrow> int \<Rightarrow> flag \<Rightarrow> string \<Rightarrow> 'n obj list
     \<Rightarrow> 'n obj list option \<Rightarrow> ('n bitmex_state, 'n) outcome" where
  "bitmex_insert_step num nan fdiv cfgNumLevels cfgVolumeFlag ts ob lastInserted =
     (let res = bitmex_insertOrderBookToDB num nan fdiv cfgNumLevels cfgVolumeFlag ob ts lastInserted
      in \<lparr>book = \<lparr>orderBook = ob, lastInsertedOrderBook = fst res\<rparr>,
          rows = (case snd res of None \<Rightarrow> [] | Some w \<Rightarrow> fst w),
          logs = bitmex_insert_logs cfgNumLevels cfgVolumeFlag (snd res),
          raised = (case snd res of None \<Rightarrow> None | Some w \<Rightarrow> snd w)\<rparr>)"

definition bitmex_handleOrderBook ::
  "(string \<Rightarrow> 'n::linorder) \<Rightarrow> 'n \<Rightarrow> ('n \<Rightarrow> 'n \<Rightarrow> 'n) \<Rightarrow> int \<Rightarrow> flag \<Rightarrow> string \<Rightarrow> 'n bitmex_msg
     \<Rightarrow> 'n bitmex_state \<Rightarrow> ('n bitmex_state, 'n) outcome" where
  "bitmex_handleOrderBook num nan fdiv cfgNumLevels cfgVolumeFlag ts message st =
     (if msg_table message = Some (JStr ''orderBookL2_25'')
         \<and> msg_action message = Some (JStr ''partial'')
      then bitmex_insert_step num nan fdiv cfgNumLevels cfgVolumeFlag ts (msg_data message)
             (lastInsertedOrderBook st)
      else if msg_table message = Some (JStr ''orderBookL2_25'')
         \<and> msg_action message \<noteq> Some (JStr ''partial'')
      then bitmex_insert_step num nan fdiv cfgNumLevels cfgVolumeFlag ts
             (fold (bitmex_apply (msg_action message)) (msg_data message) (orderBook st))
             (lastInsertedOrderBook st)
      else \<lparr>book = st, rows = [], logs = [], raised = None\<rparr>)"

section \<open>Kraken\<close>

text \<open>
  \<^verbatim>\<open>orderbook\<close> starts as the empty object \<^verbatim>\<open>{}\<close>, whose \<^verbatim>\<open>asks\<close> and \<^verbatim>\<open>bids\<close> are
  \<^verbatim>\<open>undefined\<close> (\<open>None\<close>); a snapshot replaces it by \<^verbatim>\<open>{asks, bids}\<close>, two objects keyed by
  the price string.
\<close>

record 'n kraken_book =
  kr_asks :: "'n obj option"
  kr_bids :: "'n obj option"

text \<open>\<^verbatim>\<open>message[1]\<close>, when the message has one: its properties \<^verbatim>\<open>as\<close>, \<^verbatim>\<open>bs\<close>, \<^verbatim>\<open>a\<close>, \<^verbatim>\<open>b\<close>, each
  an array of \<^verbatim>\<open>[price, volume, ...]\<close> entries or missing.\<close>

record 'n kraken_payload =
  p_as :: "(string \<times> 'n jval) list option"
  p_bs :: "(string \<times> 'n jval) list option"
  p_a :: "(string \<times> 'n jval) list option"
  p_b :: "(string \<times> 'n jval) list option"

text \<open>The body of the two \<^verbatim>\<open>forEach\<close> loops over updates.\<close>

definition kraken_update :: "string \<times> 'n jval \<Rightarrow> 'n obj \<Rightarrow> 'n obj" where
  "kraken_update update levels =
     (if snd update = JStr ''0.00000000'' then obj_delete (fst update) levels
      else obj_set (fst update) (snd update) levels)"

text \<open>One \<^verbatim>\<open>forEach\<close> loop: on a side that is still \<^verbatim>\<open>undefined\<close> the first update raises
  a \<^verbatim>\<open>TypeError\<close>.\<close>

definition kraken_updates ::
  "(string \<times> 'n jval) list \<Rightarrow> 'n obj option \<Rightarrow> error + 'n obj option" where
  "kraken_updates updates levels =
     (case levels of
        None \<Rightarrow> (if updates = [] then Inr None else Inl TypeError)
      | Some lv \<Rightarrow> Inr (Some (fold kraken_update updates lv)))"

text \<open>The first part of \<^verbatim>\<open>handleOrderBook\<close>, up to the sorting: the \<^verbatim>\<open>orderbook\<close> it leaves,
  and the exception raised, if any.\<close>

definition kraken_apply ::
  "'n kraken_payload option \<Rightarrow> 'n kraken_book \<Rightarrow> 'n kraken_book \<times> error option" where
  "kraken_apply message1 orderbook =
     (case message1 of
        None \<Rightarrow> (orderbook, None)
      | Some m \<Rightarrow>
          (case (p_as m, p_bs m) of
             (Some as, Some bs) \<Rightarrow>
               (\<lparr>kr_asks = Some (fromPairs as), kr_bids = Some (fromPairs bs)\<rparr>, None)
           | _ \<Rightarrow>
               (if p_a m \<noteq> None \<or> p_b m \<noteq> None
                then (case (case p_a m of None \<Rightarrow> Inr (kr_asks orderbook)
                            | Some us \<Rightarrow> kraken_updates us (kr_asks orderbook)) of
                        Inl e \<Rightarrow> (orderbook, Some e)
                      | Inr new_asks \<Rightarrow>
                          (let ob1 = orderbook\<lparr>kr_asks := new_asks\<rparr>
                           in case (case p_b m of None \<Rightarrow> Inr (kr_bids ob1)
                                    | Some us \<Rightarrow> kraken_updates us (kr_bids ob1)) of
                                Inl e \<Rightarrow> (ob1, Some e)
                              | Inr new_bids \<Rightarrow> (ob1\<lparr>kr_bids := new_bids\<rparr>, None)))
                else (orderbook, None))))"

text \<open>\<^verbatim>\<open>orderedBook\<close>: both sides ordered by \<^verbatim>\<open>parseFloat\<close> of the price key, here \<open>pf\<close>;
  \<^verbatim>\<open>_.toPairs(undefined)\<close> is the empty array.\<close>

definition kraken_ordered_asks :: "(string \<Rightarrow> 'n::linorder) \<Rightarrow> 'n kraken_book
     \<Rightarrow> (string \<times> 'n jval) list" where
  "kraken_ordered_asks pf orderbook =
     sort_by (asc (\<lambda>x. pf (fst x)))
       (case kr_asks orderbook of None \<Rightarrow> [] | Some levels \<Rightarrow> toPairs levels)"

definition kraken_ordered_bids :: "(string \<Rightarrow> 'n::linorder) \<Rightarrow> 'n kraken_book
     \<Rightarrow> (string \<times> 'n jval) list" where
  "kraken_ordered_bids pf orderbook =
     sort_by (desc (\<lambda>x. pf (fst x)))
       (case kr_bids orderbook of None \<Rightarrow> [] | Some levels \<Rightarrow> toPairs levels)"

text \<open>
  \<^verbatim>\<open>insertOrderBookToDB\<close>: the rows are collected, asks first, and written in one statement
  at the end; the \<^verbatim>\<open>default\<close> branch evaluates the undeclared variable \<^verbatim>\<open>err\<close>, and nothing
  is written. \<^verbatim>\<open>parseFloat\<close> of a Number the script computed is that Number.
\<close>

definition kraken_finalVolume ::
  "(string \<Rightarrow> 'n) \<Rightarrow> ('n \<Rightarrow> 'n \<Rightarrow> 'n) \<Rightarrow> flag \<Rightarrow> string \<times> 'n jval \<Rightarrow> error + 'n cell" where
  "kraken_finalVolume pf mul cfgVolumeFlag entry =
     (case cfgVolumeFlag of
        FTrue \<Rightarrow> Inr (Calc (to_number pf (snd entry)))
      | FFalse \<Rightarrow> Inr (Calc (mul (to_number pf (snd entry)) (pf (fst entry))))
      | FOther \<Rightarrow> Inl ReferenceError)"

fun kraken_collect ::
  "(string \<Rightarrow> 'n) \<Rightarrow> ('n \<Rightarrow> 'n \<Rightarrow> 'n) \<Rightarrow> flag \<Rightarrow> string \<Rightarrow> string \<Rightarrow> nat
     \<Rightarrow> (string \<times> 'n jval) list \<Rightarrow> error + 'n row list" where
  "kraken_collect pf mul cfgVolumeFlag ts typ index [] = Inr []"
| "kraken_collect pf mul cfgVolumeFlag ts typ index (entry # rest) =
     (case kraken_finalVolume pf mul cfgVolumeFlag entry of
        Inl e \<Rightarrow> Inl e
      | Inr v \<Rightarrow>
          (case kraken_collect pf mul cfgVolumeFlag ts typ (index + 1) rest of
             Inl e \<Rightarrow> Inl e
           | Inr rs \<Rightarrow>
               Inr (\<lparr>timestamp = ts, platform = ''Kraken'', order_level = index + 1,
                     order_type = typ, row_price = Calc (pf (fst entry)), volume = v\<rparr> # rs)))"

definition kraken_insertOrderBookToDB ::
  "(string \<Rightarrow> 'n) \<Rightarrow> ('n \<Rightarrow> 'n \<Rightarrow> 'n) \<Rightarrow> int \<Rightarrow> flag
     \<Rightarrow> (string \<times> 'n jval) list \<Rightarrow> (string \<times> 'n jval) list \<Rightarrow> string \<Rightarrow> error + 'n row list" where
  "kraken_insertOrderBookToDB pf mul cfgNumLevels cfgVolumeFlag ordered_asks ordered_bids ts =
     (case kraken_collect pf mul cfgVolumeFlag ts ''ask'' 0 (slice0 cfgNumLevels ordered_asks) of
        Inl e \<Rightarrow> Inl e
      | Inr ra \<Rightarrow>
          (case kraken_collect pf mul cfgVolumeFlag ts ''bid'' 0 (slice0 cfgNumLevels ordered_bids) of
             Inl e \<Rightarrow> Inl e
           | Inr rb \<Rightarrow> Inr (ra @ rb)))"

text \<open>The whole handler: an exception of the first part ends it; a rejection of
  \<^verbatim>\<open>insertOrderBookToDB\<close> is caught and printed.\<close>

definition kraken_handleOrderBook ::
  "(string \<Rightarrow> 'n::linorder) \<Rightarrow> ('n \<Rightarrow> 'n \<Rightarrow> 'n) \<Rightarrow> int \<Rightarrow> flag \<Rightarrow> string
     \<Rightarrow> 'n kraken_payload option \<Rightarrow> 'n kraken_book \<Rightarrow> ('n kraken_book, 'n) outcome" where
  "kraken_handleOrderBook pf mul cfgNumLevels cfgVolumeFlag ts message1 orderbook =
     (case kraken_apply message1 orderbook of
        (ob, Some e) \<Rightarrow> \<lparr>book = ob, rows = [], logs = [], raised = Some e\<rparr>
      | (ob, None) \<Rightarrow>
          (case kraken_insertOrderBookToDB pf mul cfgNumLevels cfgVolumeFlag
                  (kraken_ordered_asks pf ob) (kraken_ordered_bids pf ob) ts of
             Inl e \<Rightarrow> \<lparr>book = ob, rows = [], logs = [''ReferenceError: err is not defined''],
                       raised = None\<rparr>
           | Inr rs \<Rightarrow> \<lparr>book = ob, rows = rs, logs = [], raised = None\<rparr>))"

section \<open>Auxiliary notions for the properties\<close>

text \<open>The key of a Binance order: updates look an order up by price and side.\<close>

definition binance_key :: "'n order \<Rightarrow> 'n jval \<times> side" where
  "binance_key order = (price order, side order)"

text \<open>An order object \<^verbatim>\<open>{id, side, price, size}\<close> with Number fields, for concrete runs
  of the BitMEX connector.\<close>

definition bitmex_order :: "rat \<Rightarrow> string \<Rightarrow> rat \<Rightarrow> rat \<Rightarrow> jsnum obj" where
  "bitmex_order i sd p sz =
     [(''id'', JNum (Fin i)), (''side'', JStr sd), (''price'', JNum (Fin p)),
      (''size'', JNum (Fin sz))]"

text \<open>The BitMEX message \<^verbatim>\<open>{table: 'orderBookL2_25', action, data}\<close>.\<close>

definition bitmex_message :: "string \<Rightarrow> 'n obj list \<Rightarrow> 'n bitmex_msg" where
  "bitmex_message action data =
     \<lparr>msg_table = Some (JStr ''orderBookL2_25''), msg_action = Some (JStr action),
      msg_data = data\<rparr>"

text \<open>The Kraken update payloads \<^verbatim>\<open>{a: updates}\<close> and \<^verbatim>\<open>{b: updates}\<close>.\<close>

definition kraken_ask_update :: "(string \<times> 'n jval) list \<Rightarrow> 'n kraken_payload" where
  "kraken_ask_update updates = \<lparr>p_as = None, p_bs = None, p_a = Some updates, p_b = None\<rparr>"

definition kraken_bid_update :: "(string \<times> 'n jval) list \<Rightarrow> 'n kraken_payload" where
  "kraken_bid_update updates = \<lparr>p_as = None, p_bs = None, p_a = None, p_b = Some updates\<rparr>"

text \<open>The fields of a row that the specification's change gate compares: level, side,
  price and volume.\<close>

definition row_fields :: "'n row \<Rightarrow> nat \<times> string \<times> 'n cell \<times> 'n cell" where
  "row_fields r = (order_level r, order_type r, row_price r, volume r)"

text \<open>The Number a database cell holds.\<close>

definition cell_number :: "(string \<Rightarrow> 'n) \<Rightarrow> 'n \<Rightarrow> 'n cell \<Rightarrow> 'n" where
  "cell_number num nan c = (case c of Raw v \<Rightarrow> to_number_opt num nan v | Calc x \<Rightarrow> x)"

subsection \<open>The volume contract of the specification\<close>

text \<open>
  The specification's \<^verbatim>\<open>normalize(price, size, nativeUnit, wantBase)\<close>, in its words: the size
  unchanged when the native unit is the wanted one, size times price when the venue
  reports base and the caller wants quote, size divided by price when the venue reports
  quote and the caller wants base. Written from the specification, to be compared with
  the \<^verbatim>\<open>switch\<close> statements of the connectors.
\<close>

datatype currency = Base | Quote

definition normalize ::
  "('n \<Rightarrow> 'n \<Rightarrow> 'n) \<Rightarrow> ('n \<Rightarrow> 'n \<Rightarrow> 'n) \<Rightarrow> 'n \<Rightarrow> 'n \<Rightarrow> currency \<Rightarrow> currency \<Rightarrow> 'n" where
  "normalize mul fdiv px sz nativeUnit wantUnit =
     (if nativeUnit = wantUnit then sz
      else if nativeUnit = Base then mul sz px
      else fdiv sz px)"

text \<open>The configured \<^verbatim>\<open>baseVolume\<close>, as a flag and as the unit it asks for.\<close>

definition flag_of :: "bool \<Rightarrow> flag" where
  "flag_of baseVolume = (if baseVolume then FTrue else FFalse)"

definition wanted :: "bool \<Rightarrow> currency" where
  "wanted baseVolume = (if baseVolume then Base else Quote)"

text \<open>The Kucoin message \<^verbatim>\<open>{type: 'message', subject: 'trade.l2update', data: {changes}}\<close>.\<close>

definition kucoin_l2update ::
  "('n jval \<times> 'n jval) list \<Rightarrow> ('n jval \<times> 'n jval) list \<Rightarrow> 'n kucoin_msg" where
  "kucoin_l2update asks bids =
     \<lparr>msg_type = Some (JStr ''message''), msg_subject = Some (JStr ''trade.l2update''),
      changes_asks = asks, changes_bids = bids\<rparr>"

subsection \<open>Streams of messages, and ordered projections\<close>

text \<open>The book after the handler has been called on each message of a list, in order;
  a message comes with the timestamp taken at its receipt.\<close>

definition binance_run ::
  "(string \<Rightarrow> 'n::linorder) \<Rightarrow> ('n \<Rightarrow> 'n \<Rightarrow> 'n) \<Rightarrow> int \<Rightarrow> flag \<Rightarrow> (string \<times> 'n depth_msg) list
     \<Rightarrow> 'n order list \<Rightarrow> 'n order list" where
  "binance_run num mul cfgNumLevels cfgVolumeFlag msgs ob =
     fold (\<lambda>m b. book (binance_handleOrderBook num mul cfgNumLevels cfgVolumeFlag (fst m) (snd m) b))
       msgs ob"

definition kucoin_run ::
  "(string \<Rightarrow> 'n::linorder) \<Rightarrow> (string \<times> 'n kucoin_msg) list \<Rightarrow> 'n kucoin_book \<Rightarrow> 'n kucoin_book" where
  "kucoin_run num msgs ob = fold (\<lambda>m b. book (kucoin_handleOrderBook num (fst m) (snd m) b)) msgs ob"

definition kraken_run ::
  "(string \<Rightarrow> 'n::linorder) \<Rightarrow> ('n \<Rightarrow> 'n \<Rightarrow> 'n) \<Rightarrow> int \<Rightarrow> flag
     \<Rightarrow> (string \<times> 'n kraken_payload option) list \<Rightarrow> 'n kraken_book \<Rightarrow> 'n kraken_book" where
  "kraken_run pf mul cfgNumLevels cfgVolumeFlag msgs ob =
     fold (\<lambda>m b. book (kraken_handleOrderBook pf mul cfgNumLevels cfgVolumeFlag (fst m) (snd m) b))
       msgs ob"

text \<open>A list is ascending (descending) by a key when no element has a greater (smaller)
  key than a later one; equal keys may follow each other.\<close>

definition ascending :: "('a \<Rightarrow> 'k::linorder) \<Rightarrow> 'a list \<Rightarrow> bool" where
  "ascending f xs = sorted_wrt (\<lambda>a b. f a \<le> f b) xs"

definition descending :: "('a \<Rightarrow> 'k::linorder) \<Rightarrow> 'a list \<Rightarrow> bool" where
  "descending f xs = sorted_wrt (\<lambda>a b. f b \<le> f a) xs"

subsection \<open>Invariants of the books\<close>

text \<open>The comparator of the Kucoin sort for a side.\<close>

definition kucoin_le :: "(string \<Rightarrow> 'n::linorder) \<Rightarrow> bool \<Rightarrow> 'n jval \<times> 'n jval \<Rightarrow> 'n jval \<times> 'n jval \<Rightarrow> bool" where
  "kucoin_le num is_asks = (if is_asks then asc (\<lambda>level. to_number num (fst level))
                     else desc (\<lambda>level. to_number num (fst level)))"

text \<open>A Kucoin book whose sides hold at most 50 levels and no price twice, and one whose
  sides are in order.\<close>

definition kucoin_distinct :: "'n kucoin_book \<Rightarrow> bool" where
  "kucoin_distinct ob \<longleftrightarrow>
     length (kc_bids ob) \<le> 50 \<and> distinct (map fst (kc_bids ob))
     \<and> length (kc_asks ob) \<le> 50 \<and> distinct (map fst (kc_asks ob))"

definition kucoin_sorted :: "(string \<Rightarrow> 'n::linorder) \<Rightarrow> 'n kucoin_book \<Rightarrow> bool" where
  "kucoin_sorted num ob \<longleftrightarrow>
     descending (\<lambda>level. to_number num (fst level)) (kc_bids ob)
     \<and> ascending (\<lambda>level. to_number num (fst level)) (kc_asks ob)"

text \<open>A Kraken side that exists holds no price key twice.\<close>

definition side_ok :: "'n obj option \<Rightarrow> bool" where
  "side_ok levels = (case levels of None \<Rightarrow> True | Some l \<Rightarrow> distinct (map fst l))"

definition kraken_ok :: "'n kraken_book \<Rightarrow> bool" where
  "kraken_ok ob \<longleftrightarrow> side_ok (kr_asks ob) \<and> side_ok (kr_bids ob)"

subsection \<open>The scenario of the specification\<close>

text \<open>The snapshot \<^verbatim>\<open>asks = [[100, 1], [101, 2]]\<close>, \<^verbatim>\<open>bids = [[99, 1]]\<close>, as the price-keyed
  venues send it, with strings.\<close>

definition scenario_bids :: "(jsnum jval \<times> jsnum jval) list" where
  "scenario_bids = [(JStr ''99'', JStr ''1'')]"

definition scenario_asks :: "(jsnum jval \<times> jsnum jval) list" where
  "scenario_asks = [(JStr ''100'', JStr ''1''), (JStr ''101'', JStr ''2'')]"

text \<open>The scenario for Kraken: the snapshot message, then the update of the ask 100.5.\<close>

definition scenario_kraken :: "(string \<times> jsnum kraken_payload option) list" where
  "scenario_kraken =
     [(''t0'', Some \<lparr>p_as = Some [(''100.0'', JStr ''1''), (''101.0'', JStr ''2'')],
                     p_bs = Some [(''99.0'', JStr ''1'')], p_a = None, p_b = None\<rparr>),
      (''t1'', Some (kraken_ask_update [(''100.5'', JStr ''1'')]))]"

subsection \<open>Upserts on a Kucoin side\<close>

text \<open>Overwriting the size of the first level with a given price, which is what the
  \<^verbatim>\<open>find\<close> and the assignment to \<^verbatim>\<open>existingLevel[1]\<close> do when the price is there.\<close>

fun set_first :: "'a \<Rightarrow> 'b \<Rightarrow> ('a \<times> 'b) list \<Rightarrow> ('a \<times> 'b) list" where
  "set_first p s [] = []"
| "set_first p s (x # xs) = (if fst x = p then (p, s) # xs else x # set_first p s xs)"

text \<open>The \<^verbatim>\<open>else\<close> branch of the Kucoin change: update the level found, or push a new one.\<close>

definition kucoin_upsert :: "'a \<Rightarrow> 'b \<Rightarrow> ('a \<times> 'b) list \<Rightarrow> ('a \<times> 'b) list" where
  "kucoin_upsert p s levels =
     (case findIndex (\<lambda>level. fst level = p) levels of
        Some i \<Rightarrow> levels[i := (fst (levels ! i), s)]
      | None \<Rightarrow> levels @ [(p, s)])"


subsection \<open>The rank of a level in its side\<close>

text \<open>
  For a comparator \<open>le\<close> of a sort, where \<open>le a b\<close> says that \<open>b\<close> is not put before \<open>a\<close>:
  the number of elements of a list that the comparator does not put after \<open>x\<close> (\<open>x\<close>
  itself is one of them when it is in the list), and the number of elements it puts
  before \<open>x\<close>. For the bids these are the levels with a price at least as high as that of
  \<open>x\<close>, and those with a higher price; for the asks, with \<open>low\<close> for \<open>high\<close>.
\<close>

definition not_behind :: "('a \<Rightarrow> 'a \<Rightarrow> bool) \<Rightarrow> 'a \<Rightarrow> 'a list \<Rightarrow> nat" where
  "not_behind le x xs = length (filter (\<lambda>y. le y x) xs)"

definition ahead :: "('a \<Rightarrow> 'a \<Rightarrow> bool) \<Rightarrow> 'a \<Rightarrow> 'a list \<Rightarrow> nat" where
  "ahead le x xs = length (filter (\<lambda>y. \<not> le x y) xs)"

text \<open>A bid side of 50 levels, at the prices 100 to 149, given as Numbers.\<close>

definition fifty_bids :: "(jsnum jval \<times> jsnum jval) list" where
  "fifty_bids = map (\<lambda>i. (JNum (Fin (of_nat i + 100)), JStr ''1'')) [0..<50]"

subsection \<open>The Kraken book once a snapshot has arrived\<close>

text \<open>Both sides of the book exist: a snapshot has created them.\<close>

definition kraken_synced :: "'n kraken_book \<Rightarrow> bool" where
  "kraken_synced ob \<longleftrightarrow> kr_asks ob \<noteq> None \<and> kr_bids ob \<noteq> None"

section \<open>Facts about the array operations\<close>

lemma mset_insort_by: "mset (insort_by le x xs) = add_mset x (mset xs)"
  by (induction xs) auto

lemma set_insort_by: "set (insort_by le x xs) = insert x (set xs)"
  by (induction xs) auto

lemma mset_sort_by: "mset (sort_by le xs) = mset xs"
  by (induction xs) (auto simp: sort_by_def mset_insort_by)

lemma set_sort_by: "set (sort_by le xs) = set xs"
  by (metis mset_sort_by set_mset_mset)

lemma length_sort_by: "length (sort_by le xs) = length xs"
  by (metis mset_sort_by size_mset)

lemma distinct_map_sort_by: "distinct (map f (sort_by le xs)) = distinct (map f xs)"
proof -
  have "mset (map f (sort_by le xs)) = mset (map f xs)"
    by (simp add: mset_sort_by)
  then show ?thesis
    by (rule mset_eq_imp_distinct_iff)
qed

lemma sort_by_Cons: "sort_by le (x # xs) = insort_by le x (sort_by le xs)"
  by (simp add: sort_by_def)

lemma sort_by_Nil: "sort_by le [] = []"
  by (simp add: sort_by_def)

lemma sorted_insort_asc:
  "sorted_wrt (\<lambda>a b. f a \<le> f b) xs \<Longrightarrow>
   sorted_wrt (\<lambda>a b. f a \<le> (f b :: 'k::linorder)) (insort_by (asc f) x xs)"
  by (induction xs) (auto simp: asc_def set_insort_by)

lemma sorted_insort_desc:
  "sorted_wrt (\<lambda>a b. f b \<le> f a) xs \<Longrightarrow>
   sorted_wrt (\<lambda>a b. f b \<le> (f a :: 'k::linorder)) (insort_by (desc f) x xs)"
  by (induction xs) (auto simp: desc_def set_insort_by)

lemma sorted_sort_by_asc: "sorted_wrt (\<lambda>a b. f a \<le> (f b :: 'k::linorder)) (sort_by (asc f) xs)"
  by (induction xs) (simp_all add: sort_by_Nil sort_by_Cons sorted_insort_asc)

lemma sorted_sort_by_desc: "sorted_wrt (\<lambda>a b. f b \<le> (f a :: 'k::linorder)) (sort_by (desc f) xs)"
  by (induction xs) (simp_all add: sort_by_Nil sort_by_Cons sorted_insort_desc)

lemma slice0_take: "slice0 n xs = take (if n < 0 then length xs - nat (- n) else nat n) xs"
  by (simp add: slice0_def)

lemma length_slice0: "0 \<le> n \<Longrightarrow> length (slice0 n xs) \<le> nat n"
  by (simp add: slice0_def)

lemma set_slice0: "set (slice0 n xs) \<subseteq> set xs"
  by (auto simp: slice0_def dest: in_set_takeD)

lemma sorted_wrt_slice0: "sorted_wrt P xs \<Longrightarrow> sorted_wrt P (slice0 n xs)"
  by (simp add: slice0_def sorted_wrt_take)

lemma distinct_map_slice0: "distinct (map f xs) \<Longrightarrow> distinct (map f (slice0 n xs))"
  by (simp add: slice0_def take_map[symmetric] del: take_map)

lemma slice0_all: "int (length xs) \<le> n \<Longrightarrow> slice0 n xs = xs"
  by (simp add: slice0_def)


lemma findIndex_None: "findIndex P xs = None \<longleftrightarrow> (\<forall>x\<in>set xs. \<not> P x)"
  by (induction xs) auto

lemma findIndex_Some:
  "findIndex P xs = Some i \<Longrightarrow> i < length xs \<and> P (xs ! i) \<and> (\<forall>j<i. \<not> P (xs ! j))"
proof (induction xs arbitrary: i)
  case Nil
  then show ?case by simp
next
  case (Cons x xs)
  show ?case
  proof (cases "P x")
    case True
    with Cons.prems show ?thesis by simp
  next
    case False
    with Cons.prems obtain k where k: "findIndex P xs = Some k" "i = Suc k"
      by auto
    from Cons.IH[OF k(1)] False k(2) show ?thesis
      by (auto simp: less_Suc_eq_0_disj)
  qed
qed

lemma distinct_splice1_aux: "distinct ys \<Longrightarrow> distinct (take i ys @ drop (Suc i) ys)"
proof -
  assume d: "distinct ys"
  then have "distinct (take i ys @ drop i ys)" by simp
  then have 1: "set (take i ys) \<inter> set (drop i ys) = {}"
    by (simp only: distinct_append)
  have "drop (Suc i) ys = drop 1 (drop i ys)" by simp
  then have 2: "set (drop (Suc i) ys) \<subseteq> set (drop i ys)"
    by (simp only: set_drop_subset)
  from 1 2 have "set (take i ys) \<inter> set (drop (Suc i) ys) = {}" by blast
  with d show ?thesis by simp
qed

lemma distinct_map_splice1: "distinct (map f xs) \<Longrightarrow> distinct (map f (splice1 i xs))"
  using distinct_splice1_aux[of "map f xs" i] by (simp add: splice1_def take_map drop_map)

section \<open>Facts about the connectors\<close>

lemma binance_update_distinct:
  assumes "distinct (map binance_key ob)"
  shows "distinct (map binance_key (binance_update sd entry ob))"
proof (cases "findIndex (\<lambda>order. price order = fst entry \<and> side order = sd) ob")
  case None
  then have "(fst entry, sd) \<notin> set (map binance_key ob)"
    by (auto simp: findIndex_None binance_key_def)
  with None assms show ?thesis
    by (simp add: binance_update_def Let_def binance_key_def)
next
  case (Some i)
  from findIndex_Some[OF Some] have i: "i < length ob" by simp
  have "map binance_key (ob[i := (ob ! i)\<lparr>quantity := snd entry\<rparr>]) = map binance_key ob"
    using i by (simp add: map_update binance_key_def list_update_same_conv)
  with Some assms show ?thesis
    by (simp add: binance_update_def Let_def distinct_map_splice1 del: map_update)
qed

lemma binance_updates_distinct:
  "distinct (map binance_key ob) \<Longrightarrow> distinct (map binance_key (fold (binance_update sd) es ob))"
  by (induction es arbitrary: ob) (simp_all add: binance_update_distinct)

lemma binance_handle_distinct:
  "distinct (map binance_key ob) \<Longrightarrow>
   distinct (map binance_key (book (binance_handleOrderBook num mul n flag ts m ob)))"
  by (simp add: binance_handleOrderBook_def binance_updates_distinct Let_def split: option.splits)

lemma binance_side_distinct:
  assumes "distinct (map binance_key ob)"
  shows "distinct (map price (filter (\<lambda>order. side order = sd) ob))"
proof -
  have "distinct (map binance_key (filter (\<lambda>order. side order = sd) ob))"
    using assms by (rule distinct_map_filter)
  moreover have "map binance_key (filter (\<lambda>order. side order = sd) ob)
      = map (\<lambda>p. (p, sd)) (map price (filter (\<lambda>order. side order = sd) ob))"
    by (induction ob) (auto simp: binance_key_def)
  ultimately show ?thesis
    by (metis distinct_map)
qed

lemma binance_snapshot_distinct:
  assumes "distinct (map fst bids)" "distinct (map fst asks)"
  shows "distinct (map binance_key (binance_snapshot bids asks []))"
proof -
  have "map binance_key (binance_snapshot bids asks [])
      = map (\<lambda>p. (p, Buy)) (map fst bids) @ map (\<lambda>p. (p, Sell)) (map fst asks)"
    by (simp add: binance_snapshot_def binance_key_def comp_def)
  moreover have "distinct (map (\<lambda>p. (p, Buy)) (map fst bids))"
    using assms(1) by (simp add: distinct_map inj_on_def)
  moreover have "distinct (map (\<lambda>p. (p, Sell)) (map fst asks))"
    using assms(2) by (simp add: distinct_map inj_on_def)
  ultimately show ?thesis by auto
qed


lemma binance_insert_loop_ok:
  "flag \<noteq> FOther \<Longrightarrow> snd (binance_insert_loop num mul flag ts typ i xs) = None"
  by (induction xs arbitrary: i) (auto simp: binance_volume_def Let_def split: flag.splits)

lemma binance_insert_ok:
  "flag \<noteq> FOther \<Longrightarrow> snd (binance_insertOrderBookToDB num mul n flag ob ts) = None"
  by (simp add: binance_insertOrderBookToDB_def Let_def binance_insert_loop_ok)

lemma bitmex_bid_loop_ok:
  "flag \<noteq> FOther \<Longrightarrow>
   snd (bitmex_insert_loop (bitmex_volumeBid num nan fdiv flag) ts typ i xs) = None"
  by (induction xs arbitrary: i) (auto simp: bitmex_volumeBid_def Let_def split: flag.splits)

lemma bitmex_ask_loop_ok:
  "snd (bitmex_insert_loop (bitmex_volumeAsk num nan fdiv flag) ts typ i xs) = None"
  by (induction xs arbitrary: i) (auto simp: bitmex_volumeAsk_def Let_def split: flag.splits)

lemma bitmex_write_ok:
  "flag \<noteq> FOther \<Longrightarrow> snd (bitmex_write num nan fdiv n flag ob ts) = None"
  by (simp add: bitmex_write_def Let_def bitmex_bid_loop_ok bitmex_ask_loop_ok)

lemma bitmex_insert_step_ok:
  "flag \<noteq> FOther \<Longrightarrow> raised (bitmex_insert_step num nan fdiv n flag ts ob lst) = None"
  by (simp add: bitmex_insert_step_def bitmex_insertOrderBookToDB_def Let_def bitmex_write_ok)

lemma bitmex_insert_step_book:
  "orderBook (book (bitmex_insert_step num nan fdiv n flag ts ob lst)) = ob"
  by (simp add: bitmex_insert_step_def Let_def)

lemma bitmex_apply_insert: "bitmex_apply (Some (JStr ''insert'')) u ob = ob @ [u]"
  by (simp add: bitmex_apply_def)

lemma bitmex_fold_insert: "fold (bitmex_apply (Some (JStr ''insert''))) us ob = ob @ us"
  by (induction us arbitrary: ob) (simp_all add: bitmex_apply_insert)

lemma bitmex_last_is_book:
  "msg_table m = Some (JStr ''orderBookL2_25'') \<Longrightarrow>
   lastInsertedOrderBook (book (bitmex_handleOrderBook num nan fdiv n flag ts m st))
     = Some (orderBook (book (bitmex_handleOrderBook num nan fdiv n flag ts m st)))"
  by (simp add: bitmex_handleOrderBook_def bitmex_insert_step_def bitmex_insertOrderBookToDB_def
      Let_def)

section \<open>Invariants of the price-keyed books\<close>

lemma binance_run_distinct:
  "distinct (map binance_key ob) \<Longrightarrow> distinct (map binance_key (binance_run num mul n flag msgs ob))"
  unfolding binance_run_def
  by (induction msgs arbitrary: ob) (simp_all add: binance_handle_distinct)

lemma kucoin_change_distinct:
  assumes "distinct (map fst levels)"
  shows "distinct (map fst (kucoin_change num is_asks change levels))"
proof -
  let ?p = "fst change" and ?s = "snd change"
  let ?l = "(if ?s = JStr ''0'' then filter (\<lambda>level. fst level \<noteq> ?p) levels
             else (case findIndex (\<lambda>level. fst level = ?p) levels of
                     Some i \<Rightarrow> levels[i := (fst (levels ! i), ?s)]
                   | None \<Rightarrow> levels @ [(?p, ?s)]))"
  have "distinct (map fst ?l)"
  proof (cases "?s = JStr ''0''")
    case True
    then show ?thesis using assms by (simp add: distinct_map_filter)
  next
    case False
    show ?thesis
    proof (cases "findIndex (\<lambda>level. fst level = ?p) levels")
      case None
      then have "?p \<notin> fst ` set levels" by (auto simp: findIndex_None)
      with None False assms show ?thesis by simp
    next
      case (Some i)
      from findIndex_Some[OF Some] have "i < length levels" by simp
      then have "map fst (levels[i := (fst (levels ! i), ?s)]) = map fst levels"
        by (simp add: map_update list_update_same_conv)
      with Some False assms show ?thesis by (simp del: map_update)
    qed
  qed
  then show ?thesis
    by (simp add: kucoin_change_def Let_def distinct_map_slice0 distinct_map_sort_by)
qed

lemma kucoin_change_sorted:
  "ascending (\<lambda>level. to_number num (fst level)) (kucoin_change num True change levels)"
  "descending (\<lambda>level. to_number num (fst level)) (kucoin_change num False change levels)"
  by (simp_all add: kucoin_change_def Let_def ascending_def descending_def sorted_wrt_slice0
      sorted_sort_by_asc sorted_sort_by_desc)

lemma length_slice0_50: "length (slice0 50 xs) \<le> 50"
  by (simp add: slice0_def)

lemma kucoin_change_length: "length (kucoin_change num is_asks change levels) \<le> 50"
  by (simp add: kucoin_change_def Let_def length_slice0_50)

lemma kucoin_changes_inv:
  assumes "distinct (map fst levels)" "length levels \<le> 50"
  shows "distinct (map fst (fold (kucoin_change num is_asks) changes levels))
    \<and> length (fold (kucoin_change num is_asks) changes levels) \<le> 50"
  using assms
  by (induction changes arbitrary: levels) (simp_all add: kucoin_change_distinct kucoin_change_length)

lemma kucoin_changes_sorted:
  "ascending (\<lambda>level. to_number num (fst level)) levels \<Longrightarrow>
   ascending (\<lambda>level. to_number num (fst level)) (fold (kucoin_change num True) changes levels)"
  "descending (\<lambda>level. to_number num (fst level)) levels \<Longrightarrow>
   descending (\<lambda>level. to_number num (fst level)) (fold (kucoin_change num False) changes levels)"
  by (induction changes arbitrary: levels) (simp_all add: kucoin_change_sorted)

lemma kucoin_handle_distinct:
  "kucoin_distinct ob \<Longrightarrow> kucoin_distinct (book (kucoin_handleOrderBook num ts m ob))"
  by (simp add: kucoin_distinct_def kucoin_handleOrderBook_def Let_def kucoin_changes_inv)

lemma kucoin_run_distinct: "kucoin_distinct ob \<Longrightarrow> kucoin_distinct (kucoin_run num msgs ob)"
  unfolding kucoin_run_def
  by (induction msgs arbitrary: ob) (simp_all add: kucoin_handle_distinct)

lemma kucoin_snapshot_distinct:
  assumes "distinct (map fst bids)" "distinct (map fst asks)"
  shows "kucoin_distinct (kucoin_snapshot bids asks)"
  using assms
  by (simp add: kucoin_distinct_def kucoin_snapshot_def distinct_map_slice0 length_slice0_50)

lemma kucoin_handle_sorted:
  "kucoin_sorted num ob \<Longrightarrow> kucoin_sorted num (book (kucoin_handleOrderBook num ts m ob))"
  by (simp add: kucoin_sorted_def kucoin_handleOrderBook_def Let_def kucoin_changes_sorted)

lemma kucoin_run_sorted: "kucoin_sorted num ob \<Longrightarrow> kucoin_sorted num (kucoin_run num msgs ob)"
  unfolding kucoin_run_def
  by (induction msgs arbitrary: ob) (simp_all add: kucoin_handle_sorted)

lemma kucoin_snapshot_sorted:
  assumes "descending (\<lambda>level. to_number num (fst level)) bids"
    "ascending (\<lambda>level. to_number num (fst level)) asks"
  shows "kucoin_sorted num (kucoin_snapshot bids asks)"
  using assms
  by (simp add: kucoin_sorted_def kucoin_snapshot_def descending_def ascending_def
      sorted_wrt_slice0)

lemma mset_toPairs: "mset (toPairs ob) = mset ob"
  by (simp add: toPairs_def)

lemma distinct_toPairs: "distinct (map fst (toPairs ob)) = distinct (map fst ob)"
proof -
  have "mset (map fst (toPairs ob)) = mset (map fst ob)"
    by (simp add: mset_toPairs)
  then show ?thesis by (rule mset_eq_imp_distinct_iff)
qed

lemma fromPairs_distinct: "distinct (map fst (fromPairs pairs))"
proof -
  have "distinct (map fst ob) \<Longrightarrow>
      distinct (map fst (fold (\<lambda>pair. obj_set (fst pair) (snd pair)) pairs ob))" for ob :: "'a obj"
    by (induction pairs arbitrary: ob) (simp_all add: obj_set_def distinct_update)
  from this[of "[]"] show ?thesis by (simp add: fromPairs_def)
qed

lemma kraken_update_distinct:
  "distinct (map fst levels) \<Longrightarrow> distinct (map fst (kraken_update update levels))"
  by (simp add: kraken_update_def obj_set_def obj_delete_def distinct_update distinct_delete)

lemma kraken_fold_distinct:
  "distinct (map fst levels) \<Longrightarrow> distinct (map fst (fold kraken_update us levels))"
  by (induction us arbitrary: levels) (simp_all add: kraken_update_distinct)

lemma kraken_updates_ok:
  "side_ok levels \<Longrightarrow> kraken_updates us levels = Inr new \<Longrightarrow> side_ok new"
  by (auto simp: side_ok_def kraken_updates_def kraken_fold_distinct split: option.splits if_splits)

lemma kraken_side_step_ok:
  "side_ok levels \<Longrightarrow>
   (case us of None \<Rightarrow> Inr levels | Some u \<Rightarrow> kraken_updates u levels) = Inr new \<Longrightarrow> side_ok new"
  by (cases us) (auto dest: kraken_updates_ok)

lemma kraken_apply_ok:
  assumes "kraken_ok ob"
  shows "kraken_ok (fst (kraken_apply m ob))"
proof (cases m)
  case None
  with assms show ?thesis by (simp add: kraken_apply_def)
next
  case (Some x)
  show ?thesis
  proof (cases "\<exists>as bs. p_as x = Some as \<and> p_bs x = Some bs")
    case True
    then obtain as bs where "p_as x = Some as" "p_bs x = Some bs" by blast
    with Some show ?thesis
      by (simp add: kraken_apply_def kraken_ok_def side_ok_def fromPairs_distinct)
  next
    case False
    let ?ra = "case p_a x of None \<Rightarrow> Inr (kr_asks ob) | Some us \<Rightarrow> kraken_updates us (kr_asks ob)"
    have split: "kraken_apply m ob =
        (if p_a x \<noteq> None \<or> p_b x \<noteq> None
         then (case ?ra of
                 Inl e \<Rightarrow> (ob, Some e)
               | Inr new_asks \<Rightarrow>
                   (let ob1 = ob\<lparr>kr_asks := new_asks\<rparr>
                    in case (case p_b x of None \<Rightarrow> Inr (kr_bids ob1)
                             | Some us \<Rightarrow> kraken_updates us (kr_bids ob1)) of
                         Inl e \<Rightarrow> (ob1, Some e)
                       | Inr new_bids \<Rightarrow> (ob1\<lparr>kr_bids := new_bids\<rparr>, None)))
         else (ob, None))"
      using False Some by (cases "p_as x"; cases "p_bs x") (simp_all add: kraken_apply_def)
    show ?thesis
    proof (cases "p_a x \<noteq> None \<or> p_b x \<noteq> None")
      case False
      with split assms show ?thesis by simp
    next
      case True
      show ?thesis
      proof (cases ?ra)
        case (Inl e)
        with split True assms show ?thesis by simp
      next
        case (Inr new_asks)
        from assms have "side_ok (kr_asks ob)" by (simp add: kraken_ok_def)
        from kraken_side_step_ok[OF this Inr] have na: "side_ok new_asks" .
        from assms have bo: "side_ok (kr_bids ob)" by (simp add: kraken_ok_def)
        show ?thesis
        proof (cases "p_b x")
          case None
          with split True Inr na bo show ?thesis
            by (simp add: kraken_ok_def Let_def)
        next
          case us: (Some us)
          show ?thesis
          proof (cases "kraken_updates us (kr_bids ob)")
            case (Inl e)
            with split True Inr na bo us show ?thesis
              by (simp add: kraken_ok_def Let_def)
          next
            case rb: (Inr new_bids)
            from kraken_updates_ok[OF bo rb] have "side_ok new_bids" .
            with split True Inr na rb us show ?thesis
              by (simp add: kraken_ok_def Let_def)
          qed
        qed
      qed
    qed
  qed
qed

lemma kraken_handle_book:
  "book (kraken_handleOrderBook pf mul n flag ts m ob) = fst (kraken_apply m ob)"
  by (simp add: kraken_handleOrderBook_def split: prod.splits option.splits sum.splits)

lemma kraken_run_ok: "kraken_ok ob \<Longrightarrow> kraken_ok (kraken_run pf mul n flag msgs ob)"
  unfolding kraken_run_def
  by (induction msgs arbitrary: ob) (simp_all add: kraken_handle_book kraken_apply_ok)

lemma kraken_distinct:
  assumes "kraken_ok ob"
  shows "distinct (map fst (slice0 n (kraken_ordered_asks pf ob)))"
    and "distinct (map fst (slice0 n (kraken_ordered_bids pf ob)))"
  using assms
  by (auto simp: kraken_ordered_asks_def kraken_ordered_bids_def sort_by_Nil
      distinct_map_sort_by distinct_toPairs kraken_ok_def side_ok_def
      intro!: distinct_map_slice0 split: option.splits)

lemma kraken_updates_some:
  "kraken_updates us (Some lv) = Inr (Some (fold kraken_update us lv))"
  by (simp add: kraken_updates_def)

lemma kraken_apply_synced:
  assumes "kraken_synced ob"
  shows "kraken_synced (fst (kraken_apply m ob)) \<and> snd (kraken_apply m ob) = None"
proof -
  from assms obtain a b where ab: "kr_asks ob = Some a" "kr_bids ob = Some b"
    by (auto simp: kraken_synced_def)
  show ?thesis
  proof (cases m)
    case None
    with assms show ?thesis by (simp add: kraken_apply_def)
  next
    case (Some x)
    then show ?thesis
      using ab
      by (cases "p_as x"; cases "p_bs x"; cases "p_a x"; cases "p_b x")
        (simp_all add: kraken_apply_def kraken_updates_some kraken_synced_def Let_def)
  qed
qed

lemma kraken_snapshot_synced:
  "kraken_synced (fst (kraken_apply (Some \<lparr>p_as = Some as, p_bs = Some bs, p_a = a, p_b = b\<rparr>) ob))"
  by (simp add: kraken_apply_def kraken_synced_def)

lemma kraken_run_synced:
  "kraken_synced ob \<Longrightarrow> kraken_synced (kraken_run pf mul n flag msgs ob)"
  unfolding kraken_run_def
  by (induction msgs arbitrary: ob) (simp_all add: kraken_handle_book kraken_apply_synced)

lemma kraken_handle_raised:
  "raised (kraken_handleOrderBook pf mul n flag ts m ob) = snd (kraken_apply m ob)"
  by (simp add: kraken_handleOrderBook_def split: prod.splits option.splits sum.splits)

section \<open>What an update leaves in the book\<close>

lemma set_toPairs: "set (toPairs ob) = set ob"
  by (metis mset_toPairs set_mset_mset)

lemma binance_upsert_mem:
  assumes "q \<noteq> JStr ''0.00000000''"
  shows "\<lparr>price = p, quantity = q, side = sd\<rparr> \<in> set (binance_update sd (p, q) ob)"
proof (cases "findIndex (\<lambda>order. price order = p \<and> side order = sd) ob")
  case None
  with assms show ?thesis by (simp add: binance_update_def)
next
  case (Some i)
  from findIndex_Some[OF Some] have i: "i < length ob" "price (ob ! i) = p" "side (ob ! i) = sd"
    by simp_all
  then have "(ob ! i)\<lparr>quantity := q\<rparr> = \<lparr>price = p, quantity = q, side = sd\<rparr>"
    by (cases "ob ! i") simp
  with Some assms i(1) show ?thesis
    by (simp add: binance_update_def set_update_memI)
qed

lemma binance_delete_gone:
  assumes "distinct (map binance_key ob)"
  shows "(p, sd) \<notin> binance_key ` set (binance_update sd (p, JStr ''0.00000000'') ob)"
proof (cases "findIndex (\<lambda>order. price order = p \<and> side order = sd) ob")
  case None
  then have "(p, sd) \<notin> binance_key ` set ob"
    by (auto simp: findIndex_None binance_key_def)
  with None show ?thesis
    by (simp add: binance_update_def)
next
  case (Some i)
  from findIndex_Some[OF Some] have i: "i < length ob" "binance_key (ob ! i) = (p, sd)"
    by (simp_all add: binance_key_def)
  let ?ks = "map binance_key ob"
  have k: "?ks ! i = (p, sd)" "i < length ?ks" using i by simp_all
  have "(p, sd) \<notin> set (take i ?ks @ drop (Suc i) ?ks)"
  proof -
    have "?ks = take i ?ks @ (p, sd) # drop (Suc i) ?ks"
      using k by (metis id_take_nth_drop)
    with assms have "distinct (take i ?ks @ (p, sd) # drop (Suc i) ?ks)" by simp
    then show ?thesis by auto
  qed
  then have "(p, sd) \<notin> set (map binance_key (splice1 i ob))"
    by (simp add: splice1_def take_map drop_map)
  with Some show ?thesis by (simp add: binance_update_def)
qed

lemma kucoin_delete_gone: "p \<notin> fst ` set (kucoin_change num is_asks (p, JStr ''0'') levels)"
proof -
  have "set (kucoin_change num is_asks (p, JStr ''0'') levels)
      \<subseteq> set (filter (\<lambda>level. fst level \<noteq> p) levels)"
    using set_slice0 by (fastforce simp: kucoin_change_def Let_def set_sort_by)
  then show ?thesis by auto
qed

lemma kraken_upsert_mem:
  "v \<noteq> JStr ''0.00000000'' \<Longrightarrow> (k, v) \<in> set (kraken_update (k, v) levels)"
  by (induction levels) (auto simp: kraken_update_def obj_set_def)

lemma kraken_delete_gone: "k \<notin> fst ` set (kraken_update (k, JStr ''0.00000000'') levels)"
  by (simp add: kraken_update_def obj_delete_def delete_notin_dom)

section \<open>Two writes to one key\<close>





lemma sorted_kucoin_sort: "sorted_wrt (kucoin_le num is_asks) (sort_by (kucoin_le num is_asks) xs)"
proof (cases is_asks)
  case True
  have "kucoin_le num is_asks = (\<lambda>a b. to_number num (fst a) \<le> to_number num (fst b))"
    by (simp add: kucoin_le_def True asc_def fun_eq_iff)
  moreover have "sort_by (kucoin_le num is_asks) xs = sort_by (asc (\<lambda>l. to_number num (fst l))) xs"
    by (simp add: kucoin_le_def True)
  ultimately show ?thesis using sorted_sort_by_asc[of "\<lambda>l. to_number num (fst l)" xs] by simp
next
  case False
  have "kucoin_le num is_asks = (\<lambda>a b. to_number num (fst b) \<le> to_number num (fst a))"
    by (simp add: kucoin_le_def False desc_def fun_eq_iff)
  moreover have "sort_by (kucoin_le num is_asks) xs = sort_by (desc (\<lambda>l. to_number num (fst l))) xs"
    by (simp add: kucoin_le_def False)
  ultimately show ?thesis using sorted_sort_by_desc[of "\<lambda>l. to_number num (fst l)" xs] by simp
qed



lemma set_first_length: "length (set_first p s xs) = length xs"
  by (induction xs) auto



lemma set_first_absent: "p \<notin> fst ` set xs \<Longrightarrow> set_first p s xs = xs"
  by (induction xs) auto



lemma kucoin_upsert_absent:
  "p \<notin> fst ` set xs \<Longrightarrow> kucoin_upsert p s xs = xs @ [(p, s)]"
proof -
  assume "p \<notin> fst ` set xs"
  then have "findIndex (\<lambda>l. fst l = p) xs = None"
    by (auto simp: findIndex_None)
  then show ?thesis by (simp add: kucoin_upsert_def)
qed









lemma slice0_50: "slice0 50 xs = take 50 xs"
  by (simp add: slice0_def)

lemma kucoin_change_upsert:
  "s \<noteq> JStr ''0'' \<Longrightarrow>
   kucoin_change num is_asks (p, s) levels
     = take 50 (sort_by (kucoin_le num is_asks) (kucoin_upsert p s levels))"
  by (simp add: kucoin_change_def kucoin_le_def kucoin_upsert_def slice0_50 Let_def)












section \<open>Where a level ranks in the sorted side\<close>

lemma length_filter_sort_by: "length (filter P (sort_by le xs)) = length (filter P xs)"
proof -
  have "mset (filter P (sort_by le xs)) = mset (filter P xs)"
    by (simp add: mset_sort_by)
  then show ?thesis by (metis size_mset)
qed

lemma sorted_take_mem:
  assumes s: "sorted_wrt le s" and r: "\<And>a. le a a" and x: "x \<in> set s"
    and c: "length (filter (\<lambda>y. le y x) s) \<le> n"
  shows "x \<in> set (take n s)"
proof -
  from x obtain i where i: "i < length s" "s ! i = x"
    by (auto simp: in_set_conv_nth)
  have all: "\<forall>y\<in>set (take (Suc i) s). le y x"
  proof
    fix y assume "y \<in> set (take (Suc i) s)"
    then obtain j where j: "j < Suc i" "j < length s" "s ! j = y"
      by (auto simp: in_set_conv_nth)
    show "le y x"
    proof (cases "j = i")
      case True
      with i j r show ?thesis by simp
    next
      case False
      with j have "j < i" by simp
      from sorted_wrt_nth_less[OF s this i(1)] i j show ?thesis by simp
    qed
  qed
  have "length (filter (\<lambda>y. le y x) s)
      = length (filter (\<lambda>y. le y x) (take (Suc i) s)) + length (filter (\<lambda>y. le y x) (drop (Suc i) s))"
    by (metis append_take_drop_id filter_append length_append)
  moreover have "filter (\<lambda>y. le y x) (take (Suc i) s) = take (Suc i) s"
    using all by simp
  ultimately have "Suc i \<le> length (filter (\<lambda>y. le y x) s)"
    using i(1) by simp
  with c have "i < n" by simp
  with i have "i < length (take n s)" "take n s ! i = x" by simp_all
  then show ?thesis by (metis nth_mem)
qed

lemma sorted_take_not_mem:
  assumes s: "sorted_wrt le s" and r: "\<And>a. le a a"
    and c: "n \<le> length (filter (\<lambda>y. \<not> le x y) s)"
  shows "x \<notin> set (take n s)"
proof
  assume "x \<in> set (take n s)"
  then obtain i where i: "i < n" "i < length s" "s ! i = x"
    by (auto simp: in_set_conv_nth)
  have all: "\<forall>y\<in>set (drop i s). le x y"
  proof
    fix y assume "y \<in> set (drop i s)"
    then obtain j where "j < length s - i" "s ! (i + j) = y"
      by (auto simp: in_set_conv_nth)
    then have j: "i + j < length s" "s ! (i + j) = y"
      by simp_all
    show "le x y"
    proof (cases "j = 0")
      case True
      with i j r show ?thesis by simp
    next
      case False
      then have "i < i + j" by simp
      from sorted_wrt_nth_less[OF s this j(1)] i j show ?thesis by simp
    qed
  qed
  have "length (filter (\<lambda>y. \<not> le x y) s)
      = length (filter (\<lambda>y. \<not> le x y) (take i s)) + length (filter (\<lambda>y. \<not> le x y) (drop i s))"
    by (metis append_take_drop_id filter_append length_append)
  moreover have "filter (\<lambda>y. \<not> le x y) (drop i s) = []"
    using all by (simp add: filter_empty_conv)
  moreover have "length (filter (\<lambda>y. \<not> le x y) (take i s)) \<le> i"
    by (metis length_filter_le length_take min.cobounded2 order_trans)
  ultimately have "length (filter (\<lambda>y. \<not> le x y) s) \<le> i" by simp
  with c i(1) show False by simp
qed

lemma sorted_sort_desc: "sorted_wrt (desc f) (sort_by (desc f) xs)"
  using sorted_sort_by_desc[of f xs] by (simp add: desc_def[abs_def])

lemma sorted_sort_asc: "sorted_wrt (asc f) (sort_by (asc f) xs)"
  using sorted_sort_by_asc[of f xs] by (simp add: asc_def[abs_def])

lemma ranked_in_projection:
  assumes s: "sorted_wrt le (sort_by le xs)" and r: "\<And>a. le a a" and x: "x \<in> set xs"
    and c: "int (not_behind le x xs) \<le> n"
  shows "x \<in> set (slice0 n (sort_by le xs))"
proof -
  have "0 < not_behind le x xs"
    using x r by (auto simp: not_behind_def filter_empty_conv)
  with c have n: "0 \<le> n" by simp
  have "length (filter (\<lambda>y. le y x) (sort_by le xs)) \<le> nat n"
    using c by (simp add: length_filter_sort_by not_behind_def)
  from sorted_take_mem[OF s r _ this] x n show ?thesis
    by (simp add: slice0_def set_sort_by)
qed

lemma ranked_out_of_projection:
  assumes s: "sorted_wrt le (sort_by le xs)" and r: "\<And>a. le a a"
    and n: "0 \<le> n" and c: "n \<le> int (ahead le x xs)"
  shows "x \<notin> set (slice0 n (sort_by le xs))"
proof -
  have "nat n \<le> length (filter (\<lambda>y. \<not> le x y) (sort_by le xs))"
    using c by (simp add: length_filter_sort_by ahead_def)
  from sorted_take_not_mem[OF s r this] n show ?thesis
    by (simp add: slice0_def)
qed


lemma desc_refl: "desc f a a" by (simp add: desc_def)
lemma asc_refl: "asc f a a" by (simp add: asc_def)

lemma kucoin_le_refl: "kucoin_le num is_asks a a"
  by (simp add: kucoin_le_def asc_def desc_def)

lemma not_behind_toPairs: "not_behind le x (toPairs ob) = not_behind le x ob"
proof -
  have "mset (filter (\<lambda>y. le y x) (toPairs ob)) = mset (filter (\<lambda>y. le y x) ob)"
    by (simp add: mset_toPairs)
  then show ?thesis unfolding not_behind_def by (metis size_mset)
qed

lemma ahead_toPairs: "ahead le x (toPairs ob) = ahead le x ob"
proof -
  have "mset (filter (\<lambda>y. \<not> le x y) (toPairs ob)) = mset (filter (\<lambda>y. \<not> le x y) ob)"
    by (simp add: mset_toPairs)
  then show ?thesis unfolding ahead_def by (metis size_mset)
qed

lemma kucoin_upsert_mem_list: "(p, s) \<in> set (kucoin_upsert p s levels)"
proof (cases "findIndex (\<lambda>level. fst level = p) levels")
  case None
  then show ?thesis by (simp add: kucoin_upsert_def)
next
  case (Some i)
  from findIndex_Some[OF Some] have "i < length levels" "fst (levels ! i) = p" by simp_all
  with Some show ?thesis by (simp add: kucoin_upsert_def set_update_memI)
qed

lemma kucoin_ranked_in:
  assumes "s \<noteq> JStr ''0''" "not_behind (kucoin_le num is_asks) (p, s) (kucoin_upsert p s levels) \<le> m"
    "m \<le> 50"
  shows "(p, s) \<in> set (take m (kucoin_change num is_asks (p, s) levels))"
proof -
  let ?s = "sort_by (kucoin_le num is_asks) (kucoin_upsert p s levels)"
  have "length (filter (\<lambda>y. kucoin_le num is_asks y (p, s)) ?s) \<le> m"
    using assms(2) by (simp add: length_filter_sort_by not_behind_def)
  from sorted_take_mem[OF sorted_kucoin_sort kucoin_le_refl _ this]
  have "(p, s) \<in> set (take m ?s)"
    by (simp add: set_sort_by kucoin_upsert_mem_list)
  moreover have "take m (take 50 ?s) = take m ?s"
    using assms(3) by (simp add: min_def)
  ultimately show ?thesis
    using assms(1) by (simp add: kucoin_change_upsert)
qed

lemma kucoin_ranked_out:
  assumes "s \<noteq> JStr ''0''" "m \<le> ahead (kucoin_le num is_asks) (p, s) (kucoin_upsert p s levels)"
  shows "(p, s) \<notin> set (take m (kucoin_change num is_asks (p, s) levels))"
proof -
  let ?s = "sort_by (kucoin_le num is_asks) (kucoin_upsert p s levels)"
  have "m \<le> length (filter (\<lambda>y. \<not> kucoin_le num is_asks (p, s) y) ?s)"
    using assms(2) by (simp add: length_filter_sort_by ahead_def)
  from sorted_take_not_mem[OF sorted_kucoin_sort kucoin_le_refl this]
  have "(p, s) \<notin> set (take m ?s)" .
  moreover have "set (take m (take 50 ?s)) \<subseteq> set (take m ?s)"
    by (simp add: set_take_subset_set_take)
  ultimately show ?thesis
    using assms(1) by (auto simp: kucoin_change_upsert)
qed

lemma kucoin_ranked_dropped:
  assumes "s \<noteq> JStr ''0''" "50 \<le> ahead (kucoin_le num is_asks) (p, s) (kucoin_upsert p s levels)"
  shows "(p, s) \<notin> set (kucoin_change num is_asks (p, s) levels)"
proof -
  have "take 50 (kucoin_change num is_asks (p, s) levels) = kucoin_change num is_asks (p, s) levels"
    by (simp add: kucoin_change_length)
  with kucoin_ranked_out[OF assms] show ?thesis by simp
qed

lemma kucoin_values_levels:
  "map (\<lambda>r. (order_level r, row_price r, volume r)) (kucoin_values ts lab i levels)
     = map (\<lambda>jl. (Suc (fst jl), Raw (Some (fst (snd jl))), Raw (Some (snd (snd jl)))))
         (enumerate i levels)"
  by (induction levels arbitrary: i) simp_all

section \<open>Deleting what is not there\<close>

text \<open>
  Claim C8. For every book state, a Delete (a zero-sentinel update for Binance and Kraken,
  a \<^verbatim>\<open>delete\<close> action for BitMEX) for a price or id that is absent from the book leaves the
  book unchanged and raises no error.

  It is stated for the loop body of each connector and for the handler called with a
  message that holds the single deletion. A Binance or BitMEX book is any array of orders.
  A Kraken book is the object that a snapshot creates, with its two sides, which may hold
  any levels or none: the last conjunct says that every state the handler reaches from a
  snapshot on, whatever the messages, is such a book. (Until the first snapshot the
  variable \<^verbatim>\<open>orderbook\<close> holds the object \<^verbatim>\<open>{}\<close>, which has no side to delete from, and
  \<open>kraken_updates\<close> raises there; the book channel of the venue opens with the snapshot,
  and the lifecycle of the specification has the book populated by a snapshot before any
  update is applied.) The Binance and BitMEX handlers go on to write the book, which
  raises nothing when the volume flag is valid; the Kraken handler catches what the
  writing raises.
\<close>

theorem delete_absent_noop:
  "((\<forall>order\<in>set ob. \<not> (price order = p \<and> side order = sd)) \<longrightarrow>
      binance_update sd (p, JStr ''0.00000000'') ob = ob)
   \<and> ((\<forall>order\<in>set ob. \<not> (price order = p \<and> side order = Buy)) \<and> flag \<noteq> FOther \<longrightarrow>
      book (binance_handleOrderBook num mul n flag ts
              \<lparr>msg_bids = Some [(p, JStr ''0.00000000'')], msg_asks = Some []\<rparr> ob) = ob
      \<and> raised (binance_handleOrderBook num mul n flag ts
              \<lparr>msg_bids = Some [(p, JStr ''0.00000000'')], msg_asks = Some []\<rparr> ob) = None)
   \<and> ((\<forall>item\<in>set (orderBook st). get_prop item ''id'' \<noteq> get_prop u ''id'') \<longrightarrow>
      bitmex_apply (Some (JStr ''delete'')) u (orderBook st) = orderBook st)
   \<and> ((\<forall>item\<in>set (orderBook st). get_prop item ''id'' \<noteq> get_prop u ''id'') \<and> flag \<noteq> FOther \<longrightarrow>
      orderBook (book (bitmex_handleOrderBook num nan fdiv n flag ts
                         (bitmex_message ''delete'' [u]) st)) = orderBook st
      \<and> raised (bitmex_handleOrderBook num nan fdiv n flag ts
                   (bitmex_message ''delete'' [u]) st) = None)
   \<and> (k \<notin> fst ` set levels \<longrightarrow> kraken_update (k, JStr ''0.00000000'') levels = levels)
   \<and> (kr_asks kb = Some levels \<and> k \<notin> fst ` set levels \<longrightarrow>
      kraken_apply (Some (kraken_ask_update [(k, JStr ''0.00000000'')])) kb = (kb, None))
   \<and> (kr_bids kb = Some levels \<and> k \<notin> fst ` set levels \<longrightarrow>
      kraken_apply (Some (kraken_bid_update [(k, JStr ''0.00000000'')])) kb = (kb, None))
   \<and> (kr_asks kb = Some levels \<and> k \<notin> fst ` set levels \<longrightarrow>
      book (kraken_handleOrderBook pf mul n flag ts
              (Some (kraken_ask_update [(k, JStr ''0.00000000'')])) kb) = kb
      \<and> raised (kraken_handleOrderBook pf mul n flag ts
              (Some (kraken_ask_update [(k, JStr ''0.00000000'')])) kb) = None)
   \<and> (kr_bids kb = Some levels \<and> k \<notin> fst ` set levels \<longrightarrow>
      book (kraken_handleOrderBook pf mul n flag ts
              (Some (kraken_bid_update [(k, JStr ''0.00000000'')])) kb) = kb
      \<and> raised (kraken_handleOrderBook pf mul n flag ts
              (Some (kraken_bid_update [(k, JStr ''0.00000000'')])) kb) = None)
   \<and> kraken_synced (kraken_run pf mul n flag msgs
        (book (kraken_handleOrderBook pf mul n flag ts
                 (Some \<lparr>p_as = Some as, p_bs = Some bs, p_a = a, p_b = b\<rparr>) start)))"
proof -
  have binance: "binance_update sd' (p, JStr ''0.00000000'') ob = ob"
    if "\<forall>order\<in>set ob. \<not> (price order = p \<and> side order = sd')" for sd'
  proof -
    from that have "findIndex (\<lambda>order. price order = p \<and> side order = sd') ob = None"
      by (simp add: findIndex_None)
    then show ?thesis by (simp add: binance_update_def)
  qed
  have bitmex: "bitmex_apply (Some (JStr ''delete'')) u (orderBook st) = orderBook st"
    if "\<forall>item\<in>set (orderBook st). get_prop item ''id'' \<noteq> get_prop u ''id''"
  proof -
    from that
    have "findIndex (\<lambda>item. get_prop item ''id'' = get_prop u ''id'') (orderBook st) = None"
      by (simp add: findIndex_None)
    then show ?thesis by (simp add: bitmex_apply_def)
  qed
  have kraken: "kraken_update (k, JStr ''0.00000000'') levels = levels"
    if "k \<notin> fst ` set levels"
    using that by (simp add: kraken_update_def obj_delete_def)
  show ?thesis
  proof (intro conjI impI)
    show "binance_update sd (p, JStr ''0.00000000'') ob = ob"
      if "\<forall>order\<in>set ob. \<not> (price order = p \<and> side order = sd)"
      using that by (rule binance)
  next
    assume a: "(\<forall>order\<in>set ob. \<not> (price order = p \<and> side order = Buy)) \<and> flag \<noteq> FOther"
    then show "book (binance_handleOrderBook num mul n flag ts
              \<lparr>msg_bids = Some [(p, JStr ''0.00000000'')], msg_asks = Some []\<rparr> ob) = ob"
      by (simp add: binance_handleOrderBook_def Let_def binance)
    from a show "raised (binance_handleOrderBook num mul n flag ts
              \<lparr>msg_bids = Some [(p, JStr ''0.00000000'')], msg_asks = Some []\<rparr> ob) = None"
      by (simp add: binance_handleOrderBook_def Let_def binance_insert_ok)
  next
    show "bitmex_apply (Some (JStr ''delete'')) u (orderBook st) = orderBook st"
      if "\<forall>item\<in>set (orderBook st). get_prop item ''id'' \<noteq> get_prop u ''id''"
      using that by (rule bitmex)
  next
    assume a: "(\<forall>item\<in>set (orderBook st). get_prop item ''id'' \<noteq> get_prop u ''id'')
               \<and> flag \<noteq> FOther"
    then show "orderBook (book (bitmex_handleOrderBook num nan fdiv n flag ts
                         (bitmex_message ''delete'' [u]) st)) = orderBook st"
      by (simp add: bitmex_handleOrderBook_def bitmex_message_def bitmex_insert_step_book bitmex)
    from a show "raised (bitmex_handleOrderBook num nan fdiv n flag ts
                   (bitmex_message ''delete'' [u]) st) = None"
      by (simp add: bitmex_handleOrderBook_def bitmex_message_def bitmex_insert_step_ok)
  next
    show "kraken_update (k, JStr ''0.00000000'') levels = levels" if "k \<notin> fst ` set levels"
      using that by (rule kraken)
  next
    assume a: "kr_asks kb = Some levels \<and> k \<notin> fst ` set levels"
    then show "kraken_apply (Some (kraken_ask_update [(k, JStr ''0.00000000'')])) kb = (kb, None)"
      by (simp add: kraken_apply_def kraken_ask_update_def kraken_updates_def kraken)
  next
    assume a: "kr_bids kb = Some levels \<and> k \<notin> fst ` set levels"
    then show "kraken_apply (Some (kraken_bid_update [(k, JStr ''0.00000000'')])) kb = (kb, None)"
      by (simp add: kraken_apply_def kraken_bid_update_def kraken_updates_def kraken)
  next
    assume a: "kr_asks kb = Some levels \<and> k \<notin> fst ` set levels"
    then have "kraken_apply (Some (kraken_ask_update [(k, JStr ''0.00000000'')])) kb = (kb, None)"
      by (simp add: kraken_apply_def kraken_ask_update_def kraken_updates_def kraken)
    then show "book (kraken_handleOrderBook pf mul n flag ts
              (Some (kraken_ask_update [(k, JStr ''0.00000000'')])) kb) = kb"
      "raised (kraken_handleOrderBook pf mul n flag ts
              (Some (kraken_ask_update [(k, JStr ''0.00000000'')])) kb) = None"
      by (simp_all add: kraken_handle_book kraken_handle_raised)
  next
    assume a: "kr_bids kb = Some levels \<and> k \<notin> fst ` set levels"
    then have "kraken_apply (Some (kraken_bid_update [(k, JStr ''0.00000000'')])) kb = (kb, None)"
      by (simp add: kraken_apply_def kraken_bid_update_def kraken_updates_def kraken)
    then show "book (kraken_handleOrderBook pf mul n flag ts
              (Some (kraken_bid_update [(k, JStr ''0.00000000'')])) kb) = kb"
      "raised (kraken_handleOrderBook pf mul n flag ts
              (Some (kraken_bid_update [(k, JStr ''0.00000000'')])) kb) = None"
      by (simp_all add: kraken_handle_book kraken_handle_raised)
  next
    show "kraken_synced (kraken_run pf mul n flag msgs
        (book (kraken_handleOrderBook pf mul n flag ts
                 (Some \<lparr>p_as = Some as, p_bs = Some bs, p_a = a, p_b = b\<rparr>) start)))"
      by (simp add: kraken_run_synced kraken_handle_book kraken_snapshot_synced)
  qed
qed

text \<open>The theorem at a concrete book of each venue, none of which holds the deleted key: the
  Binance book has the price 99 on the other side only, the BitMEX book holds id 1 and not
  id 2, the Kraken sides hold the price 100.0 only; the Kraken book after the snapshot and
  the update of the scenario has both sides.\<close>

theorem delete_absent_noop_witness:
  "binance_update Buy (JStr ''99'', JStr ''0.00000000'')
        [\<lparr>price = JStr ''100.5'', quantity = JStr ''2'', side = Buy\<rparr>,
         \<lparr>price = JStr ''99'', quantity = JStr ''1'', side = Sell\<rparr>]
      = [\<lparr>price = JStr ''100.5'', quantity = JStr ''2'', side = Buy\<rparr>,
         \<lparr>price = (JStr ''99'' :: jsnum jval), quantity = JStr ''1'', side = Sell\<rparr>]
   \<and> raised (binance_handleOrderBook js_num js_mul 20 FTrue ''t''
              \<lparr>msg_bids = Some [(JStr ''99'', JStr ''0.00000000'')], msg_asks = Some []\<rparr>
              [\<lparr>price = JStr ''100.5'', quantity = JStr ''2'', side = Buy\<rparr>,
               \<lparr>price = JStr ''99'', quantity = JStr ''1'', side = Sell\<rparr>]) = None
   \<and> bitmex_apply (Some (JStr ''delete'')) [(''id'', JNum (Fin 2))] [bitmex_order 1 ''Buy'' 50 10]
      = [bitmex_order 1 ''Buy'' 50 10]
   \<and> raised (bitmex_handleOrderBook js_num NaN js_div 20 FTrue ''t''
               (bitmex_message ''delete'' [[(''id'', JNum (Fin 2))]])
               \<lparr>orderBook = [bitmex_order 1 ''Buy'' 50 10], lastInsertedOrderBook = None\<rparr>) = None
   \<and> kraken_apply (Some (kraken_ask_update [(''101.5'', JStr ''0.00000000'')]))
        \<lparr>kr_asks = Some [(''100.0'', JStr ''1'' :: jsnum jval)], kr_bids = Some [(''100.0'', JStr ''1'')]\<rparr>
      = (\<lparr>kr_asks = Some [(''100.0'', JStr ''1'')], kr_bids = Some [(''100.0'', JStr ''1'')]\<rparr>, None)
   \<and> kraken_apply (Some (kraken_bid_update [(''101.5'', JStr ''0.00000000'')]))
        \<lparr>kr_asks = Some [(''100.0'', JStr ''1'' :: jsnum jval)], kr_bids = Some [(''100.0'', JStr ''1'')]\<rparr>
      = (\<lparr>kr_asks = Some [(''100.0'', JStr ''1'')], kr_bids = Some [(''100.0'', JStr ''1'')]\<rparr>, None)
   \<and> raised (kraken_handleOrderBook js_num js_mul 20 FTrue ''t''
              (Some (kraken_ask_update [(''101.5'', JStr ''0.00000000'')]))
              \<lparr>kr_asks = Some [(''100.0'', JStr ''1'')], kr_bids = Some [(''100.0'', JStr ''1'')]\<rparr>) = None
   \<and> raised (kraken_handleOrderBook js_num js_mul 20 FTrue ''t''
              (Some (kraken_bid_update [(''101.5'', JStr ''0.00000000'')]))
              \<lparr>kr_asks = Some [(''100.0'', JStr ''1'')], kr_bids = Some [(''100.0'', JStr ''1'')]\<rparr>) = None
   \<and> kraken_synced (kraken_run js_num js_mul 20 FTrue
        [(''t1'', Some (kraken_ask_update [(''100.5'', JStr ''1'')]))]
        (book (kraken_handleOrderBook js_num js_mul 20 FTrue ''t''
                 (Some \<lparr>p_as = Some [(''100.0'', JStr ''1''), (''101.0'', JStr ''2'')],
                        p_bs = Some [(''99.0'', JStr ''1'')], p_a = None, p_b = None\<rparr>)
                 \<lparr>kr_asks = None, kr_bids = None\<rparr>)))"
proof -
  let ?ob = "[\<lparr>price = JStr ''100.5'', quantity = JStr ''2'', side = Buy\<rparr>,
         \<lparr>price = (JStr ''99'' :: jsnum jval), quantity = JStr ''1'', side = Sell\<rparr>]"
  let ?st = "\<lparr>orderBook = [bitmex_order 1 ''Buy'' 50 10], lastInsertedOrderBook = None\<rparr>"
  let ?kb = "\<lparr>kr_asks = Some [(''100.0'', JStr ''1'' :: jsnum jval)],
              kr_bids = Some [(''100.0'', JStr ''1'')]\<rparr>"
  have f: "FTrue \<noteq> FOther" by simp
  have h1: "\<forall>order\<in>set ?ob. \<not> (price order = JStr ''99'' \<and> side order = Buy)"
    by simp
  have h2: "\<forall>item\<in>set (orderBook ?st). get_prop item ''id'' \<noteq> get_prop [(''id'', JNum (Fin 2))] ''id''"
    by (simp add: bitmex_order_def get_prop_def)
  have h3: "kr_asks ?kb = Some [(''100.0'', JStr ''1'')]" "kr_bids ?kb = Some [(''100.0'', JStr ''1'')]"
    "''101.5'' \<notin> fst ` set [(''100.0'', JStr ''1'' :: jsnum jval)]"
    by simp_all
  have st: "orderBook ?st = [bitmex_order 1 ''Buy'' 50 10]" by simp
  note t = delete_absent_noop [where ob = ?ob and p = "JStr ''99''" and sd = Buy and flag = FTrue
      and num = js_num and mul = js_mul and n = 20 and ts = "''t''" and nan = NaN and fdiv = js_div
      and st = ?st and u = "[(''id'', JNum (Fin 2))]" and k = "''101.5''"
      and levels = "[(''100.0'', JStr ''1'')]" and kb = ?kb and pf = js_num
      and msgs = "[(''t1'', Some (kraken_ask_update [(''100.5'', JStr ''1'')]))]"
      and as = "[(''100.0'', JStr ''1''), (''101.0'', JStr ''2'')]"
      and bs = "[(''99.0'', JStr ''1'')]" and a = None and b = None
      and start = "\<lparr>kr_asks = None, kr_bids = None\<rparr>"]
  note c1 = t [THEN conjunct1] and r1 = t [THEN conjunct2]
  note c2 = r1 [THEN conjunct1] and r2 = r1 [THEN conjunct2]
  note c3 = r2 [THEN conjunct1] and r3 = r2 [THEN conjunct2]
  note c4 = r3 [THEN conjunct1] and r4 = r3 [THEN conjunct2]
  note r5 = r4 [THEN conjunct2]
  note c6 = r5 [THEN conjunct1] and r6 = r5 [THEN conjunct2]
  note c7 = r6 [THEN conjunct1] and r7 = r6 [THEN conjunct2]
  note c8 = r7 [THEN conjunct1] and r8 = r7 [THEN conjunct2]
  note c9 = r8 [THEN conjunct1] and c10 = r8 [THEN conjunct2]
  note e1 = mp [OF c1 h1]
    and e2 = mp [OF c2 conjI [OF h1 f], THEN conjunct2]
    and e3 = mp [OF c3 h2, unfolded st]
    and e4 = mp [OF c4 conjI [OF h2 f], THEN conjunct2]
    and e5 = mp [OF c6 conjI [OF h3(1) h3(3)]]
    and e6 = mp [OF c7 conjI [OF h3(2) h3(3)]]
    and e7 = mp [OF c8 conjI [OF h3(1) h3(3)], THEN conjunct2]
    and e8 = mp [OF c9 conjI [OF h3(2) h3(3)], THEN conjunct2]
  show ?thesis
    by (intro conjI) (rule e1 e2 e3 e4 e5 e6 e7 e8 c10)+
qed

section \<open>BitMEX: inserting an id that is already there\<close>

text \<open>
  Claim C5 says that an Insert whose id is already present leaves exactly one order with
  that id, carrying the new fields. The \<^verbatim>\<open>insert\<close> branch pushes the order without looking
  for its id: inserting id 1 at price 51 into a book that holds id 1 at price 50 gives a
  book with both orders, the old one first, and the handler prints nothing.
\<close>

theorem insert_duplicate_id_counterexample:
  "bitmex_apply (Some (JStr ''insert'')) (bitmex_order 1 ''Buy'' 51 5) [bitmex_order 1 ''Buy'' 50 10]
     = [bitmex_order 1 ''Buy'' 50 10, bitmex_order 1 ''Buy'' 51 5]
   \<and> length (filter (\<lambda>item. get_prop item ''id'' = Some (JNum (Fin 1)))
        (orderBook (book (bitmex_handleOrderBook js_num NaN js_div 25 FFalse ''t''
           (bitmex_message ''insert'' [bitmex_order 1 ''Buy'' 51 5])
           \<lparr>orderBook = [bitmex_order 1 ''Buy'' 50 10],
            lastInsertedOrderBook = Some [bitmex_order 1 ''Buy'' 50 10]\<rparr>)))) = 2
   \<and> logs (bitmex_handleOrderBook js_num NaN js_div 25 FFalse ''t''
           (bitmex_message ''insert'' [bitmex_order 1 ''Buy'' 51 5])
           \<lparr>orderBook = [bitmex_order 1 ''Buy'' 50 10],
            lastInsertedOrderBook = Some [bitmex_order 1 ''Buy'' 50 10]\<rparr>) = []"
  by (simp add: bitmex_handleOrderBook_def bitmex_message_def bitmex_insert_step_def
      bitmex_insertOrderBookToDB_def bitmex_insert_logs_def bitmex_apply_insert
      bitmex_order_def get_prop_def Let_def)

text \<open>
  Claim C5 as amended: an Insert appends its order and keeps every order of the book, so an
  id that was present is afterwards held by one order more, the older ones first; with a
  valid volume flag the handler ends without an exception, and it prints nothing about
  the id: its one line is that of the skipped insertion, printed when the book after the
  message is the one last written.
\<close>

theorem insert_appends:
  "bitmex_apply (Some (JStr ''insert'')) u ob = ob @ [u]
   \<and> length (filter (\<lambda>item. get_prop item ''id'' = get_prop u ''id'')
               (bitmex_apply (Some (JStr ''insert'')) u ob))
      = Suc (length (filter (\<lambda>item. get_prop item ''id'' = get_prop u ''id'') ob))
   \<and> orderBook (book (bitmex_handleOrderBook num nan fdiv n flag ts (bitmex_message ''insert'' us) st))
      = orderBook st @ us
   \<and> (flag \<noteq> FOther \<longrightarrow>
        raised (bitmex_handleOrderBook num nan fdiv n flag ts (bitmex_message ''insert'' us) st)
          = None)
   \<and> (flag \<noteq> FOther \<longrightarrow>
        logs (bitmex_handleOrderBook num nan fdiv n flag ts (bitmex_message ''insert'' us) st)
          = (if Some (orderBook st @ us) = lastInsertedOrderBook st
             then [''Insertion Skipped''] else []))"
proof -
  have l: "logs (bitmex_handleOrderBook num nan fdiv n flag ts (bitmex_message ''insert'' us) st)
          = (if Some (orderBook st @ us) = lastInsertedOrderBook st
             then [''Insertion Skipped''] else [])" if "flag \<noteq> FOther"
    using that
    by (simp add: bitmex_handleOrderBook_def bitmex_message_def bitmex_insert_step_def
        bitmex_insertOrderBookToDB_def bitmex_insert_logs_def bitmex_fold_insert Let_def)
  have o: "bitmex_apply (Some (JStr ''insert'')) u ob = ob @ [u]
   \<and> length (filter (\<lambda>item. get_prop item ''id'' = get_prop u ''id'')
               (bitmex_apply (Some (JStr ''insert'')) u ob))
      = Suc (length (filter (\<lambda>item. get_prop item ''id'' = get_prop u ''id'') ob))
   \<and> orderBook (book (bitmex_handleOrderBook num nan fdiv n flag ts (bitmex_message ''insert'' us) st))
      = orderBook st @ us
   \<and> (flag \<noteq> FOther \<longrightarrow>
        raised (bitmex_handleOrderBook num nan fdiv n flag ts (bitmex_message ''insert'' us) st)
          = None)"
    by (simp add: bitmex_apply_insert bitmex_handleOrderBook_def bitmex_message_def
        bitmex_insert_step_book bitmex_insert_step_ok bitmex_fold_insert)
  from l have "flag \<noteq> FOther \<longrightarrow>
        logs (bitmex_handleOrderBook num nan fdiv n flag ts (bitmex_message ''insert'' us) st)
          = (if Some (orderBook st @ us) = lastInsertedOrderBook st
             then [''Insertion Skipped''] else [])"
    by (rule impI)
  with o show ?thesis
    by blast
qed

theorem insert_appends_witness:
  "FFalse \<noteq> FOther
   \<and> orderBook (book (bitmex_handleOrderBook js_num NaN js_div 25 FFalse ''t''
        (bitmex_message ''insert'' [bitmex_order 1 ''Buy'' 51 5])
        \<lparr>orderBook = [bitmex_order 1 ''Buy'' 50 10], lastInsertedOrderBook = None\<rparr>))
      = [bitmex_order 1 ''Buy'' 50 10, bitmex_order 1 ''Buy'' 51 5]
   \<and> raised (bitmex_handleOrderBook js_num NaN js_div 25 FFalse ''t''
        (bitmex_message ''insert'' [bitmex_order 1 ''Buy'' 51 5])
        \<lparr>orderBook = [bitmex_order 1 ''Buy'' 50 10], lastInsertedOrderBook = None\<rparr>) = None
   \<and> logs (bitmex_handleOrderBook js_num NaN js_div 25 FFalse ''t''
        (bitmex_message ''insert'' [bitmex_order 1 ''Buy'' 51 5])
        \<lparr>orderBook = [bitmex_order 1 ''Buy'' 50 10], lastInsertedOrderBook = None\<rparr>) = []"
  using insert_appends [where num = js_num and nan = NaN and fdiv = js_div and n = 25
      and flag = FFalse and ts = "''t''" and us = "[bitmex_order 1 ''Buy'' 51 5]"
      and u = "bitmex_order 1 ''Buy'' 51 5" and ob = "[bitmex_order 1 ''Buy'' 50 10]"
      and st = "\<lparr>orderBook = [bitmex_order 1 ''Buy'' 50 10], lastInsertedOrderBook = None\<rparr>"]
  by simp

section \<open>BitMEX: the check against the last inserted book\<close>

text \<open>
  Claim C3 says that the gate suppresses a call whose rendered projection (level, side,
  price and volume of every row) is identical to the last emitted one. The script
  compares the whole book instead. With one level configured, the book that holds the
  bid 50 and then the book that holds the bids 50 and 49 render the same single row, and
  the second call still writes it.
\<close>

theorem change_gate_counterexample:
  "bitmex_insertOrderBookToDB js_num NaN js_div 1 FFalse [bitmex_order 1 ''Buy'' 50 10] ''t1'' None
     = (Some [bitmex_order 1 ''Buy'' 50 10],
        Some ([\<lparr>timestamp = ''t1'', platform = ''BitMEX'', order_level = 1, order_type = ''Bid'',
                row_price = Raw (Some (JNum (Fin 50))), volume = Raw (Some (JNum (Fin 10)))\<rparr>],
              None))
   \<and> bitmex_insertOrderBookToDB js_num NaN js_div 1 FFalse
        [bitmex_order 1 ''Buy'' 50 10, bitmex_order 2 ''Buy'' 49 7] ''t2''
        (Some [bitmex_order 1 ''Buy'' 50 10])
     = (Some [bitmex_order 1 ''Buy'' 50 10, bitmex_order 2 ''Buy'' 49 7],
        Some ([\<lparr>timestamp = ''t2'', platform = ''BitMEX'', order_level = 1, order_type = ''Bid'',
                row_price = Raw (Some (JNum (Fin 50))), volume = Raw (Some (JNum (Fin 10)))\<rparr>],
              None))"
  by (simp add: bitmex_insertOrderBookToDB_def bitmex_write_def bitmex_bids_def bitmex_asks_def
      bitmex_order_def get_prop_def sort_by_def desc_def asc_def slice0_def to_number_opt_def
      to_number_def bitmex_volumeBid_def less_eq_jsnum_def Let_def)

text \<open>
  Claim C3 as amended. The first call always writes. A call with a book equal to the one
  stored at the last write is skipped and leaves the stored book as it was, so the
  comparison is always with the last book written, not the last one seen. A call with a
  book that differs in any order or property writes and stores the new book; two books
  that render different rows differ, so a changed row is always written.
\<close>

theorem change_gate_compares_books:
  "bitmex_insertOrderBookToDB num nan fdiv n flag ob ts None
     = (Some ob, Some (bitmex_write num nan fdiv n flag ob ts))
   \<and> bitmex_insertOrderBookToDB num nan fdiv n flag ob ts (Some ob) = (Some ob, None)
   \<and> (ob \<noteq> prev \<longrightarrow>
        bitmex_insertOrderBookToDB num nan fdiv n flag ob ts (Some prev)
          = (Some ob, Some (bitmex_write num nan fdiv n flag ob ts)))
   \<and> (map row_fields (fst (bitmex_write num nan fdiv n flag ob ts))
        \<noteq> map row_fields (fst (bitmex_write num nan fdiv n flag prev ts')) \<longrightarrow>
        bitmex_insertOrderBookToDB num nan fdiv n flag ob ts (Some prev)
          = (Some ob, Some (bitmex_write num nan fdiv n flag ob ts)))"
proof -
  have rows_of_book: "map row_fields (fst (bitmex_insert_loop vol t lab i xs))
      = map row_fields (fst (bitmex_insert_loop vol t' lab i xs))"
    for vol :: "'a obj \<Rightarrow> error + 'a cell" and t t' lab i xs
    by (induction xs arbitrary: i) (auto simp: row_fields_def Let_def split: sum.splits)
  have err_of_book: "snd (bitmex_insert_loop vol t lab i xs) = snd (bitmex_insert_loop vol t' lab i xs)"
    for vol :: "'a obj \<Rightarrow> error + 'a cell" and t t' lab i xs
    by (induction xs arbitrary: i) (auto simp: Let_def split: sum.splits)
  have same: "map row_fields (fst (bitmex_write num nan fdiv n flag ob ts))
      = map row_fields (fst (bitmex_write num nan fdiv n flag ob ts'))"
    using rows_of_book[of _ ts _ _ _ ts'] err_of_book[of _ ts _ _ _ ts']
    by (auto simp: bitmex_write_def Let_def split: option.splits)
  show ?thesis
    using same by (auto simp: bitmex_insertOrderBookToDB_def)
qed

text \<open>The theorem at a book whose only bid changes its size from 9 to 10: the books
  differ, so do the rendered rows, and the second book is written.\<close>

theorem change_gate_compares_books_witness:
  "[bitmex_order 1 ''Buy'' 50 10] \<noteq> [bitmex_order 1 ''Buy'' 50 9]
   \<and> map row_fields (fst (bitmex_write js_num NaN js_div 1 FFalse [bitmex_order 1 ''Buy'' 50 10] ''t2''))
     \<noteq> map row_fields (fst (bitmex_write js_num NaN js_div 1 FFalse [bitmex_order 1 ''Buy'' 50 9] ''t1''))
   \<and> bitmex_insertOrderBookToDB js_num NaN js_div 1 FFalse [bitmex_order 1 ''Buy'' 50 10] ''t2''
        (Some [bitmex_order 1 ''Buy'' 50 9])
     = (Some [bitmex_order 1 ''Buy'' 50 10],
        Some ([\<lparr>timestamp = ''t2'', platform = ''BitMEX'', order_level = 1, order_type = ''Bid'',
                row_price = Raw (Some (JNum (Fin 50))), volume = Raw (Some (JNum (Fin 10)))\<rparr>],
              None))"
proof -
  have ne: "[bitmex_order 1 ''Buy'' 50 10] \<noteq> [bitmex_order 1 ''Buy'' 50 9]"
    by (simp add: bitmex_order_def)
  have w: "bitmex_write js_num NaN js_div 1 FFalse [bitmex_order 1 ''Buy'' 50 z] t
      = ([\<lparr>timestamp = t, platform = ''BitMEX'', order_level = 1, order_type = ''Bid'',
                row_price = Raw (Some (JNum (Fin 50))), volume = Raw (Some (JNum (Fin z)))\<rparr>],
              None)" for z t
    by (simp add: bitmex_write_def bitmex_bids_def bitmex_asks_def
      bitmex_order_def get_prop_def sort_by_def desc_def asc_def slice0_def to_number_opt_def
      to_number_def bitmex_volumeBid_def less_eq_jsnum_def Let_def)
  have rows_ne: "map row_fields (fst (bitmex_write js_num NaN js_div 1 FFalse
        [bitmex_order 1 ''Buy'' 50 10] ''t2''))
     \<noteq> map row_fields (fst (bitmex_write js_num NaN js_div 1 FFalse
        [bitmex_order 1 ''Buy'' 50 9] ''t1''))"
    by (simp add: w row_fields_def)
  from change_gate_compares_books [where num = js_num and nan = NaN and fdiv = js_div and n = 1
      and flag = FFalse and ob = "[bitmex_order 1 ''Buy'' 50 10]" and ts = "''t2''"
      and ts' = "''t1''" and prev = "[bitmex_order 1 ''Buy'' 50 9]"] ne rows_ne w
  show ?thesis by simp
qed

section \<open>BitMEX: base volume of an order whose price is zero\<close>

lemma bitmex_insert_loop_total:
  "\<forall>order\<in>set xs. vol order = Inr (v order) \<Longrightarrow>
   bitmex_insert_loop vol ts lab i xs
     = (map (\<lambda>(j, order). \<lparr>timestamp = ts, platform = ''BitMEX'', order_level = j + 1,
                            order_type = lab, row_price = Raw (get_prop order ''price''),
                            volume = v order\<rparr>) (enumerate i xs), None)"
  by (induction xs arbitrary: i) (simp_all add: Let_def)

text \<open>
  Claim C4 says that a record whose conversion to base volume would divide by a zero or
  non-positive price is skipped. The script divides without looking at the price, and
  JavaScript's division raises nothing: the bid at price 0 below is written as level 2,
  with the volume the division gives.
\<close>

theorem zero_price_row_counterexample:
  "bitmex_write js_num NaN js_div 25 FTrue
     [bitmex_order 1 ''Buy'' 0 10, bitmex_order 2 ''Buy'' 50 10] ''t''
   = ([\<lparr>timestamp = ''t'', platform = ''BitMEX'', order_level = 1, order_type = ''Bid'',
        row_price = Raw (Some (JNum (Fin 50))), volume = Calc (Fin (1 / 5))\<rparr>,
       \<lparr>timestamp = ''t'', platform = ''BitMEX'', order_level = 2, order_type = ''Bid'',
        row_price = Raw (Some (JNum (Fin 0))), volume = Calc PosInf\<rparr>],
      None)"
  by (simp add: bitmex_write_def bitmex_bids_def bitmex_asks_def
      bitmex_order_def get_prop_def sort_by_def desc_def asc_def slice0_def to_number_opt_def
      to_number_def bitmex_volumeBid_def less_eq_jsnum_def js_inf_def js_sign_def Let_def)

text \<open>
  Claim C4 as amended: with the base-volume flag set, one row is written for every order
  of the projection, whatever its price, in order, its volume being the quotient of size
  and price as the built-in division gives it; no exception is raised. Nothing is printed
  about a price: the one line \<^verbatim>\<open>insertOrderBookToDB\<close> can print with this flag is that of the
  skipped insertion, when the book is the one last written, and otherwise the rows are
  those above.
\<close>

theorem base_volume_rows_total:
  "bitmex_write num nan fdiv n FTrue ob ts
   = (map (\<lambda>(j, order). \<lparr>timestamp = ts, platform = ''BitMEX'', order_level = j + 1,
            order_type = ''Bid'', row_price = Raw (get_prop order ''price''),
            volume = Calc (fdiv (to_number_opt num nan (get_prop order ''size''))
                                (to_number_opt num nan (get_prop order ''price'')))\<rparr>)
        (enumerate 0 (slice0 n (bitmex_bids num nan ob)))
      @ map (\<lambda>(j, order). \<lparr>timestamp = ts, platform = ''BitMEX'', order_level = j + 1,
            order_type = ''Ask'', row_price = Raw (get_prop order ''price''),
            volume = Calc (fdiv (to_number_opt num nan (get_prop order ''size''))
                                (to_number_opt num nan (get_prop order ''price'')))\<rparr>)
        (enumerate 0 (slice0 n (bitmex_asks num nan ob))),
      None)
   \<and> logs (bitmex_insert_step num nan fdiv n FTrue ts ob lst)
      = (if Some ob = lst then [''Insertion Skipped''] else [])
   \<and> rows (bitmex_insert_step num nan fdiv n FTrue ts ob lst)
      = (if Some ob = lst then [] else fst (bitmex_write num nan fdiv n FTrue ob ts))
   \<and> raised (bitmex_insert_step num nan fdiv n FTrue ts ob lst) = None"
proof -
  let ?v = "\<lambda>order. Calc (fdiv (to_number_opt num nan (get_prop order ''size''))
                                (to_number_opt num nan (get_prop order ''price'')))"
  have b: "bitmex_insert_loop (bitmex_volumeBid num nan fdiv FTrue) ts lab i xs
     = (map (\<lambda>(j, order). \<lparr>timestamp = ts, platform = ''BitMEX'', order_level = j + 1,
                            order_type = lab, row_price = Raw (get_prop order ''price''),
                            volume = ?v order\<rparr>) (enumerate i xs), None)" for lab i xs
    by (rule bitmex_insert_loop_total) (simp add: bitmex_volumeBid_def)
  have a: "bitmex_insert_loop (bitmex_volumeAsk num nan fdiv FTrue) ts lab i xs
     = (map (\<lambda>(j, order). \<lparr>timestamp = ts, platform = ''BitMEX'', order_level = j + 1,
                            order_type = lab, row_price = Raw (get_prop order ''price''),
                            volume = ?v order\<rparr>) (enumerate i xs), None)" for lab i xs
    by (rule bitmex_insert_loop_total) (simp add: bitmex_volumeAsk_def)
  have w: "bitmex_write num nan fdiv n FTrue ob ts
   = (map (\<lambda>(j, order). \<lparr>timestamp = ts, platform = ''BitMEX'', order_level = j + 1,
            order_type = ''Bid'', row_price = Raw (get_prop order ''price''),
            volume = ?v order\<rparr>)
        (enumerate 0 (slice0 n (bitmex_bids num nan ob)))
      @ map (\<lambda>(j, order). \<lparr>timestamp = ts, platform = ''BitMEX'', order_level = j + 1,
            order_type = ''Ask'', row_price = Raw (get_prop order ''price''),
            volume = ?v order\<rparr>)
        (enumerate 0 (slice0 n (bitmex_asks num nan ob))),
      None)"
    by (simp add: bitmex_write_def Let_def a b)
  have l: "logs (bitmex_insert_step num nan fdiv n FTrue ts ob lst)
      = (if Some ob = lst then [''Insertion Skipped''] else [])"
    by (simp add: bitmex_insert_step_def bitmex_insertOrderBookToDB_def bitmex_insert_logs_def
        Let_def)
  have r: "rows (bitmex_insert_step num nan fdiv n FTrue ts ob lst)
      = (if Some ob = lst then [] else fst (bitmex_write num nan fdiv n FTrue ob ts))"
    by (simp add: bitmex_insert_step_def bitmex_insertOrderBookToDB_def Let_def)
  have e: "raised (bitmex_insert_step num nan fdiv n FTrue ts ob lst) = None"
    by (simp add: bitmex_insert_step_ok)
  from w l r e show ?thesis by (intro conjI)
qed

section \<open>Volume units\<close>

lemma js_mul_commute: "js_mul a b = js_mul b a"
  by (cases a; cases b) (simp_all add: mult.commute)

text \<open>
  Claim C2. For every price, size, native unit and target unit, the volume is the size
  unchanged when the native unit is the wanted one, size times price when the venue
  reports base and quote is wanted, size divided by price when the venue reports quote and
  base is wanted. Binance and Kraken report base, BitMEX reports quote; the volume cell of
  each connector holds the Number \<open>normalize\<close> gives (Binance multiplies price by quantity,
  which is the same for a commutative multiplication, as that of Numbers is). With
  \<^verbatim>\<open>baseVolume = false\<close>, native unit base, price 20000 and size 0.5 the volume is 10000.
\<close>

theorem volume_is_normalized:
  "((\<forall>a b. mul a b = mul b a) \<longrightarrow>
      map_sum id (cell_number num nan) (binance_volume num mul (flag_of baseVolume) order)
        = Inr (normalize mul fdiv (to_number num (price order)) (to_number num (quantity order))
                 Base (wanted baseVolume)))
   \<and> binance_volume num mul FTrue order = Inr (Raw (Some (quantity order)))
   \<and> map_sum id (cell_number pf nan) (kraken_finalVolume pf mul (flag_of baseVolume) (k, v))
        = Inr (normalize mul fdiv (pf k) (to_number pf v) Base (wanted baseVolume))
   \<and> map_sum id (cell_number num nan) (bitmex_volumeBid num nan fdiv (flag_of baseVolume) item)
        = Inr (normalize mul fdiv (to_number_opt num nan (get_prop item ''price''))
                 (to_number_opt num nan (get_prop item ''size'')) Quote (wanted baseVolume))
   \<and> map_sum id (cell_number num nan) (bitmex_volumeAsk num nan fdiv (flag_of baseVolume) item)
        = Inr (normalize mul fdiv (to_number_opt num nan (get_prop item ''price''))
                 (to_number_opt num nan (get_prop item ''size'')) Quote (wanted baseVolume))
   \<and> bitmex_volumeBid num nan fdiv FFalse item = Inr (Raw (get_prop item ''size''))
   \<and> normalize js_mul js_div (Fin 20000) (Fin (1 / 2)) Base (wanted False) = Fin 10000
   \<and> binance_volume js_num js_mul (flag_of False)
        \<lparr>price = JStr ''20000'', quantity = JStr ''0.5'', side = Buy\<rparr> = Inr (Calc (Fin 10000))
   \<and> kraken_finalVolume js_num js_mul (flag_of False) (''20000'', JStr ''0.5'')
        = Inr (Calc (Fin 10000))"
proof (intro conjI impI)
  assume "\<forall>a b. mul a b = mul b a"
  then have c: "mul x y = mul y x" for x y by simp
  show "map_sum id (cell_number num nan) (binance_volume num mul (flag_of baseVolume) order)
        = Inr (normalize mul fdiv (to_number num (price order)) (to_number num (quantity order))
                 Base (wanted baseVolume))"
    by (cases baseVolume)
      (simp_all add: binance_volume_def flag_of_def wanted_def normalize_def cell_number_def
        to_number_opt_def c[of "to_number num (price order)"])
next
  show "binance_volume num mul FTrue order = Inr (Raw (Some (quantity order)))"
    by (simp add: binance_volume_def)
next
  show "map_sum id (cell_number pf nan) (kraken_finalVolume pf mul (flag_of baseVolume) (k, v))
        = Inr (normalize mul fdiv (pf k) (to_number pf v) Base (wanted baseVolume))"
    by (cases baseVolume)
      (simp_all add: kraken_finalVolume_def flag_of_def wanted_def normalize_def cell_number_def)
next
  show "map_sum id (cell_number num nan) (bitmex_volumeBid num nan fdiv (flag_of baseVolume) item)
        = Inr (normalize mul fdiv (to_number_opt num nan (get_prop item ''price''))
                 (to_number_opt num nan (get_prop item ''size'')) Quote (wanted baseVolume))"
    by (cases baseVolume)
      (simp_all add: bitmex_volumeBid_def flag_of_def wanted_def normalize_def cell_number_def)
next
  show "map_sum id (cell_number num nan) (bitmex_volumeAsk num nan fdiv (flag_of baseVolume) item)
        = Inr (normalize mul fdiv (to_number_opt num nan (get_prop item ''price''))
                 (to_number_opt num nan (get_prop item ''size'')) Quote (wanted baseVolume))"
    by (cases baseVolume)
      (simp_all add: bitmex_volumeAsk_def flag_of_def wanted_def normalize_def cell_number_def)
next
  show "bitmex_volumeBid num nan fdiv FFalse item = Inr (Raw (get_prop item ''size''))"
    by (simp add: bitmex_volumeBid_def)
next
  show "normalize js_mul js_div (Fin 20000) (Fin (1 / 2)) Base (wanted False) = Fin 10000"
    by (simp add: normalize_def wanted_def)
next
  show "binance_volume js_num js_mul (flag_of False)
        \<lparr>price = JStr ''20000'', quantity = JStr ''0.5'', side = Buy\<rparr> = Inr (Calc (Fin 10000))"
    by (simp add: binance_volume_def flag_of_def to_number_def js_num_def digit_of_def)
next
  show "kraken_finalVolume js_num js_mul (flag_of False) (''20000'', JStr ''0.5'')
        = Inr (Calc (Fin 10000))"
    by (simp add: kraken_finalVolume_def flag_of_def to_number_def js_num_def digit_of_def)
qed

text \<open>The theorem at the multiplication of the concrete Numbers, which is commutative, for
  a Binance level at price 20000 with quantity 0.5 and quote volume wanted.\<close>

theorem volume_is_normalized_witness:
  "js_mul (Fin 2) (Fin 3) = js_mul (Fin 3) (Fin 2)
   \<and> map_sum id (cell_number js_num NaN)
        (binance_volume js_num js_mul (flag_of False)
           \<lparr>price = JStr ''20000'', quantity = JStr ''0.5'', side = Buy\<rparr>)
     = Inr (normalize js_mul js_div (Fin 20000) (Fin (1 / 2)) Base (wanted False))"
proof -
  have c: "\<forall>a b. js_mul a b = js_mul b a"
    using js_mul_commute by blast
  have n: "to_number js_num (JStr ''20000'') = Fin 20000"
    "to_number js_num (JStr ''0.5'') = Fin (1 / 2)"
    by (simp_all add: to_number_def js_num_def digit_of_def)
  from volume_is_normalized [where mul = js_mul and num = js_num and nan = NaN
      and fdiv = js_div and baseVolume = False
      and order = "\<lparr>price = JStr ''20000'', quantity = JStr ''0.5'', side = Buy\<rparr>"] c
  have "map_sum id (cell_number js_num NaN)
        (binance_volume js_num js_mul (flag_of False)
           \<lparr>price = JStr ''20000'', quantity = JStr ''0.5'', side = Buy\<rparr>)
     = Inr (normalize js_mul js_div
              (to_number js_num (price \<lparr>price = JStr ''20000'', quantity = JStr ''0.5'', side = Buy\<rparr>))
              (to_number js_num (quantity \<lparr>price = JStr ''20000'', quantity = JStr ''0.5'', side = Buy\<rparr>))
              Base (wanted False))"
    by blast
  then show ?thesis by (simp add: n)
qed

section \<open>The number of levels written\<close>

lemma binance_loop_levels:
  "r \<in> set (fst (binance_insert_loop num mul flag ts lab i xs)) \<Longrightarrow>
   i < order_level r \<and> order_level r \<le> i + length xs"
proof (induction xs arbitrary: i)
  case Nil
  then show ?case by simp
next
  case (Cons x xs)
  show ?case
  proof (cases "binance_volume num mul flag x")
    case (Inl e)
    with Cons.prems show ?thesis by simp
  next
    case (Inr v)
    with Cons.prems have "order_level r = i + 1
        \<or> r \<in> set (fst (binance_insert_loop num mul flag ts lab (i + 1) xs))"
      by (auto simp: Let_def)
    then show ?thesis
      using Cons.IH[of "i + 1"] by auto
  qed
qed

lemma bitmex_loop_levels:
  "r \<in> set (fst (bitmex_insert_loop vol ts lab i xs)) \<Longrightarrow>
   i < order_level r \<and> order_level r \<le> i + length xs"
proof (induction xs arbitrary: i)
  case Nil
  then show ?case by simp
next
  case (Cons x xs)
  show ?case
  proof (cases "vol x")
    case (Inl e)
    with Cons.prems show ?thesis by simp
  next
    case (Inr v)
    with Cons.prems have "order_level r = i + 1
        \<or> r \<in> set (fst (bitmex_insert_loop vol ts lab (i + 1) xs))"
      by (auto simp: Let_def)
    then show ?thesis
      using Cons.IH[of "i + 1"] by auto
  qed
qed

lemma kraken_collect_levels:
  "kraken_collect pf mul flag ts lab i xs = Inr rs \<Longrightarrow> r \<in> set rs \<Longrightarrow>
   i < order_level r \<and> order_level r \<le> i + length xs"
proof (induction xs arbitrary: i rs)
  case Nil
  then show ?case by simp
next
  case (Cons x xs)
  from Cons.prems(1) obtain v rs' where
    rs': "kraken_collect pf mul flag ts lab (i + 1) xs = Inr rs'"
    and rs: "rs = \<lparr>timestamp = ts, platform = ''Kraken'', order_level = i + 1,
                   order_type = lab, row_price = Calc (pf (fst x)), volume = v\<rparr> # rs'"
    by (auto split: sum.splits)
  from rs Cons.prems(2) have "order_level r = i + 1 \<or> r \<in> set rs'" by auto
  then show ?case
    using Cons.IH[OF rs'] by auto
qed

text \<open>
  In the Binance, BitMEX and Kraken connectors every row written for a message has a level
  between 1 and the configured number of levels.
\<close>

lemma levels_within_configured:
  assumes "0 \<le> n"
  shows "r \<in> set (fst (binance_insertOrderBookToDB num mul n flag ob ts)) \<Longrightarrow>
           1 \<le> order_level r \<and> order_level r \<le> nat n"
    and "r \<in> set (fst (bitmex_write num nan fdiv n flag bob ts)) \<Longrightarrow>
           1 \<le> order_level r \<and> order_level r \<le> nat n"
    and "kraken_insertOrderBookToDB pf mul n flag oa obd ts = Inr rs \<Longrightarrow> r \<in> set rs \<Longrightarrow>
           1 \<le> order_level r \<and> order_level r \<le> nat n"
proof -
  have len: "length (slice0 n xs) \<le> nat n" for xs :: "'x list"
    using assms by (rule length_slice0)
  {
    assume "r \<in> set (fst (binance_insertOrderBookToDB num mul n flag ob ts))"
    then have "r \<in> set (fst (binance_insert_loop num mul flag ts ''Bid'' 0 (binance_bids num n ob)))
        \<or> r \<in> set (fst (binance_insert_loop num mul flag ts ''Ask'' 0 (binance_asks num n ob)))"
      by (auto simp: binance_insertOrderBookToDB_def Let_def split: option.splits)
    then show "1 \<le> order_level r \<and> order_level r \<le> nat n"
      using binance_loop_levels[of r num mul flag ts _ 0]
        len[of "sort_by (desc (\<lambda>order. to_number num (price order)))
                 (filter (\<lambda>order. side order = Buy) ob)"]
        len[of "sort_by (asc (\<lambda>order. to_number num (price order)))
                 (filter (\<lambda>order. side order = Sell) ob)"]
      by (fastforce simp: binance_bids_def binance_asks_def)
  }
  {
    assume "r \<in> set (fst (bitmex_write num nan fdiv n flag bob ts))"
    then have "r \<in> set (fst (bitmex_insert_loop (bitmex_volumeBid num nan fdiv flag) ts ''Bid'' 0
                              (slice0 n (bitmex_bids num nan bob))))
        \<or> r \<in> set (fst (bitmex_insert_loop (bitmex_volumeAsk num nan fdiv flag) ts ''Ask'' 0
                              (slice0 n (bitmex_asks num nan bob))))"
      by (auto simp: bitmex_write_def Let_def split: option.splits)
    then show "1 \<le> order_level r \<and> order_level r \<le> nat n"
      using bitmex_loop_levels[of r _ ts _ 0] len[of "bitmex_bids num nan bob"]
        len[of "bitmex_asks num nan bob"]
      by fastforce
  }
  {
    assume k: "kraken_insertOrderBookToDB pf mul n flag oa obd ts = Inr rs" and r: "r \<in> set rs"
    from k obtain ra rb where
      ra: "kraken_collect pf mul flag ts ''ask'' 0 (slice0 n oa) = Inr ra"
      and rb: "kraken_collect pf mul flag ts ''bid'' 0 (slice0 n obd) = Inr rb"
      and rs: "rs = ra @ rb"
      by (auto simp: kraken_insertOrderBookToDB_def split: sum.splits)
    from r rs have "r \<in> set ra \<or> r \<in> set rb" by auto
    then show "1 \<le> order_level r \<and> order_level r \<le> nat n"
      using kraken_collect_levels[OF ra, of r] kraken_collect_levels[OF rb, of r]
        len[of oa] len[of obd]
      by fastforce
  }
qed

text \<open>
  Claim C6 says that every row written for a message has a level between 1 and the
  configured number of levels. \<^verbatim>\<open>kucoin50.js\<close> reads \<^verbatim>\<open>config.kucoin.numLevel\<close> into
  \<^verbatim>\<open>cfgNumLevels\<close>, and its header promises to store the levels up to it, but
  \<^verbatim>\<open>insertOrderBooktoDB\<close> writes every stored level (up to 50 a side) whatever the
  configured number: with two bids and one ask in the book, also when one level is
  configured, an update message writes the bid levels 1 and 2.
\<close>

theorem kucoin_writes_all_stored_levels:
  "map (\<lambda>r. (order_type r, order_level r))
     (rows (kucoin_handleOrderBook js_num ''t'' (kucoin_l2update [] [])
        (kucoin_snapshot [(JStr ''100'', JStr ''1''), (JStr ''99'', JStr ''2'')]
                         [(JStr ''101'', JStr ''1'')])))
   = [(''bids'', 1), (''bids'', 2), (''asks'', 1)]"
  by (simp add: kucoin_handleOrderBook_def kucoin_l2update_def kucoin_snapshot_def slice0_def
      kucoin_insertOrderBooktoDB_def)

section \<open>Messages that are neither a snapshot nor an update\<close>

lemma bitmex_apply_other:
  assumes "action \<noteq> Some (JStr ''insert'')" "action \<noteq> Some (JStr ''update'')"
    "action \<noteq> Some (JStr ''delete'')"
  shows "fold (bitmex_apply action) us ob = ob"
  using assms by (induction us) (simp_all add: bitmex_apply_def)

text \<open>
  The other two handlers do not test what they received. The Binance handler iterates the
  bids and asks of any message and ends with a \<^verbatim>\<open>TypeError\<close> when they are missing; the
  Kraken handler writes the current book again after a message it has no use for.
\<close>

lemma binance_other_message_raises:
  "msg_bids m = None \<Longrightarrow>
   binance_handleOrderBook num mul n flag ts m ob
     = \<lparr>book = ob, rows = [], logs = [], raised = Some TypeError\<rparr>"
  by (simp add: binance_handleOrderBook_def)

lemma kraken_other_message_writes_book:
  "book (kraken_handleOrderBook pf mul n flag ts None ob) = ob
   \<and> (kraken_insertOrderBookToDB pf mul n flag (kraken_ordered_asks pf ob)
         (kraken_ordered_bids pf ob) ts = Inr rs \<longrightarrow>
       rows (kraken_handleOrderBook pf mul n flag ts None ob) = rs)"
  by (simp add: kraken_handleOrderBook_def kraken_apply_def split: sum.splits)

text \<open>
  Claim C7 says that the handler logs and drops a message it does not recognise. The
  Kucoin handler tests the type and the subject of the message and does nothing at all
  otherwise: for a \<^verbatim>\<open>welcome\<close> message nothing is printed.
\<close>

theorem unrecognized_message_counterexample:
  "kucoin_handleOrderBook js_num ''t''
     \<lparr>msg_type = Some (JStr ''welcome''), msg_subject = None, changes_asks = [], changes_bids = []\<rparr>
     (kucoin_snapshot [(JStr ''100'', JStr ''1'')] [(JStr ''101'', JStr ''1'')])
   = \<lparr>book = kucoin_snapshot [(JStr ''100'', JStr ''1'')] [(JStr ''101'', JStr ''1'')],
      rows = [], logs = [], raised = None\<rparr>"
  by (simp add: kucoin_handleOrderBook_def)

text \<open>
  Claim C7 as amended, for the two handlers that test what they received. A Kucoin message
  whose type is not \<^verbatim>\<open>message\<close> or whose subject is not \<^verbatim>\<open>trade.l2update\<close>, and a BitMEX
  message for another table than \<^verbatim>\<open>orderBookL2_25\<close>, is dropped silently: the book is
  unchanged, no row is written, nothing is printed, no exception is raised. A BitMEX
  message for the table whose action is none of \<^verbatim>\<open>partial\<close>, \<^verbatim>\<open>insert\<close>, \<^verbatim>\<open>update\<close>, \<^verbatim>\<open>delete\<close>
  changes no order; the book being the one last written, it is skipped with the line
  \<^verbatim>\<open>Insertion Skipped\<close>, and before anything was written (the book still empty) it writes
  no row either.
\<close>

theorem unrecognized_message_dropped:
  "(\<not> (msg_type m = Some (JStr ''message'') \<and> msg_subject m = Some (JStr ''trade.l2update'')) \<longrightarrow>
      kucoin_handleOrderBook num ts m ob = \<lparr>book = ob, rows = [], logs = [], raised = None\<rparr>)
   \<and> (msg_table bm \<noteq> Some (JStr ''orderBookL2_25'') \<longrightarrow>
      bitmex_handleOrderBook num nan fdiv n flag ts bm st
        = \<lparr>book = st, rows = [], logs = [], raised = None\<rparr>)
   \<and> (msg_table bm = Some (JStr ''orderBookL2_25'')
       \<and> msg_action bm \<noteq> Some (JStr ''partial'') \<and> msg_action bm \<noteq> Some (JStr ''insert'')
       \<and> msg_action bm \<noteq> Some (JStr ''update'') \<and> msg_action bm \<noteq> Some (JStr ''delete'')
       \<and> lastInsertedOrderBook st = Some (orderBook st) \<longrightarrow>
      bitmex_handleOrderBook num nan fdiv n flag ts bm st
        = \<lparr>book = st, rows = [], logs = [''Insertion Skipped''], raised = None\<rparr>)
   \<and> (msg_table bm = Some (JStr ''orderBookL2_25'')
       \<and> msg_action bm \<noteq> Some (JStr ''partial'') \<and> msg_action bm \<noteq> Some (JStr ''insert'')
       \<and> msg_action bm \<noteq> Some (JStr ''update'') \<and> msg_action bm \<noteq> Some (JStr ''delete'')
       \<and> orderBook st = [] \<and> lastInsertedOrderBook st = None \<longrightarrow>
      bitmex_handleOrderBook num nan fdiv n flag ts bm st
        = \<lparr>book = \<lparr>orderBook = [], lastInsertedOrderBook = Some []\<rparr>, rows = [], logs = [],
           raised = None\<rparr>)"
proof (intro conjI impI)
  assume "\<not> (msg_type m = Some (JStr ''message'') \<and> msg_subject m = Some (JStr ''trade.l2update''))"
  then show "kucoin_handleOrderBook num ts m ob = \<lparr>book = ob, rows = [], logs = [], raised = None\<rparr>"
    by (auto simp: kucoin_handleOrderBook_def)
next
  assume "msg_table bm \<noteq> Some (JStr ''orderBookL2_25'')"
  then show "bitmex_handleOrderBook num nan fdiv n flag ts bm st
        = \<lparr>book = st, rows = [], logs = [], raised = None\<rparr>"
    by (simp add: bitmex_handleOrderBook_def)
next
  assume a: "msg_table bm = Some (JStr ''orderBookL2_25'')
       \<and> msg_action bm \<noteq> Some (JStr ''partial'') \<and> msg_action bm \<noteq> Some (JStr ''insert'')
       \<and> msg_action bm \<noteq> Some (JStr ''update'') \<and> msg_action bm \<noteq> Some (JStr ''delete'')
       \<and> lastInsertedOrderBook st = Some (orderBook st)"
  then have "fold (bitmex_apply (msg_action bm)) (msg_data bm) (orderBook st) = orderBook st"
    by (simp add: bitmex_apply_other)
  with a show "bitmex_handleOrderBook num nan fdiv n flag ts bm st
        = \<lparr>book = st, rows = [], logs = [''Insertion Skipped''], raised = None\<rparr>"
    by (simp add: bitmex_handleOrderBook_def bitmex_insert_step_def bitmex_insertOrderBookToDB_def
        bitmex_insert_logs_def)
next
  assume a: "msg_table bm = Some (JStr ''orderBookL2_25'')
       \<and> msg_action bm \<noteq> Some (JStr ''partial'') \<and> msg_action bm \<noteq> Some (JStr ''insert'')
       \<and> msg_action bm \<noteq> Some (JStr ''update'') \<and> msg_action bm \<noteq> Some (JStr ''delete'')
       \<and> orderBook st = [] \<and> lastInsertedOrderBook st = None"
  then have "fold (bitmex_apply (msg_action bm)) (msg_data bm) (orderBook st) = orderBook st"
    by (simp add: bitmex_apply_other)
  with a show "bitmex_handleOrderBook num nan fdiv n flag ts bm st
        = \<lparr>book = \<lparr>orderBook = [], lastInsertedOrderBook = Some []\<rparr>, rows = [], logs = [],
           raised = None\<rparr>"
    by (simp add: bitmex_handleOrderBook_def bitmex_insert_step_def bitmex_insertOrderBookToDB_def
        bitmex_insert_logs_def bitmex_write_def bitmex_bids_def bitmex_asks_def sort_by_def
        slice0_def)
qed

text \<open>The theorem at a Kucoin \<^verbatim>\<open>welcome\<close> message, at a BitMEX message for the table
  \<^verbatim>\<open>trade\<close>, and at a BitMEX message for the book table with the action \<^verbatim>\<open>flush\<close>, once
  after a write and once before any.\<close>

theorem unrecognized_message_dropped_witness:
  "kucoin_handleOrderBook js_num ''t''
     \<lparr>msg_type = Some (JStr ''welcome''), msg_subject = None, changes_asks = [], changes_bids = []\<rparr>
     (kucoin_snapshot [(JStr ''100'', JStr ''1'')] [(JStr ''101'', JStr ''1'')])
   = \<lparr>book = kucoin_snapshot [(JStr ''100'', JStr ''1'')] [(JStr ''101'', JStr ''1'')],
      rows = [], logs = [], raised = None\<rparr>
   \<and> bitmex_handleOrderBook js_num NaN js_div 25 FTrue ''t''
       \<lparr>msg_table = Some (JStr ''trade''), msg_action = Some (JStr ''insert''),
        msg_data = [bitmex_order 7 ''Buy'' 50 1]\<rparr>
       \<lparr>orderBook = [bitmex_order 1 ''Buy'' 50 10], lastInsertedOrderBook = None\<rparr>
     = \<lparr>book = \<lparr>orderBook = [bitmex_order 1 ''Buy'' 50 10], lastInsertedOrderBook = None\<rparr>,
        rows = [], logs = [], raised = None\<rparr>
   \<and> bitmex_handleOrderBook js_num NaN js_div 25 FTrue ''t''
       (bitmex_message ''flush'' [bitmex_order 7 ''Buy'' 50 1])
       \<lparr>orderBook = [bitmex_order 1 ''Buy'' 50 10],
        lastInsertedOrderBook = Some [bitmex_order 1 ''Buy'' 50 10]\<rparr>
     = \<lparr>book = \<lparr>orderBook = [bitmex_order 1 ''Buy'' 50 10],
                 lastInsertedOrderBook = Some [bitmex_order 1 ''Buy'' 50 10]\<rparr>,
        rows = [], logs = [''Insertion Skipped''], raised = None\<rparr>
   \<and> bitmex_handleOrderBook js_num NaN js_div 25 FTrue ''t''
       (bitmex_message ''flush'' [bitmex_order 7 ''Buy'' 50 1])
       \<lparr>orderBook = [], lastInsertedOrderBook = None\<rparr>
     = \<lparr>book = \<lparr>orderBook = [], lastInsertedOrderBook = Some []\<rparr>,
        rows = [], logs = [], raised = None\<rparr>"
proof -
  note t = unrecognized_message_dropped [where num = js_num and nan = NaN and fdiv = js_div
      and n = 25 and flag = FTrue and ts = "''t''"
      and m = "\<lparr>msg_type = Some (JStr ''welcome''), msg_subject = None, changes_asks = [],
                changes_bids = []\<rparr>"
      and ob = "kucoin_snapshot [(JStr ''100'', JStr ''1'')] [(JStr ''101'', JStr ''1'')]"]
  have 1: "kucoin_handleOrderBook js_num ''t''
     \<lparr>msg_type = Some (JStr ''welcome''), msg_subject = None, changes_asks = [], changes_bids = []\<rparr>
     (kucoin_snapshot [(JStr ''100'', JStr ''1'')] [(JStr ''101'', JStr ''1'')])
   = \<lparr>book = kucoin_snapshot [(JStr ''100'', JStr ''1'')] [(JStr ''101'', JStr ''1'')],
      rows = [], logs = [], raised = None\<rparr>"
    using t [where bm = "bitmex_message ''flush'' []"
        and st = "\<lparr>orderBook = [], lastInsertedOrderBook = None\<rparr>"]
    by simp
  have 2: "bitmex_handleOrderBook js_num NaN js_div 25 FTrue ''t''
       \<lparr>msg_table = Some (JStr ''trade''), msg_action = Some (JStr ''insert''),
        msg_data = [bitmex_order 7 ''Buy'' 50 1]\<rparr>
       \<lparr>orderBook = [bitmex_order 1 ''Buy'' 50 10], lastInsertedOrderBook = None\<rparr>
     = \<lparr>book = \<lparr>orderBook = [bitmex_order 1 ''Buy'' 50 10], lastInsertedOrderBook = None\<rparr>,
        rows = [], logs = [], raised = None\<rparr>"
    using t [where bm = "\<lparr>msg_table = Some (JStr ''trade''), msg_action = Some (JStr ''insert''),
        msg_data = [bitmex_order 7 ''Buy'' 50 1]\<rparr>"
        and st = "\<lparr>orderBook = [bitmex_order 1 ''Buy'' 50 10], lastInsertedOrderBook = None\<rparr>"]
    by simp
  have 3: "bitmex_handleOrderBook js_num NaN js_div 25 FTrue ''t''
       (bitmex_message ''flush'' [bitmex_order 7 ''Buy'' 50 1])
       \<lparr>orderBook = [bitmex_order 1 ''Buy'' 50 10],
        lastInsertedOrderBook = Some [bitmex_order 1 ''Buy'' 50 10]\<rparr>
     = \<lparr>book = \<lparr>orderBook = [bitmex_order 1 ''Buy'' 50 10],
                 lastInsertedOrderBook = Some [bitmex_order 1 ''Buy'' 50 10]\<rparr>,
        rows = [], logs = [''Insertion Skipped''], raised = None\<rparr>"
    using t [where bm = "bitmex_message ''flush'' [bitmex_order 7 ''Buy'' 50 1]"
        and st = "\<lparr>orderBook = [bitmex_order 1 ''Buy'' 50 10],
                   lastInsertedOrderBook = Some [bitmex_order 1 ''Buy'' 50 10]\<rparr>"]
    by (simp add: bitmex_message_def)
  have 4: "bitmex_handleOrderBook js_num NaN js_div 25 FTrue ''t''
       (bitmex_message ''flush'' [bitmex_order 7 ''Buy'' 50 1])
       \<lparr>orderBook = [], lastInsertedOrderBook = None\<rparr>
     = \<lparr>book = \<lparr>orderBook = [], lastInsertedOrderBook = Some []\<rparr>,
        rows = [], logs = [], raised = None\<rparr>"
    using t [where bm = "bitmex_message ''flush'' [bitmex_order 7 ''Buy'' 50 1]"
        and st = "\<lparr>orderBook = [], lastInsertedOrderBook = None\<rparr>"]
    by (simp add: bitmex_message_def)
  from 1 2 3 4 show ?thesis by blast
qed

section \<open>The projection of a side\<close>

text \<open>
  What the projections satisfy. The Binance and Kraken projections are the first \<open>n\<close>
  levels of the sorted side: they are sorted for every book, and hold at most \<open>n\<close> levels
  for every bound that is not negative. What Kucoin writes is its book, sorted and cut to
  50 levels after every change: a changed side is sorted and holds at most 50 levels
  whatever the levels were. No price key occurs twice in a projection after a snapshot in
  which no price occurs twice within a side, and any list of messages, when the snapshot
  is the first thing the book receives; Kraken starts from the empty object, its
  snapshots being messages like the updates and de-duplicated on arrival. Kucoin stores
  the snapshot as received, so its sides are in order at every moment when those of the
  snapshot are.
\<close>

lemma projection_properties:
  "descending (\<lambda>order. to_number num (price order)) (binance_bids num n ob)
   \<and> ascending (\<lambda>order. to_number num (price order)) (binance_asks num n ob)
   \<and> (0 \<le> n \<longrightarrow> length (binance_bids num n ob) \<le> nat n \<and> length (binance_asks num n ob) \<le> nat n)
   \<and> (distinct (map fst bids) \<and> distinct (map fst asks) \<longrightarrow>
        (let ob' = binance_run num mul n flag msgs (binance_snapshot bids asks [])
         in distinct (map price (binance_bids num n ob'))
            \<and> distinct (map price (binance_asks num n ob'))))
   \<and> ascending (\<lambda>x. pf (fst x)) (slice0 n (kraken_ordered_asks pf kb))
   \<and> descending (\<lambda>x. pf (fst x)) (slice0 n (kraken_ordered_bids pf kb))
   \<and> (0 \<le> n \<longrightarrow> length (slice0 n (kraken_ordered_asks pf kb)) \<le> nat n
                \<and> length (slice0 n (kraken_ordered_bids pf kb)) \<le> nat n)
   \<and> (let kb' = kraken_run pf mul n flag kmsgs \<lparr>kr_asks = None, kr_bids = None\<rparr>
      in distinct (map fst (slice0 n (kraken_ordered_asks pf kb')))
         \<and> distinct (map fst (slice0 n (kraken_ordered_bids pf kb'))))
   \<and> ascending (\<lambda>level. to_number num (fst level)) (kucoin_change num True change levels)
   \<and> descending (\<lambda>level. to_number num (fst level)) (kucoin_change num False change levels)
   \<and> length (kucoin_change num is_asks change levels) \<le> 50
   \<and> (distinct (map fst cbids) \<and> distinct (map fst casks) \<longrightarrow>
        (let cb = kucoin_run num cmsgs (kucoin_snapshot cbids casks)
         in length (kc_bids cb) \<le> 50 \<and> distinct (map fst (kc_bids cb))
            \<and> length (kc_asks cb) \<le> 50 \<and> distinct (map fst (kc_asks cb))))
   \<and> (descending (\<lambda>level. to_number num (fst level)) cbids
       \<and> ascending (\<lambda>level. to_number num (fst level)) casks \<longrightarrow>
        (let cb = kucoin_run num cmsgs (kucoin_snapshot cbids casks)
         in descending (\<lambda>level. to_number num (fst level)) (kc_bids cb)
            \<and> ascending (\<lambda>level. to_number num (fst level)) (kc_asks cb)))"
proof (intro conjI impI)
  show "descending (\<lambda>order. to_number num (price order)) (binance_bids num n ob)"
    by (simp add: binance_bids_def descending_def sorted_wrt_slice0 sorted_sort_by_desc)
  show "ascending (\<lambda>order. to_number num (price order)) (binance_asks num n ob)"
    by (simp add: binance_asks_def ascending_def sorted_wrt_slice0 sorted_sort_by_asc)
  show "ascending (\<lambda>x. pf (fst x)) (slice0 n (kraken_ordered_asks pf kb))"
    by (simp add: kraken_ordered_asks_def ascending_def sorted_wrt_slice0 sorted_sort_by_asc)
  show "descending (\<lambda>x. pf (fst x)) (slice0 n (kraken_ordered_bids pf kb))"
    by (simp add: kraken_ordered_bids_def descending_def sorted_wrt_slice0 sorted_sort_by_desc)
  show "ascending (\<lambda>level. to_number num (fst level)) (kucoin_change num True change levels)"
    by (rule kucoin_change_sorted)
  show "descending (\<lambda>level. to_number num (fst level)) (kucoin_change num False change levels)"
    by (rule kucoin_change_sorted)
  show "length (kucoin_change num is_asks change levels) \<le> 50"
    by (rule kucoin_change_length)
next
  assume "0 \<le> n"
  then show "length (binance_bids num n ob) \<le> nat n" "length (binance_asks num n ob) \<le> nat n"
    "length (slice0 n (kraken_ordered_asks pf kb)) \<le> nat n"
    "length (slice0 n (kraken_ordered_bids pf kb)) \<le> nat n"
    by (simp_all add: binance_bids_def binance_asks_def length_slice0)
next
  assume "distinct (map fst bids) \<and> distinct (map fst asks)"
  then have "distinct (map binance_key (binance_snapshot bids asks []))"
    by (simp add: binance_snapshot_distinct)
  then have "distinct (map binance_key (binance_run num mul n flag msgs (binance_snapshot bids asks [])))"
    by (rule binance_run_distinct)
  then show "let ob' = binance_run num mul n flag msgs (binance_snapshot bids asks [])
         in distinct (map price (binance_bids num n ob'))
            \<and> distinct (map price (binance_asks num n ob'))"
    by (simp add: Let_def binance_bids_def binance_asks_def distinct_map_slice0
        distinct_map_sort_by binance_side_distinct)
next
  have "kraken_ok \<lparr>kr_asks = None, kr_bids = (None :: 'b obj option)\<rparr>"
    by (simp add: kraken_ok_def side_ok_def)
  then have "kraken_ok (kraken_run pf mul n flag kmsgs \<lparr>kr_asks = None, kr_bids = None\<rparr>)"
    by (rule kraken_run_ok)
  then show "let kb' = kraken_run pf mul n flag kmsgs \<lparr>kr_asks = None, kr_bids = None\<rparr>
      in distinct (map fst (slice0 n (kraken_ordered_asks pf kb')))
         \<and> distinct (map fst (slice0 n (kraken_ordered_bids pf kb')))"
    by (simp add: Let_def kraken_distinct)
next
  assume "distinct (map fst cbids) \<and> distinct (map fst casks)"
  then have "kucoin_distinct (kucoin_snapshot cbids casks)"
    by (simp add: kucoin_snapshot_distinct)
  then have "kucoin_distinct (kucoin_run num cmsgs (kucoin_snapshot cbids casks))"
    by (rule kucoin_run_distinct)
  then show "let cb = kucoin_run num cmsgs (kucoin_snapshot cbids casks)
         in length (kc_bids cb) \<le> 50 \<and> distinct (map fst (kc_bids cb))
            \<and> length (kc_asks cb) \<le> 50 \<and> distinct (map fst (kc_asks cb))"
    by (simp add: Let_def kucoin_distinct_def)
next
  assume "descending (\<lambda>level. to_number num (fst level)) cbids
       \<and> ascending (\<lambda>level. to_number num (fst level)) casks"
  then have "kucoin_sorted num (kucoin_snapshot cbids casks)"
    by (simp add: kucoin_snapshot_sorted)
  then have "kucoin_sorted num (kucoin_run num cmsgs (kucoin_snapshot cbids casks))"
    by (rule kucoin_run_sorted)
  then show "let cb = kucoin_run num cmsgs (kucoin_snapshot cbids casks)
         in descending (\<lambda>level. to_number num (fst level)) (kc_bids cb)
            \<and> ascending (\<lambda>level. to_number num (fst level)) (kc_asks cb)"
    by (simp add: Let_def kucoin_sorted_def)
qed

text \<open>
  Claim C1 says that after a snapshot and any sequence of upserts and deletes the
  projection of a side with bound \<open>n\<close> is sorted by price, has at most \<open>n\<close> entries and
  holds no price twice. \<^verbatim>\<open>kucoin50.js\<close> does not apply the bound: at the scenario of the
  specification (snapshot asks 100 and 101, bid 99, two levels configured, then the
  upsert of the ask 100.5) it writes three asks, as the levels 1, 2 and 3, where the
  specification expects the asks 100 and 100.5, which the Binance and Kraken connectors
  project on the same input (second and third conjunct). A second defect breaks the
  distinct prices on Binance: \<^verbatim>\<open>binance20.js\<close> opens its WebSocket without waiting for the
  REST snapshot, and pushes the snapshot onto whatever the book holds by then, so a bid
  that a depth message brought before the snapshot is in the book twice (last conjunct);
  \<^verbatim>\<open>kucoin50.js\<close> subscribes only once the snapshot is there.
\<close>

theorem projection_exceeds_configured_levels:
  "map row_fields (rows (kucoin_handleOrderBook js_num ''t1''
       (kucoin_l2update [(JStr ''100.5'', JStr ''1'')] [])
       (kucoin_snapshot scenario_bids scenario_asks)))
     = [(1, ''bids'', Raw (Some (JStr ''99'')), Raw (Some (JStr ''1''))),
        (1, ''asks'', Raw (Some (JStr ''100'')), Raw (Some (JStr ''1''))),
        (2, ''asks'', Raw (Some (JStr ''100.5'')), Raw (Some (JStr ''1''))),
        (3, ''asks'', Raw (Some (JStr ''101'')), Raw (Some (JStr ''2'')))]
   \<and> map price (binance_asks js_num 2
        (binance_run js_num js_mul 2 FTrue
           [(''t1'', \<lparr>msg_bids = Some [], msg_asks = Some [(JStr ''100.5'', JStr ''1'')]\<rparr>)]
           (binance_snapshot scenario_bids scenario_asks [])))
     = [JStr ''100'', JStr ''100.5'']
   \<and> map fst (slice0 2 (kraken_ordered_asks js_num
        (kraken_run js_num js_mul 2 FTrue scenario_kraken \<lparr>kr_asks = None, kr_bids = None\<rparr>)))
     = [''100.0'', ''100.5'']
   \<and> map price (binance_bids js_num 2
        (binance_snapshot [(JStr ''100'', JStr ''1'')] []
           (book (binance_handleOrderBook js_num js_mul 2 FTrue ''t0''
                    \<lparr>msg_bids = Some [(JStr ''100'', JStr ''2'')], msg_asks = Some []\<rparr> []))))
     = [JStr ''100'', JStr ''100'']"
proof -
  have nums: "js_num ''99'' = Fin 99" "js_num ''100'' = Fin 100" "js_num ''101'' = Fin 101"
    "js_num ''100.5'' = Fin (201 / 2)" "js_num ''100.0'' = Fin 100" "js_num ''101.0'' = Fin 101"
    by (simp_all add: js_num_def digit_of_def)
  have e0: "map row_fields (rows (kucoin_handleOrderBook js_num ''t1''
       (kucoin_l2update [(JStr ''100.5'', JStr ''1'')] [])
       (kucoin_snapshot scenario_bids scenario_asks)))
     = [(1, ''bids'', Raw (Some (JStr ''99'')), Raw (Some (JStr ''1''))),
        (1, ''asks'', Raw (Some (JStr ''100'')), Raw (Some (JStr ''1''))),
        (2, ''asks'', Raw (Some (JStr ''100.5'')), Raw (Some (JStr ''1''))),
        (3, ''asks'', Raw (Some (JStr ''101'')), Raw (Some (JStr ''2'')))]"
    by (simp add: kucoin_handleOrderBook_def kucoin_l2update_def kucoin_change_def
        kucoin_snapshot_def scenario_bids_def scenario_asks_def sort_by_def asc_def
        to_number_def nums less_eq_jsnum_def slice0_def kucoin_insertOrderBooktoDB_def
        row_fields_def Let_def)
  have e1: "map price (binance_asks js_num 2
      (binance_run js_num js_mul 2 FTrue
         [(''t1'', \<lparr>msg_bids = Some [], msg_asks = Some [(JStr ''100.5'', JStr ''1'')]\<rparr>)]
         (binance_snapshot scenario_bids scenario_asks [])))
     = [JStr ''100'', JStr ''100.5'']"
    by (simp add: binance_run_def binance_handleOrderBook_def binance_update_def
        binance_snapshot_def scenario_bids_def scenario_asks_def binance_asks_def sort_by_def
        asc_def to_number_def nums less_eq_jsnum_def slice0_def Let_def)
  have e2: "map fst (slice0 2 (kraken_ordered_asks js_num
        (kraken_run js_num js_mul 2 FTrue scenario_kraken \<lparr>kr_asks = None, kr_bids = None\<rparr>)))
     = [''100.0'', ''100.5'']"
    by (simp add: kraken_run_def kraken_handle_book kraken_apply_def kraken_ask_update_def
        scenario_kraken_def kraken_updates_def kraken_update_def obj_set_def fromPairs_def
        kraken_ordered_asks_def toPairs_def is_array_index_def digit_of_def sort_by_def
        asc_def nums less_eq_jsnum_def slice0_def Let_def)
  have e3: "map price (binance_bids js_num 2
        (binance_snapshot [(JStr ''100'', JStr ''1'')] []
           (book (binance_handleOrderBook js_num js_mul 2 FTrue ''t0''
                    \<lparr>msg_bids = Some [(JStr ''100'', JStr ''2'')], msg_asks = Some []\<rparr> []))))
     = [JStr ''100'', JStr ''100'']"
    by (simp add: binance_handleOrderBook_def binance_update_def binance_snapshot_def
        binance_bids_def sort_by_def desc_def to_number_def nums less_eq_jsnum_def slice0_def
        Let_def)
  from e0 e1 e2 e3 show ?thesis by (intro conjI)
qed

section \<open>The zero sentinel\<close>

text \<open>
  Claim C10 says that an update whose size is zero in another spelling than the venue's
  sentinel is upserted as a zero-size level that then appears in the projection. It is
  upserted, but the projection holds the first \<open>n\<close> levels of a side only: with one level
  configured and the bids 100 and 99 in the Binance book, the update of 99 to \<^verbatim>\<open>"0.0"\<close>
  leaves the level in the book with that size, and the only row written is the bid 100.
\<close>

theorem zero_size_level_counterexample:
  "book (binance_handleOrderBook js_num js_mul 1 FTrue ''t''
       \<lparr>msg_bids = Some [(JStr ''99'', JStr ''0.0'')], msg_asks = Some []\<rparr>
       (binance_snapshot [(JStr ''100'', JStr ''1''), (JStr ''99'', JStr ''2'')] [] []))
     = [\<lparr>price = JStr ''100'', quantity = JStr ''1'', side = Buy\<rparr>,
        \<lparr>price = JStr ''99'', quantity = JStr ''0.0'', side = Buy\<rparr>]
   \<and> map row_fields (rows (binance_handleOrderBook js_num js_mul 1 FTrue ''t''
       \<lparr>msg_bids = Some [(JStr ''99'', JStr ''0.0'')], msg_asks = Some []\<rparr>
       (binance_snapshot [(JStr ''100'', JStr ''1''), (JStr ''99'', JStr ''2'')] [] [])))
     = [(1, ''Bid'', Raw (Some (JStr ''100'')), Raw (Some (JStr ''1'')))]"
proof -
  have nums: "js_num ''99'' = Fin 99" "js_num ''100'' = Fin 100"
    by (simp_all add: js_num_def digit_of_def)
  show ?thesis
    by (simp add: binance_handleOrderBook_def binance_update_def binance_snapshot_def
        binance_insertOrderBookToDB_def binance_bids_def binance_asks_def binance_volume_def
        sort_by_def desc_def asc_def to_number_def nums less_eq_jsnum_def slice0_def
        row_fields_def Let_def)
qed

text \<open>
  Claim C10 as amended. For the three price-keyed venues a level is deleted by the exact
  sentinel (\<^verbatim>\<open>"0"\<close> for Kucoin, \<^verbatim>\<open>"0.00000000"\<close> for Binance and Kraken) and by nothing else:
  after an update with any other size, be it \<^verbatim>\<open>"0.0"\<close>, \<^verbatim>\<open>"0.000"\<close> or the Number 0, the book
  holds the level with that size. The level is then in the projection if it ranks within
  the first \<open>n\<close> levels of its side, that is, if at most \<open>n\<close> levels of the side, the level
  itself included, have a price that the sort does not put behind its price; it is not in
  the projection if \<open>n\<close> or more levels of the side have a price that the sort puts before
  its price. Kucoin keeps the first 50 levels of the sorted side after every change and
  writes them in that order, the level at position \<open>j\<close> as the level \<open>j + 1\<close> (lemma
  \<open>kucoin_values_levels\<close>): there the level is among the first \<open>m\<close> levels of the side,
  for \<open>m\<close> up to 50, under the same two conditions, and it is not kept in the book if 50
  levels rank before it. After an update with the sentinel the price is gone from the
  side (for Binance, whose book can hold a price twice, in a book that holds no price
  twice on a side).
\<close>

theorem sentinel_deletes_other_sizes_upsert:
  "(q \<noteq> JStr ''0.00000000'' \<longrightarrow>
      \<lparr>price = p, quantity = q, side = sd\<rparr> \<in> set (binance_update sd (p, q) ob))
   \<and> (q \<noteq> JStr ''0.00000000''
       \<and> int (not_behind (desc (\<lambda>order. to_number num (price order)))
                \<lparr>price = p, quantity = q, side = Buy\<rparr>
                (filter (\<lambda>order. side order = Buy) (binance_update Buy (p, q) ob))) \<le> n \<longrightarrow>
      \<lparr>price = p, quantity = q, side = Buy\<rparr> \<in> set (binance_bids num n (binance_update Buy (p, q) ob)))
   \<and> (0 \<le> n
       \<and> n \<le> int (ahead (desc (\<lambda>order. to_number num (price order)))
                    \<lparr>price = p, quantity = q, side = Buy\<rparr>
                    (filter (\<lambda>order. side order = Buy) (binance_update Buy (p, q) ob))) \<longrightarrow>
      \<lparr>price = p, quantity = q, side = Buy\<rparr> \<notin> set (binance_bids num n (binance_update Buy (p, q) ob)))
   \<and> (q \<noteq> JStr ''0.00000000''
       \<and> int (not_behind (asc (\<lambda>order. to_number num (price order)))
                \<lparr>price = p, quantity = q, side = Sell\<rparr>
                (filter (\<lambda>order. side order = Sell) (binance_update Sell (p, q) ob))) \<le> n \<longrightarrow>
      \<lparr>price = p, quantity = q, side = Sell\<rparr> \<in> set (binance_asks num n (binance_update Sell (p, q) ob)))
   \<and> (0 \<le> n
       \<and> n \<le> int (ahead (asc (\<lambda>order. to_number num (price order)))
                    \<lparr>price = p, quantity = q, side = Sell\<rparr>
                    (filter (\<lambda>order. side order = Sell) (binance_update Sell (p, q) ob))) \<longrightarrow>
      \<lparr>price = p, quantity = q, side = Sell\<rparr> \<notin> set (binance_asks num n (binance_update Sell (p, q) ob)))
   \<and> (distinct (map binance_key ob) \<longrightarrow>
      (p, sd) \<notin> binance_key ` set (binance_update sd (p, JStr ''0.00000000'') ob))
   \<and> (q \<noteq> JStr ''0''
       \<and> not_behind (kucoin_le num is_asks) (p, q) (kucoin_upsert p q levels) \<le> m \<and> m \<le> 50 \<longrightarrow>
      (p, q) \<in> set (take m (kucoin_change num is_asks (p, q) levels)))
   \<and> (q \<noteq> JStr ''0''
       \<and> m \<le> ahead (kucoin_le num is_asks) (p, q) (kucoin_upsert p q levels) \<longrightarrow>
      (p, q) \<notin> set (take m (kucoin_change num is_asks (p, q) levels)))
   \<and> (q \<noteq> JStr ''0''
       \<and> 50 \<le> ahead (kucoin_le num is_asks) (p, q) (kucoin_upsert p q levels) \<longrightarrow>
      (p, q) \<notin> set (kucoin_change num is_asks (p, q) levels))
   \<and> p \<notin> fst ` set (kucoin_change num is_asks (p, JStr ''0'') levels)
   \<and> (q \<noteq> JStr ''0.00000000'' \<longrightarrow> (k, q) \<in> set (kraken_update (k, q) obj))
   \<and> (q \<noteq> JStr ''0.00000000''
       \<and> int (not_behind (asc (\<lambda>x. pf (fst x))) (k, q) (kraken_update (k, q) obj)) \<le> n \<longrightarrow>
      (k, q) \<in> set (slice0 n (kraken_ordered_asks pf
                       \<lparr>kr_asks = Some (kraken_update (k, q) obj), kr_bids = other\<rparr>)))
   \<and> (0 \<le> n \<and> n \<le> int (ahead (asc (\<lambda>x. pf (fst x))) (k, q) (kraken_update (k, q) obj)) \<longrightarrow>
      (k, q) \<notin> set (slice0 n (kraken_ordered_asks pf
                       \<lparr>kr_asks = Some (kraken_update (k, q) obj), kr_bids = other\<rparr>)))
   \<and> (q \<noteq> JStr ''0.00000000''
       \<and> int (not_behind (desc (\<lambda>x. pf (fst x))) (k, q) (kraken_update (k, q) obj)) \<le> n \<longrightarrow>
      (k, q) \<in> set (slice0 n (kraken_ordered_bids pf
                       \<lparr>kr_asks = other, kr_bids = Some (kraken_update (k, q) obj)\<rparr>)))
   \<and> (0 \<le> n \<and> n \<le> int (ahead (desc (\<lambda>x. pf (fst x))) (k, q) (kraken_update (k, q) obj)) \<longrightarrow>
      (k, q) \<notin> set (slice0 n (kraken_ordered_bids pf
                       \<lparr>kr_asks = other, kr_bids = Some (kraken_update (k, q) obj)\<rparr>)))
   \<and> k \<notin> fst ` set (kraken_update (k, JStr ''0.00000000'') obj)"
proof (intro conjI impI)
  assume "q \<noteq> JStr ''0.00000000''"
  then show "\<lparr>price = p, quantity = q, side = sd\<rparr> \<in> set (binance_update sd (p, q) ob)"
    by (rule binance_upsert_mem)
next
  let ?l = "\<lparr>price = p, quantity = q, side = Buy\<rparr>"
  let ?xs = "filter (\<lambda>order. side order = Buy) (binance_update Buy (p, q) ob)"
  assume a: "q \<noteq> JStr ''0.00000000''
       \<and> int (not_behind (desc (\<lambda>order. to_number num (price order))) ?l ?xs) \<le> n"
  then have m: "?l \<in> set ?xs"
    by (simp add: binance_upsert_mem)
  from a have c: "int (not_behind (desc (\<lambda>order. to_number num (price order))) ?l ?xs) \<le> n"
    by simp
  from ranked_in_projection[OF sorted_sort_desc desc_refl m c]
  show "?l \<in> set (binance_bids num n (binance_update Buy (p, q) ob))"
    by (simp add: binance_bids_def)
next
  let ?l = "\<lparr>price = p, quantity = q, side = Buy\<rparr>"
  let ?xs = "filter (\<lambda>order. side order = Buy) (binance_update Buy (p, q) ob)"
  assume a: "0 \<le> n \<and> n \<le> int (ahead (desc (\<lambda>order. to_number num (price order))) ?l ?xs)"
  then have n: "0 \<le> n"
    and c: "n \<le> int (ahead (desc (\<lambda>order. to_number num (price order))) ?l ?xs)"
    by simp_all
  from ranked_out_of_projection[OF sorted_sort_desc desc_refl n c]
  show "?l \<notin> set (binance_bids num n (binance_update Buy (p, q) ob))"
    by (simp add: binance_bids_def)
next
  let ?l = "\<lparr>price = p, quantity = q, side = Sell\<rparr>"
  let ?xs = "filter (\<lambda>order. side order = Sell) (binance_update Sell (p, q) ob)"
  assume a: "q \<noteq> JStr ''0.00000000''
       \<and> int (not_behind (asc (\<lambda>order. to_number num (price order))) ?l ?xs) \<le> n"
  then have m: "?l \<in> set ?xs"
    by (simp add: binance_upsert_mem)
  from a have c: "int (not_behind (asc (\<lambda>order. to_number num (price order))) ?l ?xs) \<le> n"
    by simp
  from ranked_in_projection[OF sorted_sort_asc asc_refl m c]
  show "?l \<in> set (binance_asks num n (binance_update Sell (p, q) ob))"
    by (simp add: binance_asks_def)
next
  let ?l = "\<lparr>price = p, quantity = q, side = Sell\<rparr>"
  let ?xs = "filter (\<lambda>order. side order = Sell) (binance_update Sell (p, q) ob)"
  assume a: "0 \<le> n \<and> n \<le> int (ahead (asc (\<lambda>order. to_number num (price order))) ?l ?xs)"
  then have n: "0 \<le> n"
    and c: "n \<le> int (ahead (asc (\<lambda>order. to_number num (price order))) ?l ?xs)"
    by simp_all
  from ranked_out_of_projection[OF sorted_sort_asc asc_refl n c]
  show "?l \<notin> set (binance_asks num n (binance_update Sell (p, q) ob))"
    by (simp add: binance_asks_def)
next
  assume "distinct (map binance_key ob)"
  then show "(p, sd) \<notin> binance_key ` set (binance_update sd (p, JStr ''0.00000000'') ob)"
    by (rule binance_delete_gone)
next
  assume "q \<noteq> JStr ''0''
       \<and> not_behind (kucoin_le num is_asks) (p, q) (kucoin_upsert p q levels) \<le> m \<and> m \<le> 50"
  then show "(p, q) \<in> set (take m (kucoin_change num is_asks (p, q) levels))"
    by (simp add: kucoin_ranked_in)
next
  assume "q \<noteq> JStr ''0'' \<and> m \<le> ahead (kucoin_le num is_asks) (p, q) (kucoin_upsert p q levels)"
  then show "(p, q) \<notin> set (take m (kucoin_change num is_asks (p, q) levels))"
    by (simp add: kucoin_ranked_out)
next
  assume "q \<noteq> JStr ''0'' \<and> 50 \<le> ahead (kucoin_le num is_asks) (p, q) (kucoin_upsert p q levels)"
  then show "(p, q) \<notin> set (kucoin_change num is_asks (p, q) levels)"
    by (simp add: kucoin_ranked_dropped)
next
  show "p \<notin> fst ` set (kucoin_change num is_asks (p, JStr ''0'') levels)"
    by (rule kucoin_delete_gone)
next
  assume "q \<noteq> JStr ''0.00000000''"
  then show "(k, q) \<in> set (kraken_update (k, q) obj)"
    by (rule kraken_upsert_mem)
next
  assume a: "q \<noteq> JStr ''0.00000000''
       \<and> int (not_behind (asc (\<lambda>x. pf (fst x))) (k, q) (kraken_update (k, q) obj)) \<le> n"
  then have m: "(k, q) \<in> set (toPairs (kraken_update (k, q) obj))"
    by (simp add: set_toPairs kraken_upsert_mem)
  have c: "int (not_behind (asc (\<lambda>x. pf (fst x))) (k, q) (toPairs (kraken_update (k, q) obj))) \<le> n"
    using a by (simp add: not_behind_toPairs)
  from ranked_in_projection[OF sorted_sort_asc asc_refl m c]
  show "(k, q) \<in> set (slice0 n (kraken_ordered_asks pf
                       \<lparr>kr_asks = Some (kraken_update (k, q) obj), kr_bids = other\<rparr>))"
    by (simp add: kraken_ordered_asks_def)
next
  assume a: "0 \<le> n \<and> n \<le> int (ahead (asc (\<lambda>x. pf (fst x))) (k, q) (kraken_update (k, q) obj))"
  then have c: "n \<le> int (ahead (asc (\<lambda>x. pf (fst x))) (k, q) (toPairs (kraken_update (k, q) obj)))"
    by (simp add: ahead_toPairs)
  from a have n: "0 \<le> n" by simp
  from ranked_out_of_projection[OF sorted_sort_asc asc_refl n c]
  show "(k, q) \<notin> set (slice0 n (kraken_ordered_asks pf
                       \<lparr>kr_asks = Some (kraken_update (k, q) obj), kr_bids = other\<rparr>))"
    by (simp add: kraken_ordered_asks_def)
next
  assume a: "q \<noteq> JStr ''0.00000000''
       \<and> int (not_behind (desc (\<lambda>x. pf (fst x))) (k, q) (kraken_update (k, q) obj)) \<le> n"
  then have m: "(k, q) \<in> set (toPairs (kraken_update (k, q) obj))"
    by (simp add: set_toPairs kraken_upsert_mem)
  have c: "int (not_behind (desc (\<lambda>x. pf (fst x))) (k, q) (toPairs (kraken_update (k, q) obj))) \<le> n"
    using a by (simp add: not_behind_toPairs)
  from ranked_in_projection[OF sorted_sort_desc desc_refl m c]
  show "(k, q) \<in> set (slice0 n (kraken_ordered_bids pf
                       \<lparr>kr_asks = other, kr_bids = Some (kraken_update (k, q) obj)\<rparr>))"
    by (simp add: kraken_ordered_bids_def)
next
  assume a: "0 \<le> n \<and> n \<le> int (ahead (desc (\<lambda>x. pf (fst x))) (k, q) (kraken_update (k, q) obj))"
  then have c: "n \<le> int (ahead (desc (\<lambda>x. pf (fst x))) (k, q) (toPairs (kraken_update (k, q) obj)))"
    by (simp add: ahead_toPairs)
  from a have n: "0 \<le> n" by simp
  from ranked_out_of_projection[OF sorted_sort_desc desc_refl n c]
  show "(k, q) \<notin> set (slice0 n (kraken_ordered_bids pf
                       \<lparr>kr_asks = other, kr_bids = Some (kraken_update (k, q) obj)\<rparr>))"
    by (simp add: kraken_ordered_bids_def)
next
  show "k \<notin> fst ` set (kraken_update (k, JStr ''0.00000000'') obj)"
    by (rule kraken_delete_gone)
qed

text \<open>
  The theorem at updates with the sizes \<^verbatim>\<open>"0.0"\<close>, \<^verbatim>\<open>"0.000"\<close> and the Number 0, with one
  level configured. On a side of two levels, the update of a price better than both is
  projected, and the update of the second price is not; a Kucoin side of 50 bids from 100
  upwards does not keep the bid 99.
\<close>

theorem sentinel_deletes_other_sizes_upsert_witness:
  "\<lparr>price = JStr ''101'', quantity = JStr ''0.0'', side = Buy\<rparr>
     \<in> set (binance_bids js_num 1 (binance_update Buy (JStr ''101'', JStr ''0.0'')
          [\<lparr>price = JStr ''100'', quantity = JStr ''1'', side = Buy\<rparr>,
           \<lparr>price = JStr ''99'', quantity = JStr ''2'', side = Buy\<rparr>]))
   \<and> \<lparr>price = JStr ''99'', quantity = JStr ''0.0'', side = Buy\<rparr>
     \<notin> set (binance_bids js_num 1 (binance_update Buy (JStr ''99'', JStr ''0.0'')
          [\<lparr>price = JStr ''100'', quantity = JStr ''1'', side = Buy\<rparr>,
           \<lparr>price = JStr ''99'', quantity = JStr ''2'', side = Buy\<rparr>]))
   \<and> \<lparr>price = JStr ''100'', quantity = JNum (Fin 0), side = Sell\<rparr>
     \<in> set (binance_asks js_num 1 (binance_update Sell (JStr ''100'', JNum (Fin 0))
          [\<lparr>price = JStr ''101'', quantity = JStr ''1'', side = Sell\<rparr>,
           \<lparr>price = JStr ''102'', quantity = JStr ''2'', side = Sell\<rparr>]))
   \<and> \<lparr>price = JStr ''102'', quantity = JStr ''0.000'', side = Sell\<rparr>
     \<notin> set (binance_asks js_num 1 (binance_update Sell (JStr ''102'', JStr ''0.000'')
          [\<lparr>price = JStr ''101'', quantity = JStr ''1'', side = Sell\<rparr>,
           \<lparr>price = JStr ''102'', quantity = JStr ''2'', side = Sell\<rparr>]))
   \<and> (JStr ''100'', Buy) \<notin> binance_key ` set (binance_update Buy (JStr ''100'', JStr ''0.00000000'')
          [\<lparr>price = JStr ''100'', quantity = JStr ''1'', side = Buy\<rparr>,
           \<lparr>price = (JStr ''99'' :: jsnum jval), quantity = JStr ''2'', side = Buy\<rparr>])
   \<and> (JStr ''101'', JStr ''0.0'')
     \<in> set (take 1 (kucoin_change js_num False (JStr ''101'', JStr ''0.0'')
          [(JStr ''100'', JStr ''1''), (JStr ''99'', JStr ''2'')]))
   \<and> (JStr ''99'', JStr ''0.0'')
     \<notin> set (take 1 (kucoin_change js_num False (JStr ''99'', JStr ''0.0'')
          [(JStr ''100'', JStr ''1''), (JStr ''99'', JStr ''2'')]))
   \<and> (JNum (Fin 99), JStr ''0.0'')
     \<notin> set (kucoin_change js_num False (JNum (Fin 99), JStr ''0.0'') fifty_bids)
   \<and> (''99.5'', JStr ''0.0'')
     \<in> set (slice0 1 (kraken_ordered_asks js_num
          \<lparr>kr_asks = Some (kraken_update (''99.5'', JStr ''0.0'')
                              [(''100.0'', JStr ''1''), (''101.0'', JStr ''2'')]),
           kr_bids = None\<rparr>))
   \<and> (''101.0'', JStr ''0.0'')
     \<notin> set (slice0 1 (kraken_ordered_asks js_num
          \<lparr>kr_asks = Some (kraken_update (''101.0'', JStr ''0.0'')
                              [(''100.0'', JStr ''1''), (''101.0'', JStr ''2'')]),
           kr_bids = None\<rparr>))
   \<and> (''99.5'', JStr ''0.0'')
     \<in> set (slice0 1 (kraken_ordered_bids js_num
          \<lparr>kr_asks = None,
           kr_bids = Some (kraken_update (''99.5'', JStr ''0.0'')
                              [(''99.0'', JStr ''1''), (''98.0'', JStr ''2'')])\<rparr>))
   \<and> (''98.0'', JStr ''0.0'')
     \<notin> set (slice0 1 (kraken_ordered_bids js_num
          \<lparr>kr_asks = None,
           kr_bids = Some (kraken_update (''98.0'', JStr ''0.0'')
                              [(''99.0'', JStr ''1''), (''98.0'', JStr ''2'')])\<rparr>))"
proof -
  let ?bb = "[\<lparr>price = JStr ''100'', quantity = JStr ''1'', side = Buy\<rparr>,
           \<lparr>price = (JStr ''99'' :: jsnum jval), quantity = JStr ''2'', side = Buy\<rparr>]"
  let ?ba = "[\<lparr>price = JStr ''101'', quantity = JStr ''1'', side = Sell\<rparr>,
           \<lparr>price = (JStr ''102'' :: jsnum jval), quantity = JStr ''2'', side = Sell\<rparr>]"
  let ?kb = "[(JStr ''100'' :: jsnum jval, JStr ''1'' :: jsnum jval), (JStr ''99'', JStr ''2'')]"
  let ?ra = "[(''100.0'', JStr ''1'' :: jsnum jval), (''101.0'', JStr ''2'')]"
  let ?rb = "[(''99.0'', JStr ''1'' :: jsnum jval), (''98.0'', JStr ''2'')]"
  have nums: "js_num ''99'' = Fin 99" "js_num ''100'' = Fin 100" "js_num ''101'' = Fin 101"
    "js_num ''102'' = Fin 102" "js_num ''99.5'' = Fin (199 / 2)" "js_num ''100.0'' = Fin 100"
    "js_num ''101.0'' = Fin 101" "js_num ''99.0'' = Fin 99" "js_num ''98.0'' = Fin 98"
    by (simp_all add: js_num_def digit_of_def)
  have ne: "(JStr ''0.0'' :: jsnum jval) \<noteq> JStr ''0.00000000''"
    "(JNum (Fin 0) :: jsnum jval) \<noteq> JStr ''0.00000000''"
    "(JStr ''0.000'' :: jsnum jval) \<noteq> JStr ''0.00000000''"
    "(JStr ''0.0'' :: jsnum jval) \<noteq> JStr ''0''"
    by simp_all
  have n1: "(0::int) \<le> 1" by simp
  have m1: "(1::nat) \<le> 50" by simp
  note t = sentinel_deletes_other_sizes_upsert [where num = js_num and pf = js_num and n = 1
      and m = 1 and is_asks = False and other = None]
  have b1: "int (not_behind (desc (\<lambda>order. to_number js_num (price order)))
                \<lparr>price = JStr ''101'', quantity = JStr ''0.0'', side = Buy\<rparr>
                (filter (\<lambda>order. side order = Buy)
                   (binance_update Buy (JStr ''101'', JStr ''0.0'') ?bb))) \<le> 1"
    by (simp add: not_behind_def binance_update_def desc_def to_number_def nums less_eq_jsnum_def)
  have b2: "1 \<le> int (ahead (desc (\<lambda>order. to_number js_num (price order)))
                \<lparr>price = JStr ''99'', quantity = JStr ''0.0'', side = Buy\<rparr>
                (filter (\<lambda>order. side order = Buy)
                   (binance_update Buy (JStr ''99'', JStr ''0.0'') ?bb)))"
    by (simp add: ahead_def binance_update_def desc_def to_number_def nums less_eq_jsnum_def)
  have b3: "int (not_behind (asc (\<lambda>order. to_number js_num (price order)))
                \<lparr>price = JStr ''100'', quantity = JNum (Fin 0), side = Sell\<rparr>
                (filter (\<lambda>order. side order = Sell)
                   (binance_update Sell (JStr ''100'', JNum (Fin 0)) ?ba))) \<le> 1"
    by (simp add: not_behind_def binance_update_def asc_def to_number_def nums less_eq_jsnum_def)
  have b4: "1 \<le> int (ahead (asc (\<lambda>order. to_number js_num (price order)))
                \<lparr>price = JStr ''102'', quantity = JStr ''0.000'', side = Sell\<rparr>
                (filter (\<lambda>order. side order = Sell)
                   (binance_update Sell (JStr ''102'', JStr ''0.000'') ?ba)))"
    by (simp add: ahead_def binance_update_def asc_def to_number_def nums less_eq_jsnum_def)
  have b5: "distinct (map binance_key ?bb)"
    by (simp add: binance_key_def)
  have k1: "not_behind (kucoin_le js_num False) (JStr ''101'', JStr ''0.0'')
              (kucoin_upsert (JStr ''101'') (JStr ''0.0'') ?kb) \<le> 1"
    by (simp add: not_behind_def kucoin_upsert_def kucoin_le_def desc_def to_number_def nums
        less_eq_jsnum_def)
  have k2: "1 \<le> ahead (kucoin_le js_num False) (JStr ''99'', JStr ''0.0'')
              (kucoin_upsert (JStr ''99'') (JStr ''0.0'') ?kb)"
    by (simp add: ahead_def kucoin_upsert_def kucoin_le_def desc_def to_number_def nums
        less_eq_jsnum_def)
  have k3: "50 \<le> ahead (kucoin_le js_num False) (JNum (Fin 99), JStr ''0.0'')
              (kucoin_upsert (JNum (Fin 99)) (JStr ''0.0'') fifty_bids)"
  proof -
    have "JNum (Fin 99) \<notin> fst ` set fifty_bids"
      by (auto simp: fifty_bids_def)
    then have u: "kucoin_upsert (JNum (Fin 99)) (JStr ''0.0'') fifty_bids
        = fifty_bids @ [(JNum (Fin 99), JStr ''0.0'')]"
      by (rule kucoin_upsert_absent)
    have "filter (\<lambda>y. \<not> kucoin_le js_num False (JNum (Fin 99), JStr ''0.0'') y) fifty_bids
        = fifty_bids"
      by (auto simp: filter_id_conv fifty_bids_def kucoin_le_def desc_def to_number_def
          less_eq_jsnum_def)
    then have "50 \<le> length (filter (\<lambda>y. \<not> kucoin_le js_num False (JNum (Fin 99), JStr ''0.0'') y)
        fifty_bids)"
      by (simp add: fifty_bids_def)
    then show ?thesis
      by (simp add: ahead_def u)
  qed
  have r1: "int (not_behind (asc (\<lambda>x. js_num (fst x))) (''99.5'', JStr ''0.0'')
              (kraken_update (''99.5'', JStr ''0.0'') ?ra)) \<le> 1"
    by (simp add: not_behind_def kraken_update_def obj_set_def asc_def nums less_eq_jsnum_def)
  have r2: "1 \<le> int (ahead (asc (\<lambda>x. js_num (fst x))) (''101.0'', JStr ''0.0'')
              (kraken_update (''101.0'', JStr ''0.0'') ?ra))"
    by (simp add: ahead_def kraken_update_def obj_set_def asc_def nums less_eq_jsnum_def)
  have r3: "int (not_behind (desc (\<lambda>x. js_num (fst x))) (''99.5'', JStr ''0.0'')
              (kraken_update (''99.5'', JStr ''0.0'') ?rb)) \<le> 1"
    by (simp add: not_behind_def kraken_update_def obj_set_def desc_def nums less_eq_jsnum_def)
  have r4: "1 \<le> int (ahead (desc (\<lambda>x. js_num (fst x))) (''98.0'', JStr ''0.0'')
              (kraken_update (''98.0'', JStr ''0.0'') ?rb))"
    by (simp add: ahead_def kraken_update_def obj_set_def desc_def nums less_eq_jsnum_def)
  from t [where p = "JStr ''101''" and q = "JStr ''0.0''" and sd = Buy and ob = ?bb
      and levels = ?kb and k = "''99.5''" and obj = ?ra] ne n1 m1 b1 k1 r1
  have 1: "\<lparr>price = JStr ''101'', quantity = JStr ''0.0'', side = Buy\<rparr>
     \<in> set (binance_bids js_num 1 (binance_update Buy (JStr ''101'', JStr ''0.0'') ?bb))"
    and 6: "(JStr ''101'', JStr ''0.0'')
     \<in> set (take 1 (kucoin_change js_num False (JStr ''101'', JStr ''0.0'') ?kb))"
    and 9: "(''99.5'', JStr ''0.0'')
     \<in> set (slice0 1 (kraken_ordered_asks js_num
          \<lparr>kr_asks = Some (kraken_update (''99.5'', JStr ''0.0'') ?ra), kr_bids = None\<rparr>))"
    by blast+
  from t [where p = "JStr ''99''" and q = "JStr ''0.0''" and sd = Buy and ob = ?bb
      and levels = ?kb and k = "''101.0''" and obj = ?ra] ne n1 m1 b2 k2 r2
  have 2: "\<lparr>price = JStr ''99'', quantity = JStr ''0.0'', side = Buy\<rparr>
     \<notin> set (binance_bids js_num 1 (binance_update Buy (JStr ''99'', JStr ''0.0'') ?bb))"
    and 7: "(JStr ''99'', JStr ''0.0'')
     \<notin> set (take 1 (kucoin_change js_num False (JStr ''99'', JStr ''0.0'') ?kb))"
    and 10: "(''101.0'', JStr ''0.0'')
     \<notin> set (slice0 1 (kraken_ordered_asks js_num
          \<lparr>kr_asks = Some (kraken_update (''101.0'', JStr ''0.0'') ?ra), kr_bids = None\<rparr>))"
    by blast+
  from t [where p = "JStr ''100''" and q = "JNum (Fin 0)" and sd = Sell and ob = ?ba
      and levels = ?kb and k = "''99.5''" and obj = ?rb] ne n1 b3
  have 3: "\<lparr>price = JStr ''100'', quantity = JNum (Fin 0), side = Sell\<rparr>
     \<in> set (binance_asks js_num 1 (binance_update Sell (JStr ''100'', JNum (Fin 0)) ?ba))"
    by blast
  from t [where p = "JStr ''102''" and q = "JStr ''0.000''" and sd = Sell and ob = ?ba
      and levels = ?kb and k = "''99.5''" and obj = ?rb] ne n1 b4
  have 4: "\<lparr>price = JStr ''102'', quantity = JStr ''0.000'', side = Sell\<rparr>
     \<notin> set (binance_asks js_num 1 (binance_update Sell (JStr ''102'', JStr ''0.000'') ?ba))"
    by blast
  from t [where p = "JStr ''100''" and q = "JStr ''0.0''" and sd = Buy and ob = ?bb
      and levels = ?kb and k = "''99.5''" and obj = ?rb] b5 ne n1 r3
  have 5: "(JStr ''100'', Buy) \<notin> binance_key ` set (binance_update Buy (JStr ''100'', JStr ''0.00000000'') ?bb)"
    and 11: "(''99.5'', JStr ''0.0'')
     \<in> set (slice0 1 (kraken_ordered_bids js_num
          \<lparr>kr_asks = None, kr_bids = Some (kraken_update (''99.5'', JStr ''0.0'') ?rb)\<rparr>))"
    by blast+
  from t [where p = "JNum (Fin 99)" and q = "JStr ''0.0''" and sd = Buy and ob = ?bb
      and levels = fifty_bids and k = "''98.0''" and obj = ?rb] ne n1 k3 r4
  have 8: "(JNum (Fin 99), JStr ''0.0'')
     \<notin> set (kucoin_change js_num False (JNum (Fin 99), JStr ''0.0'') fifty_bids)"
    and 12: "(''98.0'', JStr ''0.0'')
     \<notin> set (slice0 1 (kraken_ordered_bids js_num
          \<lparr>kr_asks = None, kr_bids = Some (kraken_update (''98.0'', JStr ''0.0'') ?rb)\<rparr>))"
    by blast+
  from 1 2 3 4 5 6 7 8 9 10 11 12 show ?thesis by blast
qed

section \<open>Two upserts to the same key in one batch\<close>




end
